theory Spec2Isabelle
  imports Complex_Main
begin

section \<open>Values shared by the operator layer\<close>

text \<open>
  The embedding follows \<^verbatim>\<open>src/grudge/op.py\<close> and
  \<^verbatim>\<open>src/grudge/symbolic/mappers/__init__.py\<close>.  Array entries are exact real numbers:
  the statements below are about which entries are combined and in which branch, not about
  rounding.  Every \<^verbatim>\<open>raise\<close> of the source is a value \<open>Inl e\<close>.  \<open>NotFinite\<close> is not an
  exception of the program: it stands for a result that holds \<^verbatim>\<open>inf\<close> or \<^verbatim>\<open>nan\<close> (NumPy's
  division by zero), which a real entry cannot hold; the model ends there rather than go on
  with a finite number the program does not have.
\<close>

datatype error =
    TypeError string
  | ValueError string
  | AttributeError string
  | IndexError string
  | AssertionError
  | LinAlgError
  | EinsumShapeError
  | NotFinite

subsection \<open>Domain descriptors\<close>

text \<open>
  The descriptor classes live in \<^verbatim>\<open>grudge/dof_desc.py\<close>, which is not among the sources; only
  their shape is needed: a domain tag crossed with a quadrature (discretization) tag.
  \<^verbatim>\<open>QTAG_NONE\<close> is the base tag, \<^verbatim>\<open>DD_VOLUME\<close> the volume descriptor with the base tag.
\<close>

datatype boundary_tag = BTAG_ALL | BTAG_NONE | BTAG_PARTITION nat | BTAG_NAMED string

datatype domain_tag =
    DTAG_SCALAR
  | DTAG_VOLUME_ALL
  | DTAG_BOUNDARY boundary_tag
  | FACE_RESTR_ALL
  | FACE_RESTR_INTERIOR

datatype quadrature_tag = DISCR_TAG_BASE | DISCR_TAG_QUAD string

datatype dofdesc = DOFDesc (domain_tag: domain_tag) (quadrature_tag: quadrature_tag)

definition QTAG_NONE :: quadrature_tag where
  "QTAG_NONE = DISCR_TAG_BASE"

definition DD_VOLUME :: dofdesc where
  "DD_VOLUME = DOFDesc DTAG_VOLUME_ALL DISCR_TAG_BASE"

definition with_qtag :: "dofdesc \<Rightarrow> quadrature_tag \<Rightarrow> dofdesc" where
  "with_qtag dd q = DOFDesc (domain_tag dd) q"

text \<open>
  A value "convertible to a descriptor": a descriptor itself, a name such as
  \<^verbatim>\<open>"vol"\<close> or \<^verbatim>\<open>"int_faces"\<close>, a boundary tag or a domain tag.
\<close>

datatype dd_value =
    DDDesc dofdesc
  | DDName string
  | DDBoundaryTag boundary_tag
  | DDDomainTag domain_tag

text \<open>
  Modelled from the spec: \<^verbatim>\<open>as_dofdesc\<close> (\<^verbatim>\<open>grudge/dof_desc.py\<close>) is not among the
  sources.  It normalizes a convertible value to a descriptor; a descriptor is returned as it
  is, and the table that reads names and boundary tags is a parameter.
\<close>

definition as_dofdesc :: "(dd_value \<Rightarrow> dofdesc) \<Rightarrow> dd_value \<Rightarrow> dofdesc" where
  "as_dofdesc tbl v = (case v of DDDesc d \<Rightarrow> d | _ \<Rightarrow> tbl v)"

subsection \<open>Arrays and fields\<close>

text \<open>
  A numeric array is its shape and its entries in row-major (C) order.  A field is a plain
  number, a DOF array (one two-dimensional array per element group) or an object array of
  fields, again with its shape and its entries in C order.
\<close>

datatype ndarray = NDArray (shape: "nat list") (entries: "real list")

datatype field =
    Num real
  | DOFArray "ndarray list"
  | ObjArray "nat list" "field list"

fun mapM_err :: "('a \<Rightarrow> error + 'b) \<Rightarrow> 'a list \<Rightarrow> error + 'b list" where
  "mapM_err f [] = Inr []"
| "mapM_err f (x # xs) =
     (case f x of
        Inl e \<Rightarrow> Inl e
      | Inr y \<Rightarrow> (case mapM_err f xs of Inl e \<Rightarrow> Inl e | Inr ys \<Rightarrow> Inr (y # ys)))"

lemma mapM_err_cong [fundef_cong]:
  "xs = ys \<Longrightarrow> (\<And>x. x \<in> set ys \<Longrightarrow> f x = g x) \<Longrightarrow> mapM_err f xs = mapM_err g ys"
  by (induction ys arbitrary: xs) (auto split: sum.splits)

text \<open>
  \<^verbatim>\<open>pytools.obj_array.obj_array_vectorize(f, ary)\<close> on an object array: \<open>f\<close> is applied to
  every entry in index order and the results are stored in an array of the same shape; an
  exception of \<open>f\<close> ends the loop.  The callers below reach it only with an
  \<^verbatim>\<open>np.ndarray\<close>, which in this model is an \<open>ObjArray\<close>.
\<close>

definition obj_array_vectorize ::
  "(field \<Rightarrow> error + field) \<Rightarrow> nat list \<Rightarrow> field list \<Rightarrow> error + field" where
  "obj_array_vectorize f sh xs =
     (case mapM_err f xs of Inl e \<Rightarrow> Inl e | Inr ys \<Rightarrow> Inr (ObjArray sh ys))"

lemma obj_array_vectorize_cong [fundef_cong]:
  assumes "xs = ys" and "sh = sh'" and "\<And>x. x \<in> set ys \<Longrightarrow> f x = g x"
  shows "obj_array_vectorize f sh xs = obj_array_vectorize g sh' ys"
proof -
  have "mapM_err f xs = mapM_err g ys"
    using assms(1,3) by (rule mapM_err_cong)
  then show ?thesis
    unfolding obj_array_vectorize_def using assms(2) by (simp split: sum.split)
qed

subsection \<open>Element groups and the discretization collection\<close>

text \<open>
  An element group as \<^verbatim>\<open>op.py\<close> reads it (the class itself is meshmode's).  The basis
  functions and their gradients are functions of a reference point; \<open>grp_quadrature_weights\<close>
  and \<open>grp_quadrature_exact_to\<close> are \<^verbatim>\<open>quadrature_rule().weights\<close> and
  \<^verbatim>\<open>.exact_to\<close>; \<open>grp_nfaces\<close> is \<^verbatim>\<open>mesh_el_group.nfaces\<close>; the two flags are the
  \<^verbatim>\<open>isinstance\<close> tests of \<^verbatim>\<open>reference_face_mass_matrix\<close>.
\<close>

type_synonym disc_key = "string \<times> nat \<times> nat"

record element_group =
  discretization_key :: disc_key
  grp_index :: nat
  is_affine :: bool
  grp_nelements :: nat
  grp_nunit_dofs :: nat
  grp_order :: nat
  grp_dim :: nat
  grp_unit_nodes :: "real list list"
  grp_basis_functions :: "(real list \<Rightarrow> real) list"
  grp_basis_gradients :: "(real list \<Rightarrow> real list) list"
  grp_quadrature_weights :: "real list"
  grp_quadrature_exact_to :: nat
  grp_nfaces :: nat
  grp_space_dim :: nat
  is_quadrature_simplex_group :: bool
  is_group_with_basis :: bool

text \<open>
  The discretization collection.  \<open>discr_from_dd\<close> gives the element groups of a
  discretization (or raises); \<open>connection_from_dds\<close> is the projection connection applied to
  a DOF array; \<open>area_element\<close> and \<open>inverse_surface_metric_derivative\<close> are the geometry
  provider (\<^verbatim>\<open>grudge.geometry\<close>, not among the sources), each giving one array per group;
  \<open>nodal_l2\<close> and \<open>nodal_linf\<close> are the two bound reductions behind \<^verbatim>\<open>_norm\<close>;
  \<open>connected_ranks\<close> and \<open>boundary_swap_connection\<close> serve the rank-boundary exchange.
\<close>

record dcoll =
  dc_ambient_dim :: nat
  dc_dim :: nat
  discr_from_dd :: "dofdesc \<Rightarrow> error + element_group list"
  connection_from_dds :: "dofdesc \<Rightarrow> dofdesc \<Rightarrow> ndarray list \<Rightarrow> error + ndarray list"
  area_element :: "dofdesc \<Rightarrow> ndarray list"
  inverse_surface_metric_derivative :: "nat \<Rightarrow> nat \<Rightarrow> dofdesc \<Rightarrow> ndarray list"
  nodal_l2 :: "dofdesc \<Rightarrow> field \<Rightarrow> real"
  nodal_linf :: "dofdesc \<Rightarrow> field \<Rightarrow> real"
  connected_ranks :: "nat list"
  boundary_swap_connection :: "dofdesc \<Rightarrow> ndarray list \<Rightarrow> error + ndarray list"

section \<open>Interpolation and projection\<close>

text \<open>
  \<^verbatim>\<open>project(dcoll, src, tgt, vec)\<close>: both descriptors are normalized; equal descriptors return
  \<open>vec\<close>; an \<^verbatim>\<open>np.ndarray\<close> is mapped entry by entry; a number is returned; anything else goes
  through the connection.
\<close>

fun project :: "(dd_value \<Rightarrow> dofdesc) \<Rightarrow> dcoll \<Rightarrow> dd_value \<Rightarrow> dd_value \<Rightarrow> field \<Rightarrow> error + field"
  where
  "project tbl dc src tgt (ObjArray sh xs) =
     (if as_dofdesc tbl src = as_dofdesc tbl tgt then Inr (ObjArray sh xs)
      else obj_array_vectorize
             (\<lambda>el. project tbl dc (DDDesc (as_dofdesc tbl src)) (DDDesc (as_dofdesc tbl tgt)) el)
             sh xs)"
| "project tbl dc src tgt (Num x) =
     (if as_dofdesc tbl src = as_dofdesc tbl tgt then Inr (Num x) else Inr (Num x))"
| "project tbl dc src tgt (DOFArray a) =
     (if as_dofdesc tbl src = as_dofdesc tbl tgt then Inr (DOFArray a)
      else (case connection_from_dds dc (as_dofdesc tbl src) (as_dofdesc tbl tgt) a of
              Inl e \<Rightarrow> Inl e
            | Inr b \<Rightarrow> Inr (DOFArray b)))"

text \<open>\<^verbatim>\<open>interp\<close> warns and forwards to \<^verbatim>\<open>project\<close>.\<close>

definition interp :: "(dd_value \<Rightarrow> dofdesc) \<Rightarrow> dcoll \<Rightarrow> dd_value \<Rightarrow> dd_value \<Rightarrow> field \<Rightarrow> error + field"
  where
  "interp tbl dc src tgt vec = project tbl dc src tgt vec"

section \<open>Nodal reductions\<close>

datatype norm_order = Order real | OrderInf

datatype norm_kind = NormL2 | NormLInf

text \<open>
  Modelled from the spec: \<^verbatim>\<open>sym.norm\<close> (\<^verbatim>\<open>grudge/symbolic/primitives.py\<close>) and \<^verbatim>\<open>bind\<close> are
  not among the sources.  The spec: the reductions are "parameterized by norm order
  (supports order-2 and order-infinity explicitly; other orders are a fatal "unsupported"
  error)".  So building the symbolic norm fails for every other order.
\<close>

definition sym_norm :: "norm_order \<Rightarrow> error + norm_kind" where
  "sym_norm p =
     (if p = Order 2 then Inr NormL2
      else if p = OrderInf then Inr NormLInf
      else Inl (ValueError ''unsupported norm order''))"

text \<open>
  \<^verbatim>\<open>_norm(dcoll, p, dd)(arg=vec)\<close>: the symbolic norm is bound to the collection and evaluated
  on \<open>vec\<close>; the evaluation itself is the collection's.
\<close>

definition norm_bound :: "dcoll \<Rightarrow> norm_order \<Rightarrow> dofdesc \<Rightarrow> field \<Rightarrow> error + real" where
  "norm_bound dc p dd vec =
     (case sym_norm p of
        Inl e \<Rightarrow> Inl e
      | Inr NormL2 \<Rightarrow> Inr (nodal_l2 dc dd vec)
      | Inr NormLInf \<Rightarrow> Inr (nodal_linf dc dd vec))"

text \<open>Python's \<^verbatim>\<open>max\<close> over a sequence: an empty sequence raises \<^verbatim>\<open>ValueError\<close>.\<close>

definition py_max :: "real list \<Rightarrow> error + real" where
  "py_max rs =
     (case rs of
        [] \<Rightarrow> Inl (ValueError ''max() arg is an empty sequence'')
      | r # rest \<Rightarrow> Inr (fold max rest r))"

text \<open>
  \<^verbatim>\<open>norm(dcoll, vec, p, dd=None)\<close>.  On an \<^verbatim>\<open>np.ndarray\<close>: order 2 is the root of the sum of the
  squared norms of the entries, order infinity their maximum, anything else raises.  The
  generator expressions evaluate the entries in index order, so the first failing entry
  decides.
\<close>

fun norm_dd :: "(dd_value \<Rightarrow> dofdesc) \<Rightarrow> dcoll \<Rightarrow> field \<Rightarrow> norm_order \<Rightarrow> dofdesc \<Rightarrow> error + real"
  where
  "norm_dd tbl dc (ObjArray sh xs) p dd =
     (if p = Order 2 then
        (case mapM_err (\<lambda>el. norm_dd tbl dc el p (as_dofdesc tbl (DDDesc dd))) xs of
           Inl e \<Rightarrow> Inl e
         | Inr rs \<Rightarrow> Inr (sqrt (sum_list (map (\<lambda>r. r\<^sup>2) rs))))
      else if p = OrderInf then
        (case mapM_err (\<lambda>el. norm_dd tbl dc el OrderInf (as_dofdesc tbl (DDDesc dd))) xs of
           Inl e \<Rightarrow> Inl e
         | Inr rs \<Rightarrow> py_max rs)
      else Inl (ValueError ''unsupported norm order''))"
| "norm_dd tbl dc vec p dd = norm_bound dc p dd vec"

text \<open>The first lines of \<^verbatim>\<open>norm\<close>: a missing \<open>dd\<close> is \<^verbatim>\<open>"vol"\<close>, then it is normalized.\<close>

definition norm_default_dd :: "(dd_value \<Rightarrow> dofdesc) \<Rightarrow> dd_value option \<Rightarrow> dofdesc" where
  "norm_default_dd tbl dd = as_dofdesc tbl (case dd of None \<Rightarrow> DDName ''vol'' | Some d \<Rightarrow> d)"

definition norm_grudge ::
  "(dd_value \<Rightarrow> dofdesc) \<Rightarrow> dcoll \<Rightarrow> field \<Rightarrow> norm_order \<Rightarrow> dd_value option \<Rightarrow> error + real"
  where
  "norm_grudge tbl dc vec p dd = norm_dd tbl dc vec p (norm_default_dd tbl dd)"

section \<open>Dense arrays and the contractions of the operator layer\<close>

text \<open>
  Entries of an array are read by position; \<open>tabulate2\<close> and \<open>tabulate3\<close> build an array from
  a function of the indices.  The contractions read entries only after the shapes have been
  checked, so every index is in range for an array whose entries fill its shape.
\<close>

definition at1 :: "ndarray \<Rightarrow> nat \<Rightarrow> real" where
  "at1 a i = entries a ! i"

definition at2 :: "ndarray \<Rightarrow> nat \<Rightarrow> nat \<Rightarrow> real" where
  "at2 a i j = entries a ! (i * (shape a ! 1) + j)"

definition at3 :: "ndarray \<Rightarrow> nat \<Rightarrow> nat \<Rightarrow> nat \<Rightarrow> real" where
  "at3 a i j k = entries a ! ((i * (shape a ! 1) + j) * (shape a ! 2) + k)"

definition tabulate2 :: "nat \<Rightarrow> nat \<Rightarrow> (nat \<Rightarrow> nat \<Rightarrow> real) \<Rightarrow> ndarray" where
  "tabulate2 m n f = NDArray [m, n] (concat (map (\<lambda>i. map (\<lambda>j. f i j) [0..<n]) [0..<m]))"

definition tabulate3 :: "nat \<Rightarrow> nat \<Rightarrow> nat \<Rightarrow> (nat \<Rightarrow> nat \<Rightarrow> nat \<Rightarrow> real) \<Rightarrow> ndarray" where
  "tabulate3 l m n f =
     NDArray [l, m, n]
       (concat (map (\<lambda>i. concat (map (\<lambda>j. map (\<lambda>k. f i j k) [0..<n]) [0..<m])) [0..<l]))"

text \<open>
  \<^verbatim>\<open>a.T\<close>.  \<^verbatim>\<open>op.py\<close> transposes only two-dimensional arrays; NumPy leaves arrays of rank below
  two as they are.
\<close>

definition transpose_array :: "ndarray \<Rightarrow> ndarray" where
  "transpose_array a =
     (case shape a of [m, n] \<Rightarrow> tabulate2 n m (\<lambda>i j. at2 a j i) | _ \<Rightarrow> a)"

text \<open>\<^verbatim>\<open>a.dot(b)\<close> for two-dimensional arrays; the inner sizes must agree.\<close>

definition dot :: "ndarray \<Rightarrow> ndarray \<Rightarrow> error + ndarray" where
  "dot a b =
     (case (shape a, shape b) of
        ([m, k], [k', n]) \<Rightarrow>
          if k = k' then Inr (tabulate2 m n (\<lambda>i j. \<Sum>l\<leftarrow>[0..<k]. at2 a i l * at2 b l j))
          else Inl (ValueError ''shapes not aligned'')
      | _ \<Rightarrow> Inl (ValueError ''shapes not aligned''))"

text \<open>
  \<^verbatim>\<open>np.asarray\<close> of a list of arrays stacks arrays of one shape along a new first axis; the
  empty list is the empty one-dimensional array.
\<close>

definition stack_arrays :: "ndarray list \<Rightarrow> error + ndarray" where
  "stack_arrays as =
     (case as of
        [] \<Rightarrow> Inr (NDArray [0] [])
      | a # rest \<Rightarrow>
          if list_all (\<lambda>b. shape b = shape a) rest
          then Inr (NDArray (length as # shape a) (concat (map entries as)))
          else Inl (ValueError ''setting an array element with a sequence''))"

text \<open>Iterating over an array yields its slices along the first axis.\<close>

definition iter_first_axis :: "ndarray \<Rightarrow> error + ndarray list" where
  "iter_first_axis a =
     (case shape a of
        [] \<Rightarrow> Inl (TypeError ''iteration over a 0-d array'')
      | d # rest \<Rightarrow>
          Inr (map (\<lambda>i. NDArray rest (take (prod_list rest) (drop (i * prod_list rest) (entries a))))
                 [0..<d]))"

text \<open>\<^verbatim>\<open>a.reshape(l, m, n)\<close>: the entries stay in order; the sizes must agree.\<close>

definition reshape3 :: "ndarray \<Rightarrow> nat \<Rightarrow> nat \<Rightarrow> nat \<Rightarrow> error + ndarray" where
  "reshape3 a l m n =
     (if prod_list (shape a) = l * m * n then Inr (NDArray [l, m, n] (entries a))
      else Inl (ValueError ''cannot reshape array''))"

text \<open>
  The contractions.  Each is named after its subscripts; sizes bound to one letter must agree
  (a mismatch is \<open>EinsumShapeError\<close>; broadcasting of axes of length one is not modelled), and
  the letters missing from the output are summed in the order in which they first occur.
\<close>

definition einsum_j_ik_jk_ij :: "ndarray \<Rightarrow> ndarray \<Rightarrow> ndarray \<Rightarrow> error + ndarray" where
  "einsum_j_ik_jk_ij w a b =
     (case (shape w, shape a, shape b) of
        ([J], [I, K], [J', K']) \<Rightarrow>
          if J = J' \<and> K = K'
          then Inr (tabulate2 I J (\<lambda>i j. \<Sum>k\<leftarrow>[0..<K]. at1 w j * at2 a i k * at2 b j k))
          else Inl EinsumShapeError
      | _ \<Rightarrow> Inl EinsumShapeError)"

definition einsum_c_bz_acz_abc :: "ndarray \<Rightarrow> ndarray \<Rightarrow> ndarray \<Rightarrow> error + ndarray" where
  "einsum_c_bz_acz_abc w v g =
     (case (shape w, shape v, shape g) of
        ([C], [B, Z], [A, C', Z']) \<Rightarrow>
          if C = C' \<and> Z = Z'
          then Inr (tabulate3 A B C (\<lambda>a b c. \<Sum>z\<leftarrow>[0..<Z]. at1 w c * at2 v b z * at3 g a c z))
          else Inl EinsumShapeError
      | _ \<Rightarrow> Inl EinsumShapeError)"

definition einsum_ij_ej_ej_ei :: "ndarray \<Rightarrow> ndarray \<Rightarrow> ndarray \<Rightarrow> error + ndarray" where
  "einsum_ij_ej_ej_ei a b c =
     (case (shape a, shape b, shape c) of
        ([I, J], [E, J'], [E', J'']) \<Rightarrow>
          if J = J' \<and> J = J'' \<and> E = E'
          then Inr (tabulate2 E I (\<lambda>e i. \<Sum>j\<leftarrow>[0..<J]. at2 a i j * at2 b e j * at2 c e j))
          else Inl EinsumShapeError
      | _ \<Rightarrow> Inl EinsumShapeError)"

definition einsum_ik_km_em_mj_ej_ei ::
  "ndarray \<Rightarrow> ndarray \<Rightarrow> ndarray \<Rightarrow> ndarray \<Rightarrow> ndarray \<Rightarrow> error + ndarray" where
  "einsum_ik_km_em_mj_ej_ei a b c d x =
     (case (shape a, shape b, shape c, shape d, shape x) of
        ([I, K], [K', M], [E, M'], [M'', J], [E', J']) \<Rightarrow>
          if K = K' \<and> M = M' \<and> M = M'' \<and> J = J' \<and> E = E'
          then Inr (tabulate2 E I (\<lambda>e i.
                 \<Sum>k\<leftarrow>[0..<K]. \<Sum>m\<leftarrow>[0..<M]. \<Sum>j\<leftarrow>[0..<J].
                   at2 a i k * at2 b k m * at2 c e m * at2 d m j * at2 x e j))
          else Inl EinsumShapeError
      | _ \<Rightarrow> Inl EinsumShapeError)"

definition einsum_dij_ej_dej_ei :: "ndarray \<Rightarrow> ndarray \<Rightarrow> ndarray \<Rightarrow> error + ndarray" where
  "einsum_dij_ej_dej_ei r v t =
     (case (shape r, shape v, shape t) of
        ([D, I, J], [E, J'], [D', E', J'']) \<Rightarrow>
          if D = D' \<and> J = J' \<and> J = J'' \<and> E = E'
          then Inr (tabulate2 E I (\<lambda>e i.
                 \<Sum>d\<leftarrow>[0..<D]. \<Sum>j\<leftarrow>[0..<J]. at3 r d i j * at2 v e j * at3 t d e j))
          else Inl EinsumShapeError
      | _ \<Rightarrow> Inl EinsumShapeError)"

definition einsum_dej_dij_ej_ej_ei ::
  "ndarray \<Rightarrow> ndarray \<Rightarrow> ndarray \<Rightarrow> ndarray \<Rightarrow> error + ndarray" where
  "einsum_dej_dij_ej_ej_ei t r v a =
     (case (shape t, shape r, shape v, shape a) of
        ([D, E, J], [D', I, J'], [E', J''], [E'', J''']) \<Rightarrow>
          if D = D' \<and> J = J' \<and> J = J'' \<and> J = J''' \<and> E = E' \<and> E = E''
          then Inr (tabulate2 E I (\<lambda>e i.
                 \<Sum>d\<leftarrow>[0..<D]. \<Sum>j\<leftarrow>[0..<J].
                   at3 t d e j * at3 r d i j * at2 v e j * at2 a e j))
          else Inl EinsumShapeError
      | _ \<Rightarrow> Inl EinsumShapeError)"

text \<open>
  The loopy kernel of \<^verbatim>\<open>_apply_face_mass_operator\<close>:
  \<^verbatim>\<open>result[iel,idof] = sum(f, sum(j, mat[idof,f,j] * jac_surf[f,iel,j] * vec[f,iel,j]))\<close>.
\<close>

definition face_mass_knl :: "ndarray \<Rightarrow> ndarray \<Rightarrow> ndarray \<Rightarrow> error + ndarray" where
  "face_mass_knl mat jac_surf vec =
     (case (shape mat, shape jac_surf, shape vec) of
        ([V, F, J], [F', E, J'], [F'', E', J'']) \<Rightarrow>
          if F = F' \<and> F = F'' \<and> J = J' \<and> J = J'' \<and> E = E'
          then Inr (tabulate2 E V (\<lambda>iel idof.
                 \<Sum>f\<leftarrow>[0..<F]. \<Sum>j\<leftarrow>[0..<J].
                   at3 mat idof f j * at3 jac_surf f iel j * at3 vec f iel j))
          else Inl EinsumShapeError
      | _ \<Rightarrow> Inl EinsumShapeError)"

text \<open>
  \<^verbatim>\<open>modepy.vandermonde(functions, nodes)\<close>: the entry \<open>(i, j)\<close> is the \<open>j\<close>-th function at the
  \<open>i\<close>-th node.  For gradients (functions with one value per axis) there is one such matrix
  per axis; in one dimension \<^verbatim>\<open>op.py\<close> wraps the single matrix into a tuple, so the result
  is a list of matrices in every dimension.
\<close>

definition vandermonde :: "(real list \<Rightarrow> real) list \<Rightarrow> real list list \<Rightarrow> ndarray" where
  "vandermonde fs nodes =
     tabulate2 (length nodes) (length fs) (\<lambda>i j. (fs ! j) (nodes ! i))"

definition grad_vandermonde ::
  "nat \<Rightarrow> (real list \<Rightarrow> real list) list \<Rightarrow> real list list \<Rightarrow> ndarray list" where
  "grad_vandermonde naxes gs nodes =
     map (\<lambda>a. tabulate2 (length nodes) (length gs) (\<lambda>i j. (gs ! j) (nodes ! i) ! a))
       [0..<naxes]"

section \<open>The reference-element matrix cache\<close>

subsection \<open>The array context and its memoization\<close>

text \<open>
  A frozen array is an object: it has an identity (\<open>oid\<close>) besides its contents.  The array
  context holds the dictionary of \<^verbatim>\<open>keyed_memoize_in\<close> (\<^verbatim>\<open>pytools\<close>): one table per
  identifier, each keyed by the value of the key function; and the counter from which
  \<^verbatim>\<open>actx.freeze\<close> takes the identity of the object it creates.  The identifiers are the
  function objects that \<^verbatim>\<open>op.py\<close> passes as second argument of \<^verbatim>\<open>keyed_memoize_in\<close>.
\<close>

datatype memo_ident =
    Id_reference_derivative_matrices
  | Id_reference_stiffness_transpose_matrix
  | Id_reference_mass_matrix
  | Id_reference_inverse_mass_matrix

datatype memo_key = Key1 disc_key | Key2 disc_key disc_key

record frozen_array =
  oid :: nat
  arr :: ndarray

record array_context =
  memo :: "memo_ident \<times> memo_key \<Rightarrow> frozen_array option"
  next_oid :: nat

definition freeze :: "ndarray \<Rightarrow> array_context \<Rightarrow> frozen_array \<times> array_context" where
  "freeze a s = (\<lparr>oid = next_oid s, arr = a\<rparr>, s\<lparr>next_oid := Suc (next_oid s)\<rparr>)"

text \<open>
  \<^verbatim>\<open>keyed_memoize_in(container, identifier, key)\<close>: a hit returns the stored object and does
  not run the function; a miss runs it and stores its result; an exception stores nothing.
\<close>

definition keyed_memoize_in ::
  "memo_ident \<Rightarrow> memo_key \<Rightarrow> (array_context \<Rightarrow> (error + frozen_array) \<times> array_context)
   \<Rightarrow> array_context \<Rightarrow> (error + frozen_array) \<times> array_context" where
  "keyed_memoize_in ident k inner s =
     (case memo s (ident, k) of
        Some v \<Rightarrow> (Inr v, s)
      | None \<Rightarrow>
          (case inner s of
             (Inl e, s') \<Rightarrow> (Inl e, s')
           | (Inr v, s') \<Rightarrow> (Inr v, s'\<lparr>memo := (memo s')((ident, k) \<mapsto> v)\<rparr>)))"

text \<open>\<^verbatim>\<open>actx.freeze(actx.from_numpy(a))\<close> for a computation that may have raised.\<close>

definition freeze_result ::
  "error + ndarray \<Rightarrow> array_context \<Rightarrow> (error + frozen_array) \<times> array_context" where
  "freeze_result r s =
     (case r of Inl e \<Rightarrow> (Inl e, s) | Inr a \<Rightarrow> (case freeze a s of (f, s') \<Rightarrow> (Inr f, s')))"

subsection \<open>The numerical libraries\<close>

text \<open>
  What \<^verbatim>\<open>op.py\<close> imports from NumPy, meshmode and modepy, as parameters: the matrix inverse
  (which raises on a singular matrix), uninitialized storage, the closed-form mass and
  differentiation matrices of a group, the inverse mass matrix of a basis at nodes, the faces
  of a group's reference shape, the quadrature chosen for a face and a degree, and the two
  face mass matrix routines.
\<close>

record quadrature =
  quad_nodes :: "real list list"
  quad_weights :: "real list"
  quad_exact_to :: nat

type_synonym face = nat

record numerics =
  linalg_inv :: "ndarray \<Rightarrow> error + ndarray"
  np_empty :: "nat list \<Rightarrow> string \<Rightarrow> ndarray"
  mass_matrix :: "element_group \<Rightarrow> ndarray"
  diff_matrices :: "element_group \<Rightarrow> ndarray list"
  inverse_mass_matrix :: "(real list \<Rightarrow> real) list \<Rightarrow> real list list \<Rightarrow> ndarray"
  faces_for_shape :: "element_group \<Rightarrow> face list"
  quadrature_for_face :: "face \<Rightarrow> nat \<Rightarrow> quadrature"
  nodal_mass_matrix_for_face ::
    "face \<Rightarrow> quadrature \<Rightarrow> (real list \<Rightarrow> real) list \<Rightarrow> (real list \<Rightarrow> real) list
     \<Rightarrow> real list list \<Rightarrow> real list list \<Rightarrow> ndarray"
  nodal_quad_mass_matrix_for_face ::
    "face \<Rightarrow> quadrature \<Rightarrow> (real list \<Rightarrow> real) list \<Rightarrow> real list list \<Rightarrow> ndarray"

definition quadrature_rule :: "element_group \<Rightarrow> quadrature" where
  "quadrature_rule grp =
     \<lparr>quad_nodes = grp_unit_nodes grp, quad_weights = grp_quadrature_weights grp,
      quad_exact_to = grp_quadrature_exact_to grp\<rparr>"

subsection \<open>Derivative matrices\<close>

definition get_ref_derivative_mats ::
  "numerics \<Rightarrow> element_group \<Rightarrow> array_context \<Rightarrow> (error + frozen_array) \<times> array_context" where
  "get_ref_derivative_mats X grp s = freeze_result (stack_arrays (diff_matrices X grp)) s"

definition reference_derivative_matrices ::
  "numerics \<Rightarrow> element_group \<Rightarrow> array_context \<Rightarrow> (error + frozen_array) \<times> array_context" where
  "reference_derivative_matrices X element_group s =
     keyed_memoize_in Id_reference_derivative_matrices
       (Key1 (discretization_key element_group))
       (get_ref_derivative_mats X element_group) s"

subsection \<open>Mass matrix\<close>

text \<open>
  The body of \<^verbatim>\<open>get_ref_mass_mat\<close>: for one and the same group the closed-form mass matrix;
  otherwise the Vandermonde matrix of the output group's basis at its own nodes, inverted
  and transposed, the Vandermonde matrix of that basis at the input group's nodes, and the
  input group's quadrature weights, contracted by \<^verbatim>\<open>"j,ik,jk->ij"\<close>.
\<close>

definition ref_mass_mat_array :: "numerics \<Rightarrow> element_group \<Rightarrow> element_group \<Rightarrow> error + ndarray"
  where
  "ref_mass_mat_array X out_grp in_grp =
     (if out_grp = in_grp then Inr (mass_matrix X out_grp)
      else
        (let basis = grp_basis_functions out_grp;
             vand = vandermonde basis (grp_unit_nodes out_grp);
             o_vand = vandermonde basis (grp_unit_nodes in_grp)
         in case linalg_inv X vand of
              Inl e \<Rightarrow> Inl e
            | Inr vand_inv \<Rightarrow>
                (let vand_inv_t = transpose_array vand_inv;
                     weights = NDArray [length (grp_quadrature_weights in_grp)]
                                 (grp_quadrature_weights in_grp)
                 in einsum_j_ik_jk_ij weights vand_inv_t o_vand)))"

definition get_ref_mass_mat ::
  "numerics \<Rightarrow> element_group \<Rightarrow> element_group \<Rightarrow> array_context
   \<Rightarrow> (error + frozen_array) \<times> array_context" where
  "get_ref_mass_mat X out_grp in_grp s = freeze_result (ref_mass_mat_array X out_grp in_grp) s"

definition reference_mass_matrix ::
  "numerics \<Rightarrow> element_group \<Rightarrow> element_group \<Rightarrow> array_context
   \<Rightarrow> (error + frozen_array) \<times> array_context" where
  "reference_mass_matrix X out_element_group in_element_group s =
     keyed_memoize_in Id_reference_mass_matrix
       (Key2 (discretization_key out_element_group) (discretization_key in_element_group))
       (get_ref_mass_mat X out_element_group in_element_group) s"

subsection \<open>Inverse mass matrix\<close>

definition get_ref_inv_mass_mat ::
  "numerics \<Rightarrow> element_group \<Rightarrow> array_context \<Rightarrow> (error + frozen_array) \<times> array_context" where
  "get_ref_inv_mass_mat X grp s =
     freeze_result (Inr (inverse_mass_matrix X (grp_basis_functions grp) (grp_unit_nodes grp))) s"

definition reference_inverse_mass_matrix ::
  "numerics \<Rightarrow> element_group \<Rightarrow> array_context \<Rightarrow> (error + frozen_array) \<times> array_context" where
  "reference_inverse_mass_matrix X element_group s =
     keyed_memoize_in Id_reference_inverse_mass_matrix
       (Key1 (discretization_key element_group))
       (get_ref_inv_mass_mat X element_group) s"

subsection \<open>Stiffness transpose matrix\<close>

text \<open>
  Same group: \<^verbatim>\<open>dmat.T.dot(mmat.T)\<close> for every derivative matrix, the mass matrix being asked
  for first.  Otherwise the gradient Vandermonde matrices at the input group's nodes,
  contracted by \<^verbatim>\<open>"c,bz,acz->abc"\<close>.
\<close>

definition get_ref_stiffness_transpose_mat ::
  "numerics \<Rightarrow> element_group \<Rightarrow> element_group \<Rightarrow> array_context
   \<Rightarrow> (error + frozen_array) \<times> array_context" where
  "get_ref_stiffness_transpose_mat X out_grp in_grp s =
     (if in_grp = out_grp then
        (case reference_mass_matrix X out_grp in_grp s of
           (Inl e, s1) \<Rightarrow> (Inl e, s1)
         | (Inr mmat, s1) \<Rightarrow>
             (case reference_derivative_matrices X in_grp s1 of
                (Inl e, s2) \<Rightarrow> (Inl e, s2)
              | (Inr dmats, s2) \<Rightarrow>
                  (case iter_first_axis (arr dmats) of
                     Inl e \<Rightarrow> (Inl e, s2)
                   | Inr ds \<Rightarrow>
                       (case mapM_err
                               (\<lambda>dmat. dot (transpose_array dmat) (transpose_array (arr mmat))) ds of
                          Inl e \<Rightarrow> (Inl e, s2)
                        | Inr ms \<Rightarrow> freeze_result (stack_arrays ms) s2))))
      else
        (let vand = vandermonde (grp_basis_functions out_grp) (grp_unit_nodes out_grp);
             grad_vand = grad_vandermonde (grp_dim out_grp) (grp_basis_gradients out_grp)
                           (grp_unit_nodes in_grp)
         in case linalg_inv X vand of
              Inl e \<Rightarrow> (Inl e, s)
            | Inr vand_inv \<Rightarrow>
                (let vand_inv_t = transpose_array vand_inv;
                     weights = NDArray [length (grp_quadrature_weights in_grp)]
                                 (grp_quadrature_weights in_grp)
                 in case stack_arrays grad_vand of
                      Inl e \<Rightarrow> (Inl e, s)
                    | Inr gv \<Rightarrow> freeze_result (einsum_c_bz_acz_abc weights vand_inv_t gv) s)))"

definition reference_stiffness_transpose_matrix ::
  "numerics \<Rightarrow> element_group \<Rightarrow> element_group \<Rightarrow> array_context
   \<Rightarrow> (error + frozen_array) \<times> array_context" where
  "reference_stiffness_transpose_matrix X out_element_group in_element_group s =
     keyed_memoize_in Id_reference_stiffness_transpose_matrix
       (Key2 (discretization_key out_element_group) (discretization_key in_element_group))
       (get_ref_stiffness_transpose_mat X out_element_group in_element_group) s"

subsection \<open>Face mass matrix\<close>

text \<open>
  One face of the loop of \<^verbatim>\<open>get_ref_face_mass_mat\<close>: the quadrature (the face group's own
  rule when it is a quadrature group, which must be exact to the face order \<open>m\<close>; otherwise
  the rule for degree \<open>2 * max n m\<close>), then the nodal routine when the face group has a
  unisolvent basis (the rule must be exact to \<open>m + n\<close>), else the quadrature-based routine.
\<close>

definition face_mass_slice ::
  "numerics \<Rightarrow> element_group \<Rightarrow> element_group \<Rightarrow> face \<Rightarrow> error + ndarray" where
  "face_mass_slice X face_grp vol_grp fc =
     (let n = grp_order vol_grp; m = grp_order face_grp in
      case (if is_quadrature_simplex_group face_grp
            then (if quad_exact_to (quadrature_rule face_grp) < m
                  then Inl (ValueError ''The face quadrature rule is only exact for polynomials of lower degree'')
                  else Inr (quadrature_rule face_grp))
            else Inr (quadrature_for_face X fc (2 * max n m))) of
        Inl e \<Rightarrow> Inl e
      | Inr face_quadrature \<Rightarrow>
          if is_group_with_basis face_grp \<and> grp_space_dim face_grp = grp_nunit_dofs face_grp
          then (if quad_exact_to face_quadrature < m + n
                then Inl (ValueError ''The face quadrature rule is only exact for polynomials of lower degree'')
                else Inr (nodal_mass_matrix_for_face X fc face_quadrature
                            (grp_basis_functions face_grp) (grp_basis_functions vol_grp)
                            (grp_unit_nodes vol_grp) (grp_unit_nodes face_grp)))
          else Inr (nodal_quad_mass_matrix_for_face X fc face_quadrature
                      (grp_basis_functions vol_grp) (grp_unit_nodes vol_grp)))"

text \<open>
  \<^verbatim>\<open>matrix[:, iface, :] = slice\<close>: the face index must exist and the slice must have the
  shape of the target (broadcasting of smaller slices is not modelled).
\<close>

definition set_face_slice :: "ndarray \<Rightarrow> nat \<Rightarrow> ndarray \<Rightarrow> error + ndarray" where
  "set_face_slice matrix iface sl =
     (case shape matrix of
        [V, F, J] \<Rightarrow>
          if \<not> iface < F then Inl (IndexError ''index out of bounds'')
          else if shape sl \<noteq> [V, J] then Inl (ValueError ''could not broadcast input array'')
          else Inr (tabulate3 V F J
                      (\<lambda>i f j. if f = iface then at2 sl i j else at3 matrix i f j))
      | _ \<Rightarrow> Inl (IndexError ''too many indices for array''))"

fun face_mass_loop ::
  "numerics \<Rightarrow> element_group \<Rightarrow> element_group \<Rightarrow> nat \<Rightarrow> face list \<Rightarrow> ndarray \<Rightarrow> error + ndarray"
  where
  "face_mass_loop X face_grp vol_grp iface [] matrix = Inr matrix"
| "face_mass_loop X face_grp vol_grp iface (fc # faces) matrix =
     (case face_mass_slice X face_grp vol_grp fc of
        Inl e \<Rightarrow> Inl e
      | Inr sl \<Rightarrow>
          (case set_face_slice matrix iface sl of
             Inl e \<Rightarrow> Inl e
           | Inr matrix' \<Rightarrow> face_mass_loop X face_grp vol_grp (Suc iface) faces matrix'))"

definition get_ref_face_mass_mat ::
  "numerics \<Rightarrow> string \<Rightarrow> element_group \<Rightarrow> element_group \<Rightarrow> array_context
   \<Rightarrow> (error + frozen_array) \<times> array_context" where
  "get_ref_face_mass_mat X dtype face_grp vol_grp s =
     (let nfaces = grp_nfaces vol_grp in
      if grp_nelements face_grp \<noteq> nfaces * grp_nelements vol_grp then (Inl AssertionError, s)
      else
        (let matrix = np_empty X [grp_nunit_dofs vol_grp, nfaces, grp_nunit_dofs face_grp] dtype;
             faces = faces_for_shape X vol_grp
         in freeze_result (face_mass_loop X face_grp vol_grp 0 faces matrix) s))"

text \<open>
  \<^verbatim>\<open>reference_face_mass_matrix\<close>.  Its decorator reads
  \<^verbatim>\<open>keyed_memoize_in(actx, reference_mass_matrix, ...)\<close>: the identifier is the mass matrix
  function, and the key is the pair of the face group's and the volume group's keys.
\<close>

definition reference_face_mass_matrix ::
  "numerics \<Rightarrow> element_group \<Rightarrow> element_group \<Rightarrow> string \<Rightarrow> array_context
   \<Rightarrow> (error + frozen_array) \<times> array_context" where
  "reference_face_mass_matrix X face_element_group vol_element_group dtype s =
     keyed_memoize_in Id_reference_mass_matrix
       (Key2 (discretization_key face_element_group) (discretization_key vol_element_group))
       (get_ref_face_mass_mat X dtype face_element_group vol_element_group) s"

section \<open>The elementwise operator application layer\<close>

subsection \<open>Loops that thread the array context\<close>

fun mapM_st :: "('a \<Rightarrow> 's \<Rightarrow> (error + 'b) \<times> 's) \<Rightarrow> 'a list \<Rightarrow> 's \<Rightarrow> (error + 'b list) \<times> 's"
  where
  "mapM_st f [] s = (Inr [], s)"
| "mapM_st f (x # xs) s =
     (case f x s of
        (Inl e, s') \<Rightarrow> (Inl e, s')
      | (Inr y, s') \<Rightarrow>
          (case mapM_st f xs s' of
             (Inl e, s'') \<Rightarrow> (Inl e, s'')
           | (Inr ys, s'') \<Rightarrow> (Inr (y # ys), s'')))"

lemma mapM_st_cong [fundef_cong]:
  "xs = ys \<Longrightarrow> s = t \<Longrightarrow> (\<And>x u. x \<in> set ys \<Longrightarrow> f x u = g x u)
   \<Longrightarrow> mapM_st f xs s = mapM_st g ys t"
  by (induction ys arbitrary: xs s t) (auto split: sum.splits prod.splits)

text \<open>
  \<^verbatim>\<open>obj_array_vectorize\<close> for a function that uses the array context: the entries are
  visited in index order, each seeing what the earlier ones left in the cache.
\<close>

definition obj_array_vectorize_st ::
  "(field \<Rightarrow> 's \<Rightarrow> (error + field) \<times> 's) \<Rightarrow> nat list \<Rightarrow> field list \<Rightarrow> 's
   \<Rightarrow> (error + field) \<times> 's" where
  "obj_array_vectorize_st f sh xs s =
     (case mapM_st f xs s of
        (Inl e, s') \<Rightarrow> (Inl e, s')
      | (Inr ys, s') \<Rightarrow> (Inr (ObjArray sh ys), s'))"

lemma obj_array_vectorize_st_cong [fundef_cong]:
  assumes "xs = ys" and "sh = sh'" and "s = t" and "\<And>x u. x \<in> set ys \<Longrightarrow> f x u = g x u"
  shows "obj_array_vectorize_st f sh xs s = obj_array_vectorize_st g sh' ys t"
proof -
  have "mapM_st f xs s = mapM_st g ys t"
    using assms(1,3,4) by (rule mapM_st_cong)
  then show ?thesis
    unfolding obj_array_vectorize_st_def using assms(2) by (simp split: sum.split prod.split)
qed

text \<open>
  Reading an attribute of the field (\<^verbatim>\<open>vec.array_context\<close>, \<^verbatim>\<open>vec.entry_dtype\<close>) succeeds
  on a DOF array only: a Python number and an \<^verbatim>\<open>np.ndarray\<close> have no such attribute.
\<close>

definition dof_data :: "string \<Rightarrow> field \<Rightarrow> error + ndarray list" where
  "dof_data attr vec =
     (case vec of
        DOFArray v \<Rightarrow> Inr v
      | Num x \<Rightarrow> Inl (AttributeError attr)
      | ObjArray sh xs \<Rightarrow> Inl (AttributeError attr))"

subsection \<open>Mass operator\<close>

definition mass_group ::
  "numerics \<Rightarrow> element_group \<times> element_group \<times> ndarray \<times> ndarray \<Rightarrow> array_context
   \<Rightarrow> (error + ndarray) \<times> array_context" where
  "mass_group X t s =
     (case t of (in_grp, out_grp, ae_i, vec_i) \<Rightarrow>
        (case reference_mass_matrix X out_grp in_grp s of
           (Inl e, s') \<Rightarrow> (Inl e, s')
         | (Inr m, s') \<Rightarrow> (einsum_ij_ej_ej_ei (arr m) ae_i vec_i, s')))"

definition apply_mass_operator ::
  "numerics \<Rightarrow> dcoll \<Rightarrow> dofdesc \<Rightarrow> dofdesc \<Rightarrow> field \<Rightarrow> array_context
   \<Rightarrow> (error + field) \<times> array_context" where
  "apply_mass_operator X dc dd_out dd_in vec s =
     (case discr_from_dd dc dd_in of
        Inl e \<Rightarrow> (Inl e, s)
      | Inr in_groups \<Rightarrow>
          (case discr_from_dd dc dd_out of
             Inl e \<Rightarrow> (Inl e, s)
           | Inr out_groups \<Rightarrow>
               (case dof_data ''array_context'' vec of
                  Inl e \<Rightarrow> (Inl e, s)
                | Inr v \<Rightarrow>
                    (let area_elements = area_element dc dd_in in
                     case mapM_st (mass_group X)
                            (zip in_groups (zip out_groups (zip area_elements v))) s of
                       (Inl e, s') \<Rightarrow> (Inl e, s')
                     | (Inr data, s') \<Rightarrow> (Inr (DOFArray data), s')))))"

text \<open>
  The ways \<^verbatim>\<open>mass(dcoll, *args)\<close> and its siblings can be called: with the field alone, with
  a descriptor and the field, or with any other number of arguments.
\<close>

datatype vec_args = Args1 field | Args2 dofdesc field | ArgsOther

fun mass_vec ::
  "numerics \<Rightarrow> dcoll \<Rightarrow> dofdesc \<Rightarrow> field \<Rightarrow> array_context \<Rightarrow> (error + field) \<times> array_context"
  where
  "mass_vec X dc dd (ObjArray sh xs) s =
     obj_array_vectorize_st (\<lambda>el u. mass_vec X dc dd el u) sh xs s"
| "mass_vec X dc dd vec s = apply_mass_operator X dc DD_VOLUME dd vec s"

definition mass ::
  "numerics \<Rightarrow> dcoll \<Rightarrow> vec_args \<Rightarrow> array_context \<Rightarrow> (error + field) \<times> array_context" where
  "mass X dc args s =
     (case args of
        Args1 vec \<Rightarrow> mass_vec X dc (DOFDesc DTAG_VOLUME_ALL QTAG_NONE) vec s
      | Args2 dd vec \<Rightarrow> mass_vec X dc dd vec s
      | ArgsOther \<Rightarrow> (Inl (TypeError ''invalid number of arguments''), s))"

subsection \<open>Mass inverse operator\<close>

text \<open>
  \<^verbatim>\<open>1./area_element(...)\<close>, entry by entry.  At an entry \<open>0\<close> the program goes on with
  \<^verbatim>\<open>inf\<close>; here the result is \<open>NotFinite\<close>.
\<close>

definition reciprocal :: "ndarray \<Rightarrow> error + ndarray" where
  "reciprocal a =
     (if 0 \<in> set (entries a) then Inl NotFinite
      else Inr (NDArray (shape a) (map (\<lambda>x. 1 / x) (entries a))))"

text \<open>
  One group of the weight-adjusted branch: the reference mass matrix of the group, then its
  reference inverse mass matrix, then \<^verbatim>\<open>"ik,km,em,mj,ej->ei"\<close> on
  \<^verbatim>\<open>(ref_mass_inv, ref_mass, jac_inv, ref_mass_inv, x)\<close>.
\<close>

definition wadg_group ::
  "numerics \<Rightarrow> element_group \<times> ndarray \<times> ndarray \<Rightarrow> array_context
   \<Rightarrow> (error + ndarray) \<times> array_context" where
  "wadg_group X t s =
     (case t of (grp, jac_inv, x) \<Rightarrow>
        (case reference_mass_matrix X grp grp s of
           (Inl e, s1) \<Rightarrow> (Inl e, s1)
         | (Inr ref_mass, s1) \<Rightarrow>
             (case reference_inverse_mass_matrix X grp s1 of
                (Inl e, s2) \<Rightarrow> (Inl e, s2)
              | (Inr ref_mass_inv, s2) \<Rightarrow>
                  (einsum_ik_km_em_mj_ej_ei (arr ref_mass_inv) (arr ref_mass) jac_inv
                     (arr ref_mass_inv) x, s2))))"

text \<open>One group of the affine branch: \<^verbatim>\<open>"ij,ej,ej->ei"\<close> on \<^verbatim>\<open>(mass_inv_mat, iae_i, vec_i)\<close>.\<close>

definition inverse_mass_group ::
  "numerics \<Rightarrow> element_group \<times> ndarray \<times> ndarray \<Rightarrow> array_context
   \<Rightarrow> (error + ndarray) \<times> array_context" where
  "inverse_mass_group X t s =
     (case t of (grp, iae_i, vec_i) \<Rightarrow>
        (case reference_inverse_mass_matrix X grp s of
           (Inl e, s') \<Rightarrow> (Inl e, s')
         | (Inr m, s') \<Rightarrow> (einsum_ij_ej_ej_ei (arr m) iae_i vec_i, s')))"

definition apply_inverse_mass_operator ::
  "numerics \<Rightarrow> dcoll \<Rightarrow> dofdesc \<Rightarrow> dofdesc \<Rightarrow> field \<Rightarrow> array_context
   \<Rightarrow> (error + field) \<times> array_context" where
  "apply_inverse_mass_operator X dc dd_out dd_in vec s =
     (if dd_out \<noteq> dd_in
      then (Inl (ValueError ''Cannot compute inverse of a mass matrix mapping between different element groups; inverse is not guaranteed to be well-defined''), s)
      else
        (case discr_from_dd dc dd_in of
           Inl e \<Rightarrow> (Inl e, s)
         | Inr groups \<Rightarrow>
             (let use_wadg = \<not> list_all is_affine groups in
              case dof_data ''array_context'' vec of
                Inl e \<Rightarrow> (Inl e, s)
              | Inr v \<Rightarrow>
                  (case mapM_err reciprocal (area_element dc dd_in) of
                     Inl e \<Rightarrow> (Inl e, s)
                   | Inr inv_area_elements \<Rightarrow>
                       (case mapM_st (if use_wadg then wadg_group X else inverse_mass_group X)
                               (zip groups (zip inv_area_elements v)) s of
                          (Inl e, s') \<Rightarrow> (Inl e, s')
                        | (Inr data, s') \<Rightarrow> (Inr (DOFArray data), s'))))))"

fun inverse_mass ::
  "numerics \<Rightarrow> dcoll \<Rightarrow> field \<Rightarrow> array_context \<Rightarrow> (error + field) \<times> array_context" where
  "inverse_mass X dc (ObjArray sh xs) s =
     obj_array_vectorize_st (\<lambda>el u. inverse_mass X dc el u) sh xs s"
| "inverse_mass X dc vec s = apply_inverse_mass_operator X dc DD_VOLUME DD_VOLUME vec s"

subsection \<open>Face mass operator\<close>

text \<open>
  One pair of groups of \<^verbatim>\<open>_apply_face_mass_operator\<close>: the face mass matrix, the views of the
  field and of the surface area elements reshaped to \<open>(nfaces, nelements, nunit_dofs)\<close>, and
  the kernel writing into the result of the volume group.
\<close>

definition nth_or_raise :: "'a list \<Rightarrow> nat \<Rightarrow> error + 'a" where
  "nth_or_raise xs i = (if i < length xs then Inr (xs ! i) else Inl (IndexError ''index out of range''))"

definition face_mass_group ::
  "numerics \<Rightarrow> string \<Rightarrow> ndarray list \<Rightarrow> ndarray list \<Rightarrow> element_group \<times> element_group
   \<Rightarrow> ndarray list \<times> array_context \<Rightarrow> (error + ndarray list) \<times> array_context" where
  "face_mass_group X dtype v surf_area_elements t rs =
     (case (t, rs) of ((afgrp, volgrp), (result, s)) \<Rightarrow>
        (let nfaces = grp_nfaces volgrp in
         case reference_face_mass_matrix X afgrp volgrp dtype s of
           (Inl e, s') \<Rightarrow> (Inl e, s')
         | (Inr matrix, s') \<Rightarrow>
             (case nth_or_raise v (grp_index afgrp) of
                Inl e \<Rightarrow> (Inl e, s')
              | Inr vec_f \<Rightarrow>
             (case reshape3 vec_f nfaces (grp_nelements volgrp) (grp_nunit_dofs afgrp) of
                Inl e \<Rightarrow> (Inl e, s')
              | Inr input_view \<Rightarrow>
             (case nth_or_raise surf_area_elements (grp_index afgrp) of
                Inl e \<Rightarrow> (Inl e, s')
              | Inr jac_f \<Rightarrow>
             (case reshape3 jac_f nfaces (grp_nelements volgrp) (grp_nunit_dofs afgrp) of
                Inl e \<Rightarrow> (Inl e, s')
              | Inr jac_surf \<Rightarrow>
             (case nth_or_raise result (grp_index volgrp) of
                Inl e \<Rightarrow> (Inl e, s')
              | Inr target \<Rightarrow>
             (case face_mass_knl (arr matrix) jac_surf input_view of
                Inl e \<Rightarrow> (Inl e, s')
              | Inr out \<Rightarrow>
                  if shape out = shape target
                  then (Inr (result[grp_index volgrp := out]), s')
                  else (Inl EinsumShapeError, s')))))))))"

fun face_mass_groups ::
  "numerics \<Rightarrow> string \<Rightarrow> ndarray list \<Rightarrow> ndarray list \<Rightarrow> (element_group \<times> element_group) list
   \<Rightarrow> ndarray list \<times> array_context \<Rightarrow> (error + ndarray list) \<times> array_context" where
  "face_mass_groups X dtype v sae [] rs = (Inr (fst rs), snd rs)"
| "face_mass_groups X dtype v sae (t # ts) rs =
     (case face_mass_group X dtype v sae t rs of
        (Inl e, s') \<Rightarrow> (Inl e, s')
      | (Inr result', s') \<Rightarrow> face_mass_groups X dtype v sae ts (result', s'))"

definition entry_dtype :: string where
  "entry_dtype = ''float64''"

definition apply_face_mass_operator ::
  "numerics \<Rightarrow> dcoll \<Rightarrow> dofdesc \<Rightarrow> field \<Rightarrow> array_context \<Rightarrow> (error + field) \<times> array_context"
  where
  "apply_face_mass_operator X dc dd vec s =
     (case discr_from_dd dc DD_VOLUME of
        Inl e \<Rightarrow> (Inl e, s)
      | Inr volm_groups \<Rightarrow>
          (case discr_from_dd dc dd of
             Inl e \<Rightarrow> (Inl e, s)
           | Inr face_groups \<Rightarrow>
               (case dof_data ''entry_dtype'' vec of
                  Inl e \<Rightarrow> (Inl e, s)
                | Inr v \<Rightarrow>
                    (let surf_area_elements = area_element dc dd;
                         result = map (\<lambda>g. np_empty X [grp_nelements g, grp_nunit_dofs g] entry_dtype)
                                    volm_groups
                     in if length face_groups \<noteq> length volm_groups then (Inl AssertionError, s)
                        else
                          (case face_mass_groups X entry_dtype v surf_area_elements
                                  (zip face_groups volm_groups) (result, s) of
                             (Inl e, s') \<Rightarrow> (Inl e, s')
                           | (Inr data, s') \<Rightarrow> (Inr (DOFArray data), s'))))))"

fun face_mass_vec ::
  "numerics \<Rightarrow> dcoll \<Rightarrow> dofdesc \<Rightarrow> field \<Rightarrow> array_context \<Rightarrow> (error + field) \<times> array_context"
  where
  "face_mass_vec X dc dd (ObjArray sh xs) s =
     obj_array_vectorize_st (\<lambda>el u. face_mass_vec X dc dd el u) sh xs s"
| "face_mass_vec X dc dd vec s = apply_face_mass_operator X dc dd vec s"

definition face_mass ::
  "numerics \<Rightarrow> dcoll \<Rightarrow> vec_args \<Rightarrow> array_context \<Rightarrow> (error + field) \<times> array_context" where
  "face_mass X dc args s =
     (case args of
        Args1 vec \<Rightarrow> face_mass_vec X dc (DOFDesc FACE_RESTR_ALL QTAG_NONE) vec s
      | Args2 dd vec \<Rightarrow> face_mass_vec X dc dd vec s
      | ArgsOther \<Rightarrow> (Inl (TypeError ''invalid number of arguments''), s))"

subsection \<open>Derivative operators\<close>

text \<open>
  The tensor \<^verbatim>\<open>inverse_jac_t\<close>: for every reference axis the inverse metric derivative of
  the first group (\<^verbatim>\<open>[0]\<close>), stacked.
\<close>

definition inverse_jac_t_tensor :: "dcoll \<Rightarrow> nat \<Rightarrow> dofdesc \<Rightarrow> error + ndarray" where
  "inverse_jac_t_tensor dc xyz_axis dd =
     (case mapM_err
             (\<lambda>rst_axis. nth_or_raise (inverse_surface_metric_derivative dc rst_axis xyz_axis dd) 0)
             [0..<dc_dim dc] of
        Inl e \<Rightarrow> Inl e
      | Inr ts \<Rightarrow> stack_arrays ts)"

definition local_gradient_group ::
  "numerics \<Rightarrow> ndarray \<Rightarrow> element_group \<times> ndarray \<Rightarrow> array_context
   \<Rightarrow> (error + ndarray) \<times> array_context" where
  "local_gradient_group X inverse_jac_t t s =
     (case t of (grp, vec_i) \<Rightarrow>
        (case reference_derivative_matrices X grp s of
           (Inl e, s') \<Rightarrow> (Inl e, s')
         | (Inr r, s') \<Rightarrow> (einsum_dij_ej_dej_ei (arr r) vec_i inverse_jac_t, s')))"

definition compute_local_gradient ::
  "numerics \<Rightarrow> dcoll \<Rightarrow> field \<Rightarrow> nat \<Rightarrow> array_context \<Rightarrow> (error + field) \<times> array_context"
  where
  "compute_local_gradient X dc vec xyz_axis s =
     (case discr_from_dd dc DD_VOLUME of
        Inl e \<Rightarrow> (Inl e, s)
      | Inr groups \<Rightarrow>
          (case dof_data ''array_context'' vec of
             Inl e \<Rightarrow> (Inl e, s)
           | Inr v \<Rightarrow>
               (case inverse_jac_t_tensor dc xyz_axis DD_VOLUME of
                  Inl e \<Rightarrow> (Inl e, s)
                | Inr inverse_jac_t \<Rightarrow>
                    (case mapM_st (local_gradient_group X inverse_jac_t) (zip groups v) s of
                       (Inl e, s') \<Rightarrow> (Inl e, s')
                     | (Inr data, s') \<Rightarrow> (Inr (DOFArray data), s')))))"

text \<open>
  \<^verbatim>\<open>make_obj_array([f(xyz_axis) for xyz_axis in range(dcoll.dim)])\<close>: a one-dimensional
  object array with one entry per axis.
\<close>

definition per_axis_array ::
  "(nat \<Rightarrow> array_context \<Rightarrow> (error + field) \<times> array_context) \<Rightarrow> nat \<Rightarrow> array_context
   \<Rightarrow> (error + field) \<times> array_context" where
  "per_axis_array f n s =
     (case mapM_st f [0..<n] s of
        (Inl e, s') \<Rightarrow> (Inl e, s')
      | (Inr ys, s') \<Rightarrow> (Inr (ObjArray [n] ys), s'))"

definition local_grad ::
  "numerics \<Rightarrow> dcoll \<Rightarrow> field \<Rightarrow> array_context \<Rightarrow> (error + field) \<times> array_context" where
  "local_grad X dc vec s =
     per_axis_array (\<lambda>xyz_axis. compute_local_gradient X dc vec xyz_axis) (dc_dim dc) s"

definition local_d_dx ::
  "numerics \<Rightarrow> dcoll \<Rightarrow> nat \<Rightarrow> field \<Rightarrow> array_context \<Rightarrow> (error + field) \<times> array_context"
  where
  "local_d_dx X dc xyz_axis vec s = compute_local_gradient X dc vec xyz_axis s"

text \<open>
  Python's \<^verbatim>\<open>+\<close> on what the derivative functions return (DOF arrays) and on the start
  value \<open>0\<close> of \<^verbatim>\<open>sum\<close>: a number is added to every entry; two DOF arrays are added group by
  group and must agree in their shapes.
\<close>

definition array_add :: "ndarray \<Rightarrow> ndarray \<Rightarrow> error + ndarray" where
  "array_add a b =
     (if shape a = shape b then Inr (NDArray (shape a) (map2 (+) (entries a) (entries b)))
      else Inl (ValueError ''operands could not be broadcast together''))"

fun field_add :: "field \<Rightarrow> field \<Rightarrow> error + field" where
  "field_add (Num a) (Num b) = Inr (Num (a + b))"
| "field_add (Num a) (DOFArray v) =
     Inr (DOFArray (map (\<lambda>g. NDArray (shape g) (map (\<lambda>x. a + x) (entries g))) v))"
| "field_add (DOFArray v) (Num b) =
     Inr (DOFArray (map (\<lambda>g. NDArray (shape g) (map (\<lambda>x. x + b) (entries g))) v))"
| "field_add (DOFArray u) (DOFArray v) =
     (if length u \<noteq> length v then Inl (TypeError ''DOFArrays with different numbers of groups'')
      else (case mapM_err (\<lambda>p. array_add (fst p) (snd p)) (zip u v) of
              Inl e \<Rightarrow> Inl e
            | Inr w \<Rightarrow> Inr (DOFArray w)))"
| "field_add a b = Inl (TypeError ''unsupported operand type(s) for +'')"

text \<open>
  \<^verbatim>\<open>sum(diff_func(i, vec_i) for i, vec_i in enumerate(vecs))\<close>: the terms are computed in
  order, each added to the running sum, which starts at \<open>0\<close>.
\<close>

fun sum_diff ::
  "(nat \<Rightarrow> field \<Rightarrow> array_context \<Rightarrow> (error + field) \<times> array_context) \<Rightarrow> nat \<Rightarrow> field list
   \<Rightarrow> field \<Rightarrow> array_context \<Rightarrow> (error + field) \<times> array_context" where
  "sum_diff diff_func i [] acc s = (Inr acc, s)"
| "sum_diff diff_func i (vec_i # rest) acc s =
     (case diff_func i vec_i s of
        (Inl e, s') \<Rightarrow> (Inl e, s')
      | (Inr term, s') \<Rightarrow>
          (case field_add acc term of
             Inl e \<Rightarrow> (Inl e, s')
           | Inr acc' \<Rightarrow> sum_diff diff_func (Suc i) rest acc' s'))"

text \<open>The rows \<^verbatim>\<open>vecs[idx]\<close> for \<open>idx\<close> over all but the last axis, in index order.\<close>

fun chunks :: "nat \<Rightarrow> nat \<Rightarrow> 'a list \<Rightarrow> 'a list list" where
  "chunks 0 n xs = []"
| "chunks (Suc k) n xs = take n xs # chunks k n (drop n xs)"

definition div_helper ::
  "dcoll \<Rightarrow> (nat \<Rightarrow> field \<Rightarrow> array_context \<Rightarrow> (error + field) \<times> array_context) \<Rightarrow> field
   \<Rightarrow> array_context \<Rightarrow> (error + field) \<times> array_context" where
  "div_helper dc diff_func vecs s =
     (case vecs of
        ObjArray sh xs \<Rightarrow>
          (if sh = [] then (Inl (IndexError ''tuple index out of range''), s)
           else if last sh \<noteq> dc_ambient_dim dc
           then (Inl (ValueError ''last dimension of *vecs* argument must match ambient dimension''), s)
           else if length sh = 1 then sum_diff diff_func 0 xs (Num 0) s
           else
             (case mapM_st (\<lambda>row. sum_diff diff_func 0 row (Num 0))
                     (chunks (prod_list (butlast sh)) (last sh) xs) s of
                (Inl e, s') \<Rightarrow> (Inl e, s')
              | (Inr ys, s') \<Rightarrow> (Inr (ObjArray (butlast sh) ys), s')))
      | _ \<Rightarrow> (Inl (TypeError ''argument must be an object array''), s))"

definition local_div ::
  "numerics \<Rightarrow> dcoll \<Rightarrow> field \<Rightarrow> array_context \<Rightarrow> (error + field) \<times> array_context" where
  "local_div X dc vecs s = div_helper dc (\<lambda>i subvec. local_d_dx X dc i subvec) vecs s"

subsection \<open>Weak derivative operators\<close>

definition stiffness_transpose_group ::
  "numerics \<Rightarrow> ndarray \<Rightarrow> element_group \<times> element_group \<times> ndarray \<times> ndarray \<Rightarrow> array_context
   \<Rightarrow> (error + ndarray) \<times> array_context" where
  "stiffness_transpose_group X inverse_jac_t t s =
     (case t of (out_grp, in_grp, vec_i, ae_i) \<Rightarrow>
        (case reference_stiffness_transpose_matrix X out_grp in_grp s of
           (Inl e, s') \<Rightarrow> (Inl e, s')
         | (Inr r, s') \<Rightarrow> (einsum_dej_dij_ej_ej_ei inverse_jac_t (arr r) vec_i ae_i, s')))"

definition apply_stiffness_transpose_operator ::
  "numerics \<Rightarrow> dcoll \<Rightarrow> dofdesc \<Rightarrow> dofdesc \<Rightarrow> field \<Rightarrow> nat \<Rightarrow> array_context
   \<Rightarrow> (error + field) \<times> array_context" where
  "apply_stiffness_transpose_operator X dc dd_out dd_in vec xyz_axis s =
     (case discr_from_dd dc dd_in of
        Inl e \<Rightarrow> (Inl e, s)
      | Inr in_groups \<Rightarrow>
          (case discr_from_dd dc dd_out of
             Inl e \<Rightarrow> (Inl e, s)
           | Inr out_groups \<Rightarrow>
               (case dof_data ''array_context'' vec of
                  Inl e \<Rightarrow> (Inl e, s)
                | Inr v \<Rightarrow>
                    (let area_elements = area_element dc dd_in in
                     case inverse_jac_t_tensor dc xyz_axis dd_in of
                       Inl e \<Rightarrow> (Inl e, s)
                     | Inr inverse_jac_t \<Rightarrow>
                         (case mapM_st (stiffness_transpose_group X inverse_jac_t)
                                 (zip out_groups (zip in_groups (zip v area_elements))) s of
                            (Inl e, s') \<Rightarrow> (Inl e, s')
                          | (Inr data, s') \<Rightarrow> (Inr (DOFArray data), s'))))))"

definition weak_local_grad ::
  "numerics \<Rightarrow> dcoll \<Rightarrow> vec_args \<Rightarrow> array_context \<Rightarrow> (error + field) \<times> array_context" where
  "weak_local_grad X dc args s =
     (case args of
        Args1 vec \<Rightarrow>
          per_axis_array
            (\<lambda>xyz_axis. apply_stiffness_transpose_operator X dc DD_VOLUME
                          (DOFDesc DTAG_VOLUME_ALL DISCR_TAG_BASE) vec xyz_axis)
            (dc_dim dc) s
      | Args2 dd vec \<Rightarrow>
          per_axis_array
            (\<lambda>xyz_axis. apply_stiffness_transpose_operator X dc DD_VOLUME dd vec xyz_axis)
            (dc_dim dc) s
      | ArgsOther \<Rightarrow> (Inl (TypeError ''invalid number of arguments''), s))"

text \<open>
  \<^verbatim>\<open>weak_local_d_dx(dcoll, *args)\<close> is called with \<open>(xyz_axis, vec)\<close>, with
  \<open>(dd, xyz_axis, vec)\<close>, or with any other number of arguments.
\<close>

datatype axis_args = AxisArgs2 nat field | AxisArgs3 dofdesc nat field | AxisArgsOther

definition weak_local_d_dx ::
  "numerics \<Rightarrow> dcoll \<Rightarrow> axis_args \<Rightarrow> array_context \<Rightarrow> (error + field) \<times> array_context" where
  "weak_local_d_dx X dc args s =
     (case args of
        AxisArgs2 xyz_axis vec \<Rightarrow>
          apply_stiffness_transpose_operator X dc DD_VOLUME
            (DOFDesc DTAG_VOLUME_ALL DISCR_TAG_BASE) vec xyz_axis s
      | AxisArgs3 dd xyz_axis vec \<Rightarrow>
          apply_stiffness_transpose_operator X dc DD_VOLUME dd vec xyz_axis s
      | AxisArgsOther \<Rightarrow> (Inl (TypeError ''invalid number of arguments''), s))"

definition weak_local_div ::
  "numerics \<Rightarrow> dcoll \<Rightarrow> vec_args \<Rightarrow> array_context \<Rightarrow> (error + field) \<times> array_context" where
  "weak_local_div X dc args s =
     (case args of
        Args1 vecs \<Rightarrow>
          div_helper dc
            (\<lambda>i subvec. weak_local_d_dx X dc
                           (AxisArgs3 (DOFDesc DTAG_VOLUME_ALL DISCR_TAG_BASE) i subvec))
            vecs s
      | Args2 dd vecs \<Rightarrow>
          div_helper dc (\<lambda>i subvec. weak_local_d_dx X dc (AxisArgs3 dd i subvec)) vecs s
      | ArgsOther \<Rightarrow> (Inl (TypeError ''invalid number of arguments''), s))"

section \<open>Trace pairs and the rank-boundary exchange\<close>

record trace_pair =
  tp_dd :: dofdesc
  tp_int :: field
  tp_ext :: field

text \<open>
  \<^verbatim>\<open>TracePair(dd, interior=..., exterior=...)\<close> (the class is in
  \<^verbatim>\<open>grudge/symbolic/primitives.py\<close>, not among the sources) normalizes its descriptor.
\<close>

definition TracePair :: "(dd_value \<Rightarrow> dofdesc) \<Rightarrow> dd_value \<Rightarrow> field \<Rightarrow> field \<Rightarrow> trace_pair" where
  "TracePair tbl dd i e = \<lparr>tp_dd = as_dofdesc tbl dd, tp_int = i, tp_ext = e\<rparr>"

text \<open>
  The communicator is seen through the calls made on it, in order.  What a receive delivers
  is the remote side's: a parameter \<open>remote\<close> of the rank, the tag and the buffer size.
\<close>

datatype mpi_call =
    Isend "real list" nat int
  | Irecv nat int
  | Wait_recv nat int
  | Wait_send nat int

text \<open>\<^verbatim>\<open>flatten\<close> and \<^verbatim>\<open>unflatten\<close> of a DOF array (meshmode).\<close>

definition flatten :: "ndarray list \<Rightarrow> real list" where
  "flatten v = concat (map entries v)"

fun unflatten :: "element_group list \<Rightarrow> real list \<Rightarrow> error + ndarray list" where
  "unflatten [] xs = (if xs = [] then Inr [] else Inl (ValueError ''array has unexpected size''))"
| "unflatten (g # gs) xs =
     (let n = grp_nelements g * grp_nunit_dofs g in
      if length xs < n then Inl (ValueError ''array has unexpected size'')
      else (case unflatten gs (drop n xs) of
              Inl e \<Rightarrow> Inl e
            | Inr rest \<Rightarrow> Inr (NDArray [grp_nelements g, grp_nunit_dofs g] (take n xs) # rest)))"

record rank_boundary_communication =
  rbc_tag :: int
  rbc_remote_rank :: nat
  rbc_bdry_discr :: "element_group list"
  rbc_local_dof_array :: field
  rbc_size :: nat

definition base_tag :: int where
  "base_tag = 1273"

text \<open>
  \<^verbatim>\<open>_RankBoundaryCommunication.__init__\<close>: the tag is the base tag, plus \<open>tag\<close> when one is
  given; the field is projected to the partition boundary, flattened and sent; the receive
  is posted with the same tag.
\<close>

definition RankBoundaryCommunication_init ::
  "(dd_value \<Rightarrow> dofdesc) \<Rightarrow> dcoll \<Rightarrow> nat \<Rightarrow> field \<Rightarrow> int option \<Rightarrow> mpi_call list
   \<Rightarrow> (error + rank_boundary_communication) \<times> mpi_call list" where
  "RankBoundaryCommunication_init tbl dc remote_rank vol_field tag calls =
     (let self_tag = (case tag of None \<Rightarrow> base_tag | Some t \<Rightarrow> base_tag + t) in
      case dof_data ''array_context'' vol_field of
        Inl e \<Rightarrow> (Inl e, calls)
      | Inr v \<Rightarrow>
          (let remote_btag = DDBoundaryTag (BTAG_PARTITION remote_rank) in
           case discr_from_dd dc (as_dofdesc tbl remote_btag) of
             Inl e \<Rightarrow> (Inl e, calls)
           | Inr bdry_discr \<Rightarrow>
               (case project tbl dc (DDName ''vol'') remote_btag vol_field of
                  Inl e \<Rightarrow> (Inl e, calls)
                | Inr local_dof_array \<Rightarrow>
                    (case dof_data ''array_context'' local_dof_array of
                       Inl e \<Rightarrow> (Inl e, calls)
                     | Inr local \<Rightarrow>
                         (let local_data = flatten local in
                          (Inr \<lparr>rbc_tag = self_tag, rbc_remote_rank = remote_rank,
                                rbc_bdry_discr = bdry_discr,
                                rbc_local_dof_array = local_dof_array,
                                rbc_size = length local_data\<rparr>,
                           calls @ [Isend local_data remote_rank self_tag,
                                  Irecv remote_rank self_tag]))))))"

text \<open>
  \<^verbatim>\<open>finish\<close>: wait for the receive, rebuild the remote DOF array, swap it to the local
  ordering, wait for the send, and pair it with the local data.
\<close>

definition RankBoundaryCommunication_finish ::
  "(dd_value \<Rightarrow> dofdesc) \<Rightarrow> dcoll \<Rightarrow> (nat \<Rightarrow> int \<Rightarrow> nat \<Rightarrow> real list)
   \<Rightarrow> rank_boundary_communication \<Rightarrow> mpi_call list \<Rightarrow> (error + trace_pair) \<times> mpi_call list"
  where
  "RankBoundaryCommunication_finish tbl dc remote self calls =
     (let calls1 = calls @ [Wait_recv (rbc_remote_rank self) (rbc_tag self)];
          remote_data_host = remote (rbc_remote_rank self) (rbc_tag self) (rbc_size self);
          remote_btag = BTAG_PARTITION (rbc_remote_rank self)
      in case unflatten (rbc_bdry_discr self) remote_data_host of
           Inl e \<Rightarrow> (Inl e, calls1)
         | Inr remote_dof_array \<Rightarrow>
             (case boundary_swap_connection dc
                     (as_dofdesc tbl (DDDomainTag (DTAG_BOUNDARY remote_btag)))
                     remote_dof_array of
                Inl e \<Rightarrow> (Inl e, calls1)
              | Inr swapped_remote_dof_array \<Rightarrow>
                  (Inr (TracePair tbl (DDBoundaryTag remote_btag) (rbc_local_dof_array self)
                          (DOFArray swapped_remote_dof_array)),
                   calls1 @ [Wait_send (rbc_remote_rank self) (rbc_tag self)])))"

text \<open>
  \<^verbatim>\<open>_cross_rank_trace_pairs_scalar_field(dcoll, vec, tag=None)\<close>: a number is paired with
  itself for every connected rank; otherwise every exchange is started, then every exchange
  is finished.
\<close>

definition cross_rank_trace_pairs_scalar_field ::
  "(dd_value \<Rightarrow> dofdesc) \<Rightarrow> dcoll \<Rightarrow> (nat \<Rightarrow> int \<Rightarrow> nat \<Rightarrow> real list) \<Rightarrow> field \<Rightarrow> int option
   \<Rightarrow> mpi_call list \<Rightarrow> (error + trace_pair list) \<times> mpi_call list" where
  "cross_rank_trace_pairs_scalar_field tbl dc remote vec tag calls =
     (case vec of
        Num x \<Rightarrow>
          (Inr (map (\<lambda>remote_rank. TracePair tbl (DDBoundaryTag (BTAG_PARTITION remote_rank))
                                   (Num x) (Num x))
                  (connected_ranks dc)), calls)
      | _ \<Rightarrow>
          (case mapM_st (\<lambda>remote_rank. RankBoundaryCommunication_init tbl dc remote_rank vec tag)
                  (connected_ranks dc) calls of
             (Inl e, calls') \<Rightarrow> (Inl e, calls')
           | (Inr rbcomms, calls') \<Rightarrow>
               mapM_st (RankBoundaryCommunication_finish tbl dc remote) rbcomms calls'))"

text \<open>
  The two loops of the array branch of \<^verbatim>\<open>cross_rank_trace_pairs\<close>: the inner one stores the
  pairs of one component under \<open>(part_nr, ivec)\<close> after the two assertions on the pair's
  descriptor; the outer one runs over the components.  The call of the scalar routine in
  the source is \<^verbatim>\<open>_cross_rank_trace_pairs_scalar_field(dcoll, comm_vec[ivec])\<close>.
\<close>

fun store_pairs ::
  "nat \<Rightarrow> trace_pair list \<Rightarrow> (nat \<times> nat \<Rightarrow> trace_pair option)
   \<Rightarrow> error + (nat \<times> nat \<Rightarrow> trace_pair option)" where
  "store_pairs ivec [] result = Inr result"
| "store_pairs ivec (rank_tpair # rest) result =
     (case domain_tag (tp_dd rank_tpair) of
        DTAG_BOUNDARY (BTAG_PARTITION part_nr) \<Rightarrow>
          store_pairs ivec rest (result((part_nr, ivec) \<mapsto> rank_tpair))
      | _ \<Rightarrow> Inl AssertionError)"

fun exchange_components ::
  "(dd_value \<Rightarrow> dofdesc) \<Rightarrow> dcoll \<Rightarrow> (nat \<Rightarrow> int \<Rightarrow> nat \<Rightarrow> real list) \<Rightarrow> nat \<Rightarrow> field list
   \<Rightarrow> (nat \<times> nat \<Rightarrow> trace_pair option) \<Rightarrow> mpi_call list
   \<Rightarrow> (error + (nat \<times> nat \<Rightarrow> trace_pair option)) \<times> mpi_call list" where
  "exchange_components tbl dc remote ivec [] result calls = (Inr result, calls)"
| "exchange_components tbl dc remote ivec (c # comm_vec) result calls =
     (case cross_rank_trace_pairs_scalar_field tbl dc remote c None calls of
        (Inl e, calls') \<Rightarrow> (Inl e, calls')
      | (Inr tpairs, calls') \<Rightarrow>
          (case store_pairs ivec tpairs result of
             Inl e \<Rightarrow> (Inl e, calls')
           | Inr result' \<Rightarrow> exchange_components tbl dc remote (Suc ivec) comm_vec result' calls'))"

definition lookup_pair :: "(nat \<times> nat \<Rightarrow> trace_pair option) \<Rightarrow> nat \<Rightarrow> nat \<Rightarrow> error + trace_pair"
  where
  "lookup_pair result remote_rank i =
     (case result (remote_rank, i) of None \<Rightarrow> Inl (IndexError ''KeyError'') | Some tp \<Rightarrow> Inr tp)"

definition cross_rank_trace_pairs ::
  "(dd_value \<Rightarrow> dofdesc) \<Rightarrow> dcoll \<Rightarrow> (nat \<Rightarrow> int \<Rightarrow> nat \<Rightarrow> real list) \<Rightarrow> field \<Rightarrow> int option
   \<Rightarrow> mpi_call list \<Rightarrow> (error + trace_pair list) \<times> mpi_call list" where
  "cross_rank_trace_pairs tbl dc remote ary tag calls =
     (case ary of
        ObjArray oshape comm_vec \<Rightarrow>
          (let n = length comm_vec in
           case exchange_components tbl dc remote 0 comm_vec Map.empty calls of
             (Inl e, calls') \<Rightarrow> (Inl e, calls')
           | (Inr result, calls') \<Rightarrow>
               (mapM_err
                  (\<lambda>remote_rank.
                     case mapM_err (lookup_pair result remote_rank) [0..<n] of
                       Inl e \<Rightarrow> Inl e
                     | Inr tps \<Rightarrow>
                         Inr (TracePair tbl
                                (DDDesc (as_dofdesc tbl
                                   (DDDomainTag (DTAG_BOUNDARY (BTAG_PARTITION remote_rank)))))
                                (ObjArray oshape (map tp_int tps))
                                (ObjArray oshape (map tp_ext tps))))
                  (connected_ranks dc), calls'))
      | _ \<Rightarrow> cross_rank_trace_pairs_scalar_field tbl dc remote ary tag calls)"

section \<open>Symbolic expressions\<close>

text \<open>
  The expression tree of the spec's data model: constants, leaves tied to a descriptor,
  scalar parameters, sums, products and operator bindings.  Every operator carries its input
  and output descriptor and its own parameters (an axis, a flux, a boundary tag).  The
  classes are in \<^verbatim>\<open>grudge/symbolic/operators.py\<close> and \<^verbatim>\<open>primitives.py\<close>, which are not
  among the sources; the constructors here are the classes the mappers name.
\<close>

datatype flux = Flux string

datatype operator =
    MassOperator dofdesc dofdesc
  | InverseMassOperator dofdesc dofdesc
  | FaceMassOperator dofdesc dofdesc
  | StiffnessOperator nat dofdesc dofdesc
  | DiffOperator nat dofdesc dofdesc
  | StiffnessTOperator nat dofdesc dofdesc
  | MInvSTOperator nat dofdesc dofdesc
  | DifferentiationOperator nat dofdesc dofdesc
  | RefMassOperator dofdesc dofdesc
  | RefInverseMassOperator dofdesc dofdesc
  | RefFaceMassOperator dofdesc dofdesc
  | RefDiffOperator nat dofdesc dofdesc
  | RefStiffnessTOperator nat dofdesc dofdesc
  | FluxOperator flux bool dofdesc dofdesc
  | BoundaryFluxOperator flux boundary_tag bool dofdesc dofdesc
  | InterpolationOperator dofdesc dofdesc
  | NodalSum dofdesc dofdesc
  | NodalMax dofdesc dofdesc
  | NodalMin dofdesc dofdesc

datatype expr =
    Constant real
  | Variable string dofdesc
  | ScalarParameter string
  | Sum "expr list"
  | Product "expr list"
  | OperatorBinding operator expr

text \<open>
  Modelled from the spec: \<^verbatim>\<open>grudge.tools.is_zero\<close> is not among the sources.  The spec's
  zero-field rule speaks of "an identically-zero field"; a field is recognized as such when
  it is the numeric scalar zero.
\<close>

fun is_zero :: "expr \<Rightarrow> bool" where
  "is_zero (Constant c) = (c = 0)"
| "is_zero e = False"

text \<open>
  Modelled from the spec: \<^verbatim>\<open>Operator.__call__\<close> (\<^verbatim>\<open>grudge/symbolic/operators.py\<close>) is not
  among the sources.  Applying an operator to a field gives the operator binding ("an
  operator node + operand field"), except that "operator applied to an identically-zero
  field yields exactly zero, skipping the operator".
\<close>

definition op_call :: "operator \<Rightarrow> expr \<Rightarrow> expr" where
  "op_call opr e = (if is_zero e then e else OperatorBinding opr e)"

section \<open>Inverse mass contraction\<close>

text \<open>
  \<^verbatim>\<open>InverseMassContractor\<close> (the outer mapper, an identity mapper but for operator bindings)
  and \<^verbatim>\<open>_InnerInverseMassContractor\<close> (the inner mapper, which carries
  \<^verbatim>\<open>extra_operator_count\<close>).  The inner mapper is run with a counter and returns the new
  counter with its result; its \<^verbatim>\<open>assert not binding.op.is_lift\<close> is an error value.
  \<open>imc_inner_sum\<close> is the generator of \<^verbatim>\<open>map_sum\<close>, \<open>imc_inner_product\<close> that of
  \<^verbatim>\<open>map_product\<close> with its \<^verbatim>\<open>do_map\<close>.
\<close>

fun is_scalar :: "expr \<Rightarrow> bool" where
  "is_scalar (Constant c) = True"
| "is_scalar (ScalarParameter n) = True"
| "is_scalar e = False"

fun imc_outer :: "expr \<Rightarrow> error + expr"
  and imc_outer_list :: "expr list \<Rightarrow> error + expr list"
  and imc_inner :: "expr \<Rightarrow> nat \<Rightarrow> error + expr \<times> nat"
  and imc_inner_sum :: "expr list \<Rightarrow> nat \<Rightarrow> error + expr list \<times> nat"
  and imc_inner_product :: "expr list \<Rightarrow> nat \<Rightarrow> error + expr list \<times> nat"
  where
  "imc_outer (Constant c) = Inr (Constant c)"
| "imc_outer (Variable n d) = Inr (Variable n d)"
| "imc_outer (ScalarParameter n) = Inr (ScalarParameter n)"
| "imc_outer (Sum cs) =
     (case imc_outer_list cs of Inl e \<Rightarrow> Inl e | Inr cs' \<Rightarrow> Inr (Sum cs'))"
| "imc_outer (Product cs) =
     (case imc_outer_list cs of Inl e \<Rightarrow> Inl e | Inr cs' \<Rightarrow> Inr (Product cs'))"
| "imc_outer (OperatorBinding (InverseMassOperator din dout) field) =
     (case imc_inner field 0 of
        Inl e \<Rightarrow> Inl e
      | Inr (proposed_result, extra_operator_count) \<Rightarrow>
          if extra_operator_count > 1
          then (case imc_outer field of
                  Inl e \<Rightarrow> Inl e
                | Inr field' \<Rightarrow> Inr (op_call (InverseMassOperator din dout) field'))
          else Inr proposed_result)"
| "imc_outer (OperatorBinding opr field) =
     (case imc_outer field of Inl e \<Rightarrow> Inl e | Inr field' \<Rightarrow> Inr (op_call opr field'))"
| "imc_outer_list [] = Inr []"
| "imc_outer_list (c # cs) =
     (case imc_outer c of
        Inl e \<Rightarrow> Inl e
      | Inr c' \<Rightarrow> (case imc_outer_list cs of Inl e \<Rightarrow> Inl e | Inr cs' \<Rightarrow> Inr (c' # cs')))"
| "imc_inner (Constant c) k =
     (if is_zero (Constant c) then Inr (Constant 0, k)
      else (case imc_outer (Constant c) of
              Inl e \<Rightarrow> Inl e
            | Inr e' \<Rightarrow> Inr (OperatorBinding (InverseMassOperator DD_VOLUME DD_VOLUME) e', k)))"
| "imc_inner (Variable n d) k =
     (case imc_outer (Variable n d) of
        Inl e \<Rightarrow> Inl e
      | Inr e' \<Rightarrow> Inr (OperatorBinding (InverseMassOperator DD_VOLUME DD_VOLUME) e', k))"
| "imc_inner (ScalarParameter n) k =
     (case imc_outer (ScalarParameter n) of
        Inl e \<Rightarrow> Inl e
      | Inr e' \<Rightarrow> Inr (OperatorBinding (InverseMassOperator DD_VOLUME DD_VOLUME) e', k))"
| "imc_inner (OperatorBinding (MassOperator din dout) field) k = Inr (field, k)"
| "imc_inner (OperatorBinding (StiffnessOperator xyz_axis din dout) field) k =
     (case imc_outer field of
        Inl e \<Rightarrow> Inl e
      | Inr field' \<Rightarrow>
          Inr (op_call (DifferentiationOperator xyz_axis DD_VOLUME DD_VOLUME) field', k))"
| "imc_inner (OperatorBinding (StiffnessTOperator xyz_axis din dout) field) k =
     (case imc_outer field of
        Inl e \<Rightarrow> Inl e
      | Inr field' \<Rightarrow> Inr (op_call (MInvSTOperator xyz_axis DD_VOLUME DD_VOLUME) field', k))"
| "imc_inner (OperatorBinding (FluxOperator fl is_lift din dout) field) k =
     (if is_lift then Inl AssertionError
      else (case imc_outer field of
              Inl e \<Rightarrow> Inl e
            | Inr field' \<Rightarrow> Inr (op_call (FluxOperator fl True DD_VOLUME DD_VOLUME) field', k)))"
| "imc_inner (OperatorBinding (BoundaryFluxOperator fl btag is_lift din dout) field) k =
     (if is_lift then Inl AssertionError
      else (case imc_outer field of
              Inl e \<Rightarrow> Inl e
            | Inr field' \<Rightarrow>
                Inr (op_call (BoundaryFluxOperator fl btag True DD_VOLUME DD_VOLUME) field', k)))"
| "imc_inner (OperatorBinding opr field) k =
     (case imc_outer (OperatorBinding opr field) of
        Inl e \<Rightarrow> Inl e
      | Inr b' \<Rightarrow> Inr (op_call (InverseMassOperator DD_VOLUME DD_VOLUME) b', Suc k))"
| "imc_inner (Sum cs) k =
     (case imc_inner_sum cs k of Inl e \<Rightarrow> Inl e | Inr (cs', k') \<Rightarrow> Inr (Sum cs', k'))"
| "imc_inner (Product cs) k =
     (if length (filter (\<lambda>ch. \<not> is_scalar ch) cs) > 1
      then (case imc_outer (Product cs) of
              Inl e \<Rightarrow> Inl e
            | Inr p' \<Rightarrow> Inr (op_call (InverseMassOperator DD_VOLUME DD_VOLUME) p', Suc k))
      else (case imc_inner_product cs k of
              Inl e \<Rightarrow> Inl e
            | Inr (cs', k') \<Rightarrow> Inr (Product cs', k')))"
| "imc_inner_sum [] k = Inr ([], k)"
| "imc_inner_sum (c # cs) k =
     (case imc_inner c k of
        Inl e \<Rightarrow> Inl e
      | Inr (c', k') \<Rightarrow>
          (case imc_inner_sum cs k' of
             Inl e \<Rightarrow> Inl e
           | Inr (cs', k'') \<Rightarrow> Inr (c' # cs', k'')))"
| "imc_inner_product [] k = Inr ([], k)"
| "imc_inner_product (c # cs) k =
     (if is_scalar c
      then (case imc_inner_product cs k of
              Inl e \<Rightarrow> Inl e
            | Inr (cs', k') \<Rightarrow> Inr (c # cs', k'))
      else (case imc_inner c k of
              Inl e \<Rightarrow> Inl e
            | Inr (c', k') \<Rightarrow>
                (case imc_inner_product cs k' of
                   Inl e \<Rightarrow> Inl e
                 | Inr (cs', k'') \<Rightarrow> Inr (c' # cs', k''))))"

text \<open>
  The mapper as it is called: \<^verbatim>\<open>InverseMassContractor()(expr)\<close>, and the inner mapper created
  by \<^verbatim>\<open>_InnerInverseMassContractor(self)\<close> with its counter at zero.
\<close>

definition InverseMassContractor :: "expr \<Rightarrow> error + expr" where
  "InverseMassContractor e = imc_outer e"

definition InnerInverseMassContractor :: "expr \<Rightarrow> error + expr \<times> nat" where
  "InnerInverseMassContractor field = imc_inner field 0"

section \<open>Global-to-reference mapper\<close>

text \<open>
  What \<^verbatim>\<open>GlobalToReferenceMapper\<close> takes from \<^verbatim>\<open>grudge.sym\<close> and from pymbolic's operator
  overloading, as parameters: the area element and the inverse metric derivative (symbolic
  geometric factors), and the arithmetic on expressions (\<^verbatim>\<open>a * b\<close>, \<^verbatim>\<open>-a\<close>, \<^verbatim>\<open>1/a\<close> and the
  \<^verbatim>\<open>+\<close> of \<^verbatim>\<open>sum\<close>).
\<close>

record sym_env =
  sym_area_element :: "int \<Rightarrow> int \<Rightarrow> dofdesc \<Rightarrow> expr"
  sym_inverse_metric_derivative :: "nat \<Rightarrow> nat \<Rightarrow> int \<Rightarrow> int \<Rightarrow> expr"
  e_mul :: "expr \<Rightarrow> expr \<Rightarrow> expr"
  e_neg :: "expr \<Rightarrow> expr"
  e_rdiv :: "real \<Rightarrow> expr \<Rightarrow> expr"
  e_add :: "expr \<Rightarrow> expr \<Rightarrow> expr"

text \<open>
  Constructor defaults of the operator classes: an omitted descriptor is the volume
  descriptor; the output descriptor of a reference differentiation operator built from
  \<^verbatim>\<open>dd_in\<close> alone is \<^verbatim>\<open>dd_in\<close> with the base tag.
\<close>

datatype ref_class = RefDiffOperator_class | RefStiffnessTOperator_class

definition ref_class_new :: "ref_class \<Rightarrow> nat \<Rightarrow> dofdesc \<Rightarrow> operator" where
  "ref_class_new c rst_axis dd_in =
     (case c of
        RefDiffOperator_class \<Rightarrow> RefDiffOperator rst_axis dd_in (with_qtag dd_in QTAG_NONE)
      | RefStiffnessTOperator_class \<Rightarrow>
          RefStiffnessTOperator rst_axis dd_in (with_qtag dd_in QTAG_NONE))"

text \<open>Python's \<^verbatim>\<open>sum\<close> of expressions: the terms are added to \<open>0\<close> from the left.\<close>

definition e_sum :: "sym_env \<Rightarrow> expr list \<Rightarrow> expr" where
  "e_sum E ts = foldl (e_add E) (Constant 0) ts"

text \<open>
  \<^verbatim>\<open>rewrite_derivative\<close>, given the field already rewritten by the mapper.
\<close>

definition rewrite_derivative ::
  "sym_env \<Rightarrow> int \<Rightarrow> int \<Rightarrow> nat \<Rightarrow> ref_class \<Rightarrow> expr \<Rightarrow> dofdesc \<Rightarrow> bool \<Rightarrow> expr" where
  "rewrite_derivative E ambient_dim ndim xyz_axis c rec_field0 dd_in with_jacobian =
     (let jac_tag = sym_area_element E ambient_dim ndim dd_in;
          rec_field = (if with_jacobian then e_mul E jac_tag rec_field0 else rec_field0)
      in e_sum E
           (map (\<lambda>rst_axis.
                   e_mul E (sym_inverse_metric_derivative E rst_axis xyz_axis ambient_dim ndim)
                     (op_call (ref_class_new c rst_axis dd_in) rec_field))
              [0..<nat ndim]))"

text \<open>
  The weight that decreases along the recursion of the mapper: a stiffness binding is
  rewritten to a differentiation binding and mapped again, a \<open>MInvST\<close> binding to an inverse
  mass binding of a stiffness-transpose binding.
\<close>

fun g2r_weight :: "expr \<Rightarrow> nat" where
  "g2r_weight (Sum cs) = Suc (sum_list (map g2r_weight cs))"
| "g2r_weight (Product cs) = Suc (sum_list (map g2r_weight cs))"
| "g2r_weight (OperatorBinding (MInvSTOperator a din dout) f) = 3 + g2r_weight f"
| "g2r_weight (OperatorBinding (StiffnessOperator a din dout) f) = 2 + g2r_weight f"
| "g2r_weight (OperatorBinding opr f) = 1 + g2r_weight f"
| "g2r_weight e = 1"

lemma g2r_weight_member: "c \<in> set cs \<Longrightarrow> g2r_weight c \<le> sum_list (map g2r_weight cs)"
  by (induction cs) auto

text \<open>
  \<^verbatim>\<open>GlobalToReferenceMapper(ambient_dim, dim)\<close> applied to an expression.  Operator bindings
  go through \<^verbatim>\<open>map_operator_binding\<close>; everything else is the identity mapper's.
\<close>

function GlobalToReferenceMapper :: "sym_env \<Rightarrow> int \<Rightarrow> int \<Rightarrow> expr \<Rightarrow> expr" where
  "GlobalToReferenceMapper E ambient_dim ndim (Constant c) = Constant c"
| "GlobalToReferenceMapper E ambient_dim ndim (Variable n d) = Variable n d"
| "GlobalToReferenceMapper E ambient_dim ndim (ScalarParameter n) = ScalarParameter n"
| "GlobalToReferenceMapper E ambient_dim ndim (Sum cs) =
     Sum (map (GlobalToReferenceMapper E ambient_dim ndim) cs)"
| "GlobalToReferenceMapper E ambient_dim ndim (Product cs) =
     Product (map (GlobalToReferenceMapper E ambient_dim ndim) cs)"
| "GlobalToReferenceMapper E ambient_dim ndim (OperatorBinding (MassOperator dd_in dd_out) field) =
     op_call (RefMassOperator dd_in dd_out)
       (e_mul E (sym_area_element E ambient_dim ndim dd_in)
          (GlobalToReferenceMapper E ambient_dim ndim field))"
| "GlobalToReferenceMapper E ambient_dim ndim
       (OperatorBinding (InverseMassOperator dd_in dd_out) field) =
     op_call (RefInverseMassOperator dd_in dd_out)
       (e_mul E (e_rdiv E 1 (sym_area_element E ambient_dim ndim dd_in))
          (GlobalToReferenceMapper E ambient_dim ndim field))"
| "GlobalToReferenceMapper E ambient_dim ndim
       (OperatorBinding (FaceMassOperator dd_in dd_out) field) =
     (let jac_in_surf = e_neg E (sym_area_element E ambient_dim (ndim - 1) dd_in)
      in op_call (RefFaceMassOperator dd_in dd_out)
           (e_mul E jac_in_surf (GlobalToReferenceMapper E ambient_dim ndim field)))"
| "GlobalToReferenceMapper E ambient_dim ndim
       (OperatorBinding (StiffnessOperator xyz_axis dd_in dd_out) field) =
     op_call (RefMassOperator DD_VOLUME DD_VOLUME)
       (e_mul E (sym_area_element E ambient_dim ndim (with_qtag dd_in QTAG_NONE))
          (GlobalToReferenceMapper E ambient_dim ndim
             (op_call (DiffOperator xyz_axis DD_VOLUME DD_VOLUME) field)))"
| "GlobalToReferenceMapper E ambient_dim ndim
       (OperatorBinding (DiffOperator xyz_axis dd_in dd_out) field) =
     rewrite_derivative E ambient_dim ndim xyz_axis RefDiffOperator_class
       (GlobalToReferenceMapper E ambient_dim ndim field) dd_in False"
| "GlobalToReferenceMapper E ambient_dim ndim
       (OperatorBinding (StiffnessTOperator xyz_axis dd_in dd_out) field) =
     rewrite_derivative E ambient_dim ndim xyz_axis RefStiffnessTOperator_class
       (GlobalToReferenceMapper E ambient_dim ndim field) dd_in True"
| "GlobalToReferenceMapper E ambient_dim ndim
       (OperatorBinding (MInvSTOperator xyz_axis dd_in dd_out) field) =
     GlobalToReferenceMapper E ambient_dim ndim
       (op_call (InverseMassOperator DD_VOLUME DD_VOLUME)
          (op_call (StiffnessTOperator xyz_axis DD_VOLUME DD_VOLUME) field))"
| "GlobalToReferenceMapper E ambient_dim ndim
       (OperatorBinding (DifferentiationOperator a dd_in dd_out) field) =
     OperatorBinding (DifferentiationOperator a dd_in dd_out)
       (GlobalToReferenceMapper E ambient_dim ndim field)"
| "GlobalToReferenceMapper E ambient_dim ndim (OperatorBinding (RefMassOperator dd_in dd_out) field) =
     OperatorBinding (RefMassOperator dd_in dd_out)
       (GlobalToReferenceMapper E ambient_dim ndim field)"
| "GlobalToReferenceMapper E ambient_dim ndim
       (OperatorBinding (RefInverseMassOperator dd_in dd_out) field) =
     OperatorBinding (RefInverseMassOperator dd_in dd_out)
       (GlobalToReferenceMapper E ambient_dim ndim field)"
| "GlobalToReferenceMapper E ambient_dim ndim
       (OperatorBinding (RefFaceMassOperator dd_in dd_out) field) =
     OperatorBinding (RefFaceMassOperator dd_in dd_out)
       (GlobalToReferenceMapper E ambient_dim ndim field)"
| "GlobalToReferenceMapper E ambient_dim ndim
       (OperatorBinding (RefDiffOperator a dd_in dd_out) field) =
     OperatorBinding (RefDiffOperator a dd_in dd_out)
       (GlobalToReferenceMapper E ambient_dim ndim field)"
| "GlobalToReferenceMapper E ambient_dim ndim
       (OperatorBinding (RefStiffnessTOperator a dd_in dd_out) field) =
     OperatorBinding (RefStiffnessTOperator a dd_in dd_out)
       (GlobalToReferenceMapper E ambient_dim ndim field)"
| "GlobalToReferenceMapper E ambient_dim ndim
       (OperatorBinding (FluxOperator fl is_lift dd_in dd_out) field) =
     OperatorBinding (FluxOperator fl is_lift dd_in dd_out)
       (GlobalToReferenceMapper E ambient_dim ndim field)"
| "GlobalToReferenceMapper E ambient_dim ndim
       (OperatorBinding (BoundaryFluxOperator fl btag is_lift dd_in dd_out) field) =
     OperatorBinding (BoundaryFluxOperator fl btag is_lift dd_in dd_out)
       (GlobalToReferenceMapper E ambient_dim ndim field)"
| "GlobalToReferenceMapper E ambient_dim ndim
       (OperatorBinding (InterpolationOperator dd_in dd_out) field) =
     OperatorBinding (InterpolationOperator dd_in dd_out)
       (GlobalToReferenceMapper E ambient_dim ndim field)"
| "GlobalToReferenceMapper E ambient_dim ndim (OperatorBinding (NodalSum dd_in dd_out) field) =
     OperatorBinding (NodalSum dd_in dd_out) (GlobalToReferenceMapper E ambient_dim ndim field)"
| "GlobalToReferenceMapper E ambient_dim ndim (OperatorBinding (NodalMax dd_in dd_out) field) =
     OperatorBinding (NodalMax dd_in dd_out) (GlobalToReferenceMapper E ambient_dim ndim field)"
| "GlobalToReferenceMapper E ambient_dim ndim (OperatorBinding (NodalMin dd_in dd_out) field) =
     OperatorBinding (NodalMin dd_in dd_out) (GlobalToReferenceMapper E ambient_dim ndim field)"
  by pat_completeness auto
termination
  by (relation "measure (\<lambda>(E, a, d, e). g2r_weight e)")
     (auto simp: op_call_def less_Suc_eq_le g2r_weight_member)

section \<open>Constant folding\<close>

text \<open>
  \<^verbatim>\<open>CommutativeConstantFoldingMapper\<close> inherits the folding of sums and products from
  pymbolic's mapper of the same name, and the treatment of leaves from the identity mapper;
  \<^verbatim>\<open>mappers/__init__.py\<close> supplies \<^verbatim>\<open>is_constant\<close> (through its \<^verbatim>\<open>DependencyMapper\<close>) and
  \<^verbatim>\<open>map_operator_binding\<close>.  The inherited part is pymbolic's
  \<^verbatim>\<open>ConstantFoldingMapperBase.fold\<close> with \<^verbatim>\<open>flattened_sum\<close> and \<^verbatim>\<open>flattened_product\<close>:
  the children are mapped one after the other from a queue; a mapped child of the folded
  class is replaced by its children at the front of the queue; a mapped child without
  dependencies that evaluates to a number joins the constants, any other the non-constants;
  the constants are combined into one and put in front.
\<close>

text \<open>A size that bounds the recursion: folding never makes an expression larger.\<close>

fun esize :: "expr \<Rightarrow> nat" where
  "esize (Sum cs) = Suc (sum_list (map esize cs))"
| "esize (Product cs) = Suc (sum_list (map esize cs))"
| "esize (OperatorBinding opr f) = Suc (esize f)"
| "esize e = 1"

lemma esize_pos: "0 < esize e"
  by (cases e) simp_all

text \<open>
  \<^verbatim>\<open>DependencyMapper()\<close> with its default \<^verbatim>\<open>include_operator_bindings=True\<close>: a leaf and an
  operator binding are dependencies, a constant has none, sums and products combine.
\<close>

fun dep_mapper :: "expr \<Rightarrow> expr set" where
  "dep_mapper (Constant c) = {}"
| "dep_mapper (Variable n d) = {Variable n d}"
| "dep_mapper (ScalarParameter n) = {ScalarParameter n}"
| "dep_mapper (Sum cs) = (\<Union>c\<in>set cs. dep_mapper c)"
| "dep_mapper (Product cs) = (\<Union>c\<in>set cs. dep_mapper c)"
| "dep_mapper (OperatorBinding opr f) = {OperatorBinding opr f}"

definition is_constant :: "expr \<Rightarrow> bool" where
  "is_constant e = (dep_mapper e = {})"

text \<open>
  \<^verbatim>\<open>evaluate\<close>: the value of an expression made of numbers, sums and products; \<open>None\<close> when
  the evaluation fails.  It is only called on expressions without dependencies.
\<close>

fun evaluate :: "expr \<Rightarrow> real option" where
  "evaluate (Constant c) = Some c"
| "evaluate (Sum cs) =
     (if list_all (\<lambda>c. evaluate c \<noteq> None) cs then Some (sum_list (map (\<lambda>c. the (evaluate c)) cs)) else None)"
| "evaluate (Product cs) =
     (if list_all (\<lambda>c. evaluate c \<noteq> None) cs then Some (prod_list (map (\<lambda>c. the (evaluate c)) cs)) else None)"
| "evaluate e = None"

datatype klass = Sum_class | Product_class

fun is_instance :: "expr \<Rightarrow> klass \<Rightarrow> bool" where
  "is_instance (Sum cs) Sum_class = True"
| "is_instance (Product cs) Product_class = True"
| "is_instance e k = False"

fun children :: "expr \<Rightarrow> expr list" where
  "children (Sum cs) = cs"
| "children (Product cs) = cs"
| "children e = []"

text \<open>
  The loop of \<^verbatim>\<open>flattened_sum\<close>: zeros are dropped, the children of a sum are appended to
  the queue, everything else is kept.  \<^verbatim>\<open>flattened_product\<close> is the same with ones and
  products.
\<close>

function flatten_sum_queue :: "expr list \<Rightarrow> expr list \<Rightarrow> expr list" where
  "flatten_sum_queue [] done = done"
| "flatten_sum_queue (item # queue) done =
     (if is_zero item then flatten_sum_queue queue done
      else if is_instance item Sum_class then flatten_sum_queue (queue @ children item) done
      else flatten_sum_queue queue (done @ [item]))"
  by pat_completeness auto
termination
  by (relation "measure (\<lambda>(q, d). sum_list (map esize q))")
     (auto elim!: is_instance.elims simp: esize_pos)


definition flattened_sum :: "expr list \<Rightarrow> expr" where
  "flattened_sum components =
     (case flatten_sum_queue components [] of
        [] \<Rightarrow> Constant 0
      | [x] \<Rightarrow> x
      | xs \<Rightarrow> Sum xs)"

fun is_one :: "expr \<Rightarrow> bool" where
  "is_one (Constant c) = (c - 1 = 0)"
| "is_one e = False"

function flatten_product_queue :: "expr list \<Rightarrow> expr list \<Rightarrow> expr list" where
  "flatten_product_queue [] done = done"
| "flatten_product_queue (item # queue) done =
     (if is_one item then flatten_product_queue queue done
      else if is_instance item Product_class then flatten_product_queue (queue @ children item) done
      else flatten_product_queue queue (done @ [item]))"
  by pat_completeness auto
termination
  by (relation "measure (\<lambda>(q, d). sum_list (map esize q))")
     (auto elim!: is_instance.elims simp: esize_pos)

definition flattened_product :: "expr list \<Rightarrow> expr" where
  "flattened_product components =
     (case flatten_product_queue components [] of
        [] \<Rightarrow> Constant 1
      | [x] \<Rightarrow> x
      | xs \<Rightarrow> Product xs)"

definition reduce :: "(real \<Rightarrow> real \<Rightarrow> real) \<Rightarrow> real list \<Rightarrow> real" where
  "reduce f xs = foldl f (hd xs) (tl xs)"

definition fold_finish :: "klass \<Rightarrow> real list \<times> expr list \<Rightarrow> expr" where
  "fold_finish k r =
     (case r of (constants, nonconstants) \<Rightarrow>
        (case k of
           Sum_class \<Rightarrow>
             if constants \<noteq> [] then flattened_sum (Constant (reduce (+) constants) # nonconstants)
             else flattened_sum nonconstants
         | Product_class \<Rightarrow>
             if constants \<noteq> [] then flattened_product (Constant (reduce (*) constants) # nonconstants)
             else flattened_product nonconstants))"

text \<open>
  \<open>ccfm_rec\<close> is the mapper's \<^verbatim>\<open>rec\<close>, \<open>ccfm_fold\<close> the loop of \<^verbatim>\<open>fold\<close> with its queue and
  its two accumulators, \<open>fold_finish\<close> what \<^verbatim>\<open>fold\<close> returns after the loop.
\<close>

function ccfm_rec :: "expr \<Rightarrow> expr"
  and ccfm_fold :: "klass \<Rightarrow> expr list \<Rightarrow> real list \<Rightarrow> expr list \<Rightarrow> real list \<times> expr list"
  where
  "ccfm_rec (Constant c) = Constant c"
| "ccfm_rec (Variable n d) = Variable n d"
| "ccfm_rec (ScalarParameter n) = ScalarParameter n"
| "ccfm_rec (Sum cs) = fold_finish Sum_class (ccfm_fold Sum_class cs [] [])"
| "ccfm_rec (Product cs) = fold_finish Product_class (ccfm_fold Product_class cs [] [])"
| "ccfm_rec (OperatorBinding opr f) =
     (let field = ccfm_rec f in if is_zero field then Constant 0 else op_call opr field)"
| "ccfm_fold k [] constants nonconstants = (constants, nonconstants)"
| "ccfm_fold k (q # queue) constants nonconstants =
     (let child = ccfm_rec q in
      if is_instance child k then ccfm_fold k (children child @ queue) constants nonconstants
      else if is_constant child then
        (case evaluate child of
           None \<Rightarrow> ccfm_fold k queue constants (nonconstants @ [child])
         | Some v \<Rightarrow> ccfm_fold k queue (constants @ [v]) nonconstants)
      else ccfm_fold k queue constants (nonconstants @ [child]))"
  by pat_completeness auto


lemma flatten_sum_queue_size:
  "sum_list (map esize (flatten_sum_queue q d)) \<le> sum_list (map esize q) + sum_list (map esize d)"
  by (induction q d rule: flatten_sum_queue.induct) (auto elim!: is_instance.elims)

lemma flatten_product_queue_size:
  "sum_list (map esize (flatten_product_queue q d)) \<le> sum_list (map esize q) + sum_list (map esize d)"
  by (induction q d rule: flatten_product_queue.induct) (auto elim!: is_instance.elims)

lemma esize_flattened_sum: "esize (flattened_sum xs) \<le> Suc (sum_list (map esize xs))"
  using flatten_sum_queue_size [of xs "[]"]
  by (auto simp: flattened_sum_def split: list.splits)

lemma esize_flattened_product: "esize (flattened_product xs) \<le> Suc (sum_list (map esize xs))"
  using flatten_product_queue_size [of xs "[]"]
  by (auto simp: flattened_product_def split: list.splits)

lemma esize_fold_finish:
  "esize (fold_finish k (cs, ns)) \<le> Suc (length cs + sum_list (map esize ns))"
proof (cases k)
  case Sum_class
  show ?thesis
    using esize_flattened_sum [of ns] esize_flattened_sum [of "Constant (reduce (+) cs) # ns"]
    by (cases cs) (auto simp: fold_finish_def Sum_class)
next
  case Product_class
  show ?thesis
    using esize_flattened_product [of ns]
      esize_flattened_product [of "Constant (reduce (*) cs) # ns"]
    by (cases cs) (auto simp: fold_finish_def Product_class)
qed

lemma esize_op_call: "esize (op_call opr f) \<le> Suc (esize f)"
  by (simp add: op_call_def)

lemma esize_children: "is_instance x k \<Longrightarrow> Suc (sum_list (map esize (children x))) = esize x"
  by (auto elim!: is_instance.elims)

lemma ccfm_size_aux:
  "ccfm_rec_ccfm_fold_dom (Inl e) \<Longrightarrow> esize (ccfm_rec e) \<le> esize e"
  "ccfm_rec_ccfm_fold_dom (Inr (k, queue, cs, ns)) \<Longrightarrow>
     length (fst (ccfm_fold k queue cs ns)) + sum_list (map esize (snd (ccfm_fold k queue cs ns)))
       \<le> length cs + sum_list (map esize ns) + sum_list (map esize queue)"
proof (induct e and k queue cs ns rule: ccfm_rec_ccfm_fold.pinduct)
  case (4 cs)
  then show ?case
    using esize_fold_finish [of Sum_class "fst (ccfm_fold Sum_class cs [] [])" "snd (ccfm_fold Sum_class cs [] [])"]
    by (simp add: ccfm_rec.psimps)
next
  case (5 cs)
  then show ?case
    using esize_fold_finish [of Product_class "fst (ccfm_fold Product_class cs [] [])" "snd (ccfm_fold Product_class cs [] [])"]
    by (simp add: ccfm_rec.psimps)
next
  case (6 opr f)
  then show ?case
    using esize_op_call [of opr "ccfm_rec f"]
    by (simp add: ccfm_rec.psimps Let_def)
next
  case (8 k q queue constants nonconstants)
  show ?case
  proof (cases "is_instance (ccfm_rec q) k")
    case True
    then show ?thesis
      using 8(1,2) 8(3) [OF refl True] esize_children [OF True]
      by (simp add: ccfm_fold.psimps Let_def)
  next
    case False
    show ?thesis
    proof (cases "is_constant (ccfm_rec q)")
      case c: True
      show ?thesis
      proof (cases "evaluate (ccfm_rec q)")
        case None
        then show ?thesis
          using 8(1,2) 8(4) [OF refl False c None]
          by (simp add: ccfm_fold.psimps Let_def False c)
      next
        case (Some v)
        then show ?thesis
          using 8(1,2) 8(5) [OF refl False c Some] esize_pos [of q]
          by (simp add: ccfm_fold.psimps Let_def False c)
      qed
    next
      case c: False
      then show ?thesis
        using 8(1,2) 8(6) [OF refl False c]
        by (simp add: ccfm_fold.psimps Let_def False c)
    qed
  qed
qed (simp_all add: ccfm_rec.psimps ccfm_fold.psimps)

termination ccfm_rec
  by (relation "measure (\<lambda>x. case x of Inl e \<Rightarrow> 2 * esize e
                                  | Inr (k, queue, cs, ns) \<Rightarrow> 2 * sum_list (map esize queue) + 1)")
     (auto dest!: ccfm_size_aux(1) elim!: is_instance.elims simp: esize_pos)

definition CommutativeConstantFoldingMapper :: "expr \<Rightarrow> expr" where
  "CommutativeConstantFoldingMapper e = ccfm_rec e"

section \<open>The formulas of the specification\<close>

text \<open>
  These definitions follow the words of the specification, not the code; the theorems below
  compare the code with them.  The projection mass matrix as the specification writes it,
  \<^verbatim>\<open>M[i,j] = sum_k weights[k] * vand_inv_t[i,k] * other_vand[j,k]\<close>:
\<close>

definition claimed_projection_mass_entry ::
  "real list \<Rightarrow> ndarray \<Rightarrow> ndarray \<Rightarrow> nat \<Rightarrow> nat \<Rightarrow> real" where
  "claimed_projection_mass_entry weights vand_inv_t other_vand i j =
     (\<Sum>k\<leftarrow>[0..<shape vand_inv_t ! 1]. weights ! k * at2 vand_inv_t i k * at2 other_vand j k)"

text \<open>
  A matrix applied to a vector, the vector being a function of the index; then "the
  reference inverse-mass matrix scaled by the reciprocal area element", and the
  weight-adjusted inverse \<^verbatim>\<open>ref_Minv * ref_M * (1/jac) * ref_Minv\<close>, both applied to the values
  \<open>x\<close> of element \<open>e\<close> and read at the node \<open>i\<close>.  The argument \<open>jac\<close> is the area element
  itself: the reciprocal is taken here, entry by entry.
\<close>

definition matvec :: "ndarray \<Rightarrow> (nat \<Rightarrow> real) \<Rightarrow> nat \<Rightarrow> real" where
  "matvec a x i = (\<Sum>j\<leftarrow>[0..<shape a ! 1]. at2 a i j * x j)"

definition scaled_inverse_mass :: "ndarray \<Rightarrow> ndarray \<Rightarrow> ndarray \<Rightarrow> nat \<Rightarrow> nat \<Rightarrow> real" where
  "scaled_inverse_mass ref_minv jac x e i =
     matvec ref_minv (\<lambda>j. 1 / at2 jac e j * at2 x e j) i"

definition weight_adjusted_inverse ::
  "ndarray \<Rightarrow> ndarray \<Rightarrow> ndarray \<Rightarrow> ndarray \<Rightarrow> nat \<Rightarrow> nat \<Rightarrow> real" where
  "weight_adjusted_inverse ref_minv ref_m jac x e i =
     matvec ref_minv
       (matvec ref_m (\<lambda>m. 1 / at2 jac e m * matvec ref_minv (\<lambda>j. at2 x e j) m)) i"

text \<open>An array holds as many entries as its shape says.\<close>

definition well_formed :: "ndarray \<Rightarrow> bool" where
  "well_formed a = (length (entries a) = prod_list (shape a))"

text \<open>
  An array \<open>y\<close> of shape \<open>(E, I)\<close> whose entries are given by a formula of the element and the
  node.
\<close>

definition has_entries :: "nat \<Rightarrow> nat \<Rightarrow> (nat \<Rightarrow> nat \<Rightarrow> real) \<Rightarrow> ndarray \<Rightarrow> bool" where
  "has_entries E I formula y =
     (shape y = [E, I] \<and> (\<forall>e<E. \<forall>i<I. at2 y e i = formula e i))"

text \<open>One cache holds at least the entries of another.\<close>

definition memo_extends :: "array_context \<Rightarrow> array_context \<Rightarrow> bool" where
  "memo_extends s s' = (\<forall>k v. memo s k = Some v \<longrightarrow> memo s' k = Some v)"

text \<open>
  The number of operator applications in an expression: the measure by which a contraction
  "introduces more operator applications than it removes".
\<close>

fun operator_applications :: "expr \<Rightarrow> nat" where
  "operator_applications (OperatorBinding opr f) = Suc (operator_applications f)"
| "operator_applications (Sum cs) = sum_list (map operator_applications cs)"
| "operator_applications (Product cs) = sum_list (map operator_applications cs)"
| "operator_applications e = 0"

text \<open>
  The operators an inverse mass operator can be pushed past ("mass/stiffness/flux operators
  it can cancel against"), and what the counter of "extra operators introduced" counts in a
  field: the operator bindings the inverse mass cannot cancel against and the products with
  more than one factor that is not a scalar, each of which keeps an inverse mass operator
  around it.  Sums are counted term by term and products with at most one such factor through
  that factor; the inverse mass operators that end on the leaves are not counted.
\<close>

fun cancels :: "operator \<Rightarrow> bool" where
  "cancels (MassOperator din dout) = True"
| "cancels (StiffnessOperator a din dout) = True"
| "cancels (StiffnessTOperator a din dout) = True"
| "cancels (FluxOperator fl is_lift din dout) = True"
| "cancels (BoundaryFluxOperator fl btag is_lift din dout) = True"
| "cancels opr = False"

fun counted_extra_operators :: "expr \<Rightarrow> nat" where
  "counted_extra_operators (OperatorBinding opr f) = (if cancels opr then 0 else 1)"
| "counted_extra_operators (Sum cs) = sum_list (map counted_extra_operators cs)"
| "counted_extra_operators (Product cs) =
     (if 1 < length (filter (\<lambda>ch. \<not> is_scalar ch) cs) then 1
      else sum_list (map (\<lambda>ch. if is_scalar ch then 0 else counted_extra_operators ch) cs))"
| "counted_extra_operators e = 0"

text \<open>
  The contracted (pushed-inward) form \<open>r\<close> of an inverse mass operator applied to a field:
  \<open>M\<^sup>-\<^sup>1 0 = 0\<close>; the operator stays on a leaf; \<open>M\<^sup>-\<^sup>1 (M x) = x\<close>; a stiffness operator becomes
  the differentiation operator, a transposed stiffness operator \<open>MInvST\<close>, a flux operator the
  lifting flux operator, each applied to the field as the outer mapper rewrites it; any other
  binding, and a product with more than one factor that is not a scalar, is rewritten by the
  outer mapper and keeps the inverse mass operator; a sum is contracted term by term, and a
  product with at most one factor that is not a scalar through that factor.
\<close>

inductive pushed_inward :: "expr \<Rightarrow> expr \<Rightarrow> bool" where
  zero_leaf: "pushed_inward (Constant 0) (Constant 0)"
| constant_leaf:
    "c \<noteq> 0 \<Longrightarrow>
     pushed_inward (Constant c)
       (OperatorBinding (InverseMassOperator DD_VOLUME DD_VOLUME) (Constant c))"
| variable_leaf:
    "pushed_inward (Variable n d)
       (OperatorBinding (InverseMassOperator DD_VOLUME DD_VOLUME) (Variable n d))"
| parameter_leaf:
    "pushed_inward (ScalarParameter n)
       (OperatorBinding (InverseMassOperator DD_VOLUME DD_VOLUME) (ScalarParameter n))"
| mass_binding: "pushed_inward (OperatorBinding (MassOperator din dout) f) f"
| stiffness_binding:
    "InverseMassContractor f = Inr f' \<Longrightarrow>
     pushed_inward (OperatorBinding (StiffnessOperator a din dout) f)
       (op_call (DifferentiationOperator a DD_VOLUME DD_VOLUME) f')"
| stiffness_t_binding:
    "InverseMassContractor f = Inr f' \<Longrightarrow>
     pushed_inward (OperatorBinding (StiffnessTOperator a din dout) f)
       (op_call (MInvSTOperator a DD_VOLUME DD_VOLUME) f')"
| flux_binding:
    "InverseMassContractor f = Inr f' \<Longrightarrow>
     pushed_inward (OperatorBinding (FluxOperator fl False din dout) f)
       (op_call (FluxOperator fl True DD_VOLUME DD_VOLUME) f')"
| boundary_flux_binding:
    "InverseMassContractor f = Inr f' \<Longrightarrow>
     pushed_inward (OperatorBinding (BoundaryFluxOperator fl btag False din dout) f)
       (op_call (BoundaryFluxOperator fl btag True DD_VOLUME DD_VOLUME) f')"
| kept_binding:
    "\<not> cancels opr \<Longrightarrow> InverseMassContractor (OperatorBinding opr f) = Inr b' \<Longrightarrow>
     pushed_inward (OperatorBinding opr f)
       (op_call (InverseMassOperator DD_VOLUME DD_VOLUME) b')"
| sum_terms: "list_all2 pushed_inward cs rs \<Longrightarrow> pushed_inward (Sum cs) (Sum rs)"
| kept_product:
    "1 < length (filter (\<lambda>ch. \<not> is_scalar ch) cs) \<Longrightarrow>
     InverseMassContractor (Product cs) = Inr p' \<Longrightarrow>
     pushed_inward (Product cs) (op_call (InverseMassOperator DD_VOLUME DD_VOLUME) p')"
| product_factors:
    "length (filter (\<lambda>ch. \<not> is_scalar ch) cs) \<le> 1 \<Longrightarrow>
     list_all2 (\<lambda>c r. is_scalar c \<and> r = c \<or> \<not> is_scalar c \<and> pushed_inward c r) cs rs \<Longrightarrow>
     pushed_inward (Product cs) (Product rs)"
section \<open>Normal forms and results used in the statements\<close>

text \<open>
  The value of a constant subexpression as the folding loop sees it, what the loop leaves of
  a list of terms (fixed points of the mapper that are not of the folded class and have no
  value), and the two shapes in which the loop hands its result to \<^verbatim>\<open>flattened_sum\<close> and
  \<^verbatim>\<open>flattened_product\<close>.
\<close>

definition cval :: "expr \<Rightarrow> real option" where
  "cval x = (if is_constant x then evaluate x else None)"

definition residue :: "klass \<Rightarrow> expr list \<Rightarrow> bool" where
  "residue k ns = list_all (\<lambda>n. ccfm_rec n = n \<and> \<not> is_instance n k \<and> cval n = None) ns"

definition sum_items :: "real list \<Rightarrow> expr list \<Rightarrow> expr list" where
  "sum_items cs ns = (if cs \<noteq> [] \<and> reduce (+) cs \<noteq> 0 then [Constant (reduce (+) cs)] else []) @ ns"

definition product_items :: "real list \<Rightarrow> expr list \<Rightarrow> expr list" where
  "product_items cs ns = (if cs \<noteq> [] \<and> reduce (*) cs \<noteq> 1 then [Constant (reduce (*) cs)] else []) @ ns"

definition wrap_sum :: "expr list \<Rightarrow> expr" where
  "wrap_sum xs = (case xs of [] \<Rightarrow> Constant 0 | [x] \<Rightarrow> x | _ \<Rightarrow> Sum xs)"

definition wrap_product :: "expr list \<Rightarrow> expr" where
  "wrap_product xs = (case xs of [] \<Rightarrow> Constant 1 | [x] \<Rightarrow> x | _ \<Rightarrow> Product xs)"

text \<open>
  What one group of either branch leaves in the cache and returns, for the group, its area
  element \<open>jac\<close> and its values \<open>x\<close>: no entry of the area element is zero, and the result has
  the entries of the formula with the cached matrices of the group.
\<close>

definition affine_group_result ::
  "array_context \<Rightarrow> element_group \<times> ndarray \<times> ndarray \<Rightarrow> ndarray \<Rightarrow> bool" where
  "affine_group_result s t y =
     (case t of (grp, jac, x) \<Rightarrow>
        0 \<notin> set (entries jac)
        \<and> (\<exists>ref_minv.
             memo s (Id_reference_inverse_mass_matrix, Key1 (discretization_key grp))
               = Some ref_minv
             \<and> has_entries (shape x ! 0) (shape (arr ref_minv) ! 0)
                  (scaled_inverse_mass (arr ref_minv) jac x) y))"

definition wadg_group_result ::
  "array_context \<Rightarrow> element_group \<times> ndarray \<times> ndarray \<Rightarrow> ndarray \<Rightarrow> bool" where
  "wadg_group_result s t y =
     (case t of (grp, jac, x) \<Rightarrow>
        0 \<notin> set (entries jac)
        \<and> (\<exists>ref_minv ref_m.
             memo s (Id_reference_inverse_mass_matrix, Key1 (discretization_key grp))
               = Some ref_minv
             \<and> memo s (Id_reference_mass_matrix,
                       Key2 (discretization_key grp) (discretization_key grp)) = Some ref_m
             \<and> has_entries (shape x ! 0) (shape (arr ref_minv) ! 0)
                  (weight_adjusted_inverse (arr ref_minv) (arr ref_m) jac x) y))"

text \<open>
  The reading that relates the list the loop of \<^verbatim>\<open>_apply_inverse_mass_operator\<close> runs over
  (groups, reciprocal area elements, values) to the list of groups, area elements and values.
\<close>

definition reciprocal_of ::
  "element_group \<times> ndarray \<times> ndarray \<Rightarrow> element_group \<times> ndarray \<times> ndarray \<Rightarrow> bool" where
  "reciprocal_of t u =
     (case (t, u) of ((grp, jac, x), (grp', jac_inv, x')) \<Rightarrow>
        grp' = grp \<and> x' = x \<and> reciprocal jac = Inr jac_inv \<and> well_formed jac)"

section \<open>Fixtures for the closed instances\<close>

text \<open>
  A small concrete world on which the closed theorems below are evaluated: the usual reading
  of descriptor names, and a one-dimensional collection whose connections are the identity.
\<close>

definition example_table :: "dd_value \<Rightarrow> dofdesc" where
  "example_table v =
     (case v of
        DDDesc d \<Rightarrow> d
      | DDName n \<Rightarrow>
          (if n = ''vol'' then DD_VOLUME
           else if n = ''all_faces'' then DOFDesc FACE_RESTR_ALL DISCR_TAG_BASE
           else if n = ''int_faces'' then DOFDesc FACE_RESTR_INTERIOR DISCR_TAG_BASE
           else DOFDesc DTAG_SCALAR DISCR_TAG_BASE)
      | DDBoundaryTag b \<Rightarrow> DOFDesc (DTAG_BOUNDARY b) DISCR_TAG_BASE
      | DDDomainTag t \<Rightarrow> DOFDesc t DISCR_TAG_BASE)"

definition example_group :: element_group where
  "example_group =
     \<lparr>discretization_key = (''PolynomialWarpAndBlendElementGroup'', 1, 1),
      grp_index = 0, is_affine = True, grp_nelements = 1, grp_nunit_dofs = 2, grp_order = 1,
      grp_dim = 1, grp_unit_nodes = [[-1], [1]],
      grp_basis_functions = [\<lambda>x. 1, \<lambda>x. hd x],
      grp_basis_gradients = [\<lambda>x. [0], \<lambda>x. [1]],
      grp_quadrature_weights = [1, 1], grp_quadrature_exact_to = 1,
      grp_nfaces = 2, grp_space_dim = 2,
      is_quadrature_simplex_group = False, is_group_with_basis = True\<rparr>"

definition example_dcoll :: dcoll where
  "example_dcoll =
     \<lparr>dc_ambient_dim = 1, dc_dim = 1,
      discr_from_dd = (\<lambda>dd. Inr [example_group]),
      connection_from_dds = (\<lambda>src tgt a. Inr a),
      area_element = (\<lambda>dd. [NDArray [1, 2] [2, 2]]),
      inverse_surface_metric_derivative = (\<lambda>rst xyz dd. [NDArray [1, 2] [1 / 2, 1 / 2]]),
      nodal_l2 = (\<lambda>dd v. case v of Num x \<Rightarrow> \<bar>x\<bar> | _ \<Rightarrow> 0),
      nodal_linf = (\<lambda>dd v. case v of Num x \<Rightarrow> \<bar>x\<bar> | _ \<Rightarrow> 0),
      connected_ranks = [1],
      boundary_swap_connection = (\<lambda>dd a. Inr a)\<rparr>"

text \<open>
  A face group of the one-dimensional collection (a point, one basis function, two faces per
  element), a quadrature group with unequal weights, and numerical libraries that are enough
  for these groups: the inverse of a matrix with one or two rows, zero-filled fresh storage,
  the mass and differentiation matrices of the linear element on the interval
  \<open>[-1, 1]\<close>, and face mass matrices that pick the node of the face.
\<close>

definition example_face_group :: element_group where
  "example_face_group =
     \<lparr>discretization_key = (''PolynomialWarpAndBlendElementGroup'', 0, 1),
      grp_index = 0, is_affine = True, grp_nelements = 2, grp_nunit_dofs = 1, grp_order = 1,
      grp_dim = 0, grp_unit_nodes = [[]],
      grp_basis_functions = [\<lambda>x. 1],
      grp_basis_gradients = [\<lambda>x. []],
      grp_quadrature_weights = [1], grp_quadrature_exact_to = 2,
      grp_nfaces = 0, grp_space_dim = 1,
      is_quadrature_simplex_group = False, is_group_with_basis = True\<rparr>"

definition example_quad_group :: element_group where
  "example_quad_group =
     \<lparr>discretization_key = (''QuadratureSimplexElementGroup'', 1, 2),
      grp_index = 0, is_affine = True, grp_nelements = 1, grp_nunit_dofs = 2, grp_order = 2,
      grp_dim = 1, grp_unit_nodes = [[-1 / 2], [1 / 2]],
      grp_basis_functions = [],
      grp_basis_gradients = [],
      grp_quadrature_weights = [1 / 2, 3 / 2], grp_quadrature_exact_to = 2,
      grp_nfaces = 2, grp_space_dim = 3,
      is_quadrature_simplex_group = True, is_group_with_basis = False\<rparr>"

definition example_inv :: "ndarray \<Rightarrow> error + ndarray" where
  "example_inv m =
     (case m of
        NDArray [Suc 0, Suc 0] [a] \<Rightarrow>
          if a = 0 then Inl LinAlgError else Inr (NDArray [1, 1] [1 / a])
      | NDArray [Suc (Suc 0), Suc (Suc 0)] [a, b, c, d] \<Rightarrow>
          if a * d - b * c = 0 then Inl LinAlgError
          else Inr (NDArray [2, 2]
                      [d / (a * d - b * c), - b / (a * d - b * c),
                       - c / (a * d - b * c), a / (a * d - b * c)])
      | _ \<Rightarrow> Inl LinAlgError)"

definition example_numerics :: numerics where
  "example_numerics =
     \<lparr>linalg_inv = example_inv,
      np_empty = (\<lambda>sh dtype. NDArray sh (replicate (prod_list sh) 0)),
      mass_matrix = (\<lambda>g. NDArray [2, 2] [2 / 3, 1 / 3, 1 / 3, 2 / 3]),
      diff_matrices = (\<lambda>g. [NDArray [2, 2] [- 1 / 2, 1 / 2, - 1 / 2, 1 / 2]]),
      inverse_mass_matrix = (\<lambda>fs nodes. NDArray [2, 2] [2, - 1, - 1, 2]),
      faces_for_shape = (\<lambda>g. [0..<grp_nfaces g]),
      quadrature_for_face =
        (\<lambda>fc deg. \<lparr>quad_nodes = [[]], quad_weights = [1], quad_exact_to = deg\<rparr>),
      nodal_mass_matrix_for_face =
        (\<lambda>fc q fb vb vn fn. NDArray [2, 1] [if fc = 0 then 1 else 0, if fc = 0 then 0 else 1]),
      nodal_quad_mass_matrix_for_face =
        (\<lambda>fc q vb vn. NDArray [2, 1] [if fc = 0 then 1 else 0, if fc = 0 then 0 else 1])\<rparr>"

definition empty_context :: array_context where
  "empty_context = \<lparr>memo = Map.empty, next_oid = 0\<rparr>"

text \<open>A remote side that answers every receive with zeros.\<close>

definition example_remote :: "nat \<Rightarrow> int \<Rightarrow> nat \<Rightarrow> real list" where
  "example_remote rank tag n = replicate n 0"

text \<open>
  A constant element on the interval (one basis function, one node), a collection of two
  linear elements of different size, and a collection with a curved (non-affine) copy of the
  linear group, whose area element varies inside the element.
\<close>

definition example_p0_group :: element_group where
  "example_p0_group =
     \<lparr>discretization_key = (''PolynomialWarpAndBlendElementGroup'', 1, 0),
      grp_index = 0, is_affine = True, grp_nelements = 1, grp_nunit_dofs = 1, grp_order = 0,
      grp_dim = 1, grp_unit_nodes = [[0]],
      grp_basis_functions = [\<lambda>x. 1],
      grp_basis_gradients = [\<lambda>x. [0]],
      grp_quadrature_weights = [2], grp_quadrature_exact_to = 1,
      grp_nfaces = 2, grp_space_dim = 1,
      is_quadrature_simplex_group = False, is_group_with_basis = True\<rparr>"

definition example_mesh_dcoll :: dcoll where
  "example_mesh_dcoll =
     example_dcoll
       \<lparr>discr_from_dd := (\<lambda>dd. Inr [example_group\<lparr>grp_nelements := 2\<rparr>]),
        area_element := (\<lambda>dd. [NDArray [2, 2] [2, 2, 4, 4]])\<rparr>"

definition example_curved_dcoll :: dcoll where
  "example_curved_dcoll =
     example_dcoll
       \<lparr>discr_from_dd := (\<lambda>dd. Inr [example_group\<lparr>is_affine := False\<rparr>]),
        area_element := (\<lambda>dd. [NDArray [1, 2] [2, 4]])\<rparr>"

definition example_degenerate_dcoll :: dcoll where
  "example_degenerate_dcoll =
     example_dcoll\<lparr>area_element := (\<lambda>dd. [NDArray [1, 2] [0, 2]])\<rparr>"

text \<open>
  Symbolic geometric factors as named variables, and the arithmetic of expressions without
  any simplification.
\<close>

definition example_sym_env :: sym_env where
  "example_sym_env =
     \<lparr>sym_area_element =
        (\<lambda>ambient_dim ndim dd.
           Variable (if ndim = ambient_dim then ''area_element'' else ''surface_area_element'') dd),
      sym_inverse_metric_derivative =
        (\<lambda>rst_axis xyz_axis ambient_dim ndim. ScalarParameter ''inverse_metric_derivative''),
      e_mul = (\<lambda>a b. Product [a, b]),
      e_neg = (\<lambda>a. Product [Constant (- 1), a]),
      e_rdiv = (\<lambda>c a. Product [Constant c, a]),
      e_add = (\<lambda>a b. Sum [a, b])\<rparr>"

text \<open>Fields for the inverse mass contractor and two expressions for constant folding.\<close>

definition example_u :: expr where
  "example_u = Variable ''u'' DD_VOLUME"

definition example_two_derivatives :: expr where
  "example_two_derivatives =
     Sum [OperatorBinding (DiffOperator 0 DD_VOLUME DD_VOLUME) example_u,
          OperatorBinding (DiffOperator 1 DD_VOLUME DD_VOLUME) example_u]"

definition example_three_fields :: expr where
  "example_three_fields =
     Sum [Variable ''u'' DD_VOLUME, Variable ''v'' DD_VOLUME, Variable ''w'' DD_VOLUME]"

definition example_zero_sum :: expr where
  "example_zero_sum = Sum [Constant 2, Constant (- 2)]"

definition example_mixed_sum :: expr where
  "example_mixed_sum =
     Sum [example_u, Constant 3,
          OperatorBinding (MassOperator DD_VOLUME DD_VOLUME) example_zero_sum, Constant 4]"

section \<open>Unfolding rules and array lemmas\<close>

text \<open>
  The definitions that evaluate the closed instances, collected by subject, and the entries
  of an array built by \<open>tabulate2\<close>.
\<close>

lemmas example_defs =
  empty_context_def example_face_group_def example_quad_group_def example_group_def
  example_numerics_def example_inv_def example_dcoll_def example_table_def example_remote_def
  example_p0_group_def example_mesh_dcoll_def example_curved_dcoll_def
  example_degenerate_dcoll_def

lemmas refmat_defs =
  reference_mass_matrix_def reference_face_mass_matrix_def keyed_memoize_in_def
  get_ref_mass_mat_def get_ref_face_mass_mat_def freeze_result_def freeze_def
  ref_mass_mat_array_def vandermonde_def tabulate2_def tabulate3_def transpose_array_def
  einsum_j_ik_jk_ij_def at1_def at2_def at3_def face_mass_slice_def set_face_slice_def
  quadrature_rule_def

lemmas comm_defs =
  cross_rank_trace_pairs_def cross_rank_trace_pairs_scalar_field_def
  RankBoundaryCommunication_init_def RankBoundaryCommunication_finish_def
  dof_data_def base_tag_def flatten_def TracePair_def as_dofdesc_def lookup_pair_def

lemmas apply_defs =
  mass_def apply_mass_operator_def mass_group_def dof_data_def
  reference_mass_matrix_def keyed_memoize_in_def get_ref_mass_mat_def freeze_result_def freeze_def
  ref_mass_mat_array_def einsum_ij_ej_ej_ei_def tabulate2_def at2_def obj_array_vectorize_st_def
  DD_VOLUME_def QTAG_NONE_def

lemmas inverse_mass_defs =
  apply_inverse_mass_operator_def inverse_mass_group_def wadg_group_def dof_data_def
  reference_mass_matrix_def reference_inverse_mass_matrix_def keyed_memoize_in_def
  get_ref_mass_mat_def get_ref_inv_mass_mat_def freeze_result_def freeze_def
  ref_mass_mat_array_def einsum_ij_ej_ej_ei_def einsum_ik_km_em_mj_ej_ei_def reciprocal_def
  tabulate2_def at2_def DD_VOLUME_def

lemma length_concat_rows: "length (concat (map (\<lambda>i. map (f i) [0..<n]) [0..<m])) = m * n"
  by (induction m) simp_all

lemma nth_concat_rows:
  "i < m \<Longrightarrow> j < n \<Longrightarrow> concat (map (\<lambda>i. map (f i) [0..<n]) [0..<m]) ! (i * n + j) = f i j"
proof (induction m)
  case 0
  then show ?case by simp
next
  case (Suc m)
  show ?case
  proof (cases "i < m")
    case True
    then have "Suc i \<le> m" by simp
    then have "Suc i * n \<le> m * n" by (rule mult_le_mono1)
    then have "i * n + j < m * n" using Suc.prems(2) by simp
    then show ?thesis using Suc True by (simp add: nth_append length_concat_rows)
  next
    case False
    then have "i = m" using Suc.prems by simp
    then show ?thesis using Suc.prems(2) by (simp add: nth_append length_concat_rows)
  qed
qed

lemma shape_tabulate2 [simp]: "shape (tabulate2 m n f) = [m, n]"
  by (simp add: tabulate2_def)

lemma at2_tabulate2: "i < m \<Longrightarrow> j < n \<Longrightarrow> at2 (tabulate2 m n f) i j = f i j"
  by (simp add: at2_def tabulate2_def nth_concat_rows)

section \<open>Properties of projection\<close>

text \<open>
  C10.  Whenever the source and the target descriptor normalize to the same descriptor,
  \<open>project\<close> returns its input (a DOF array, an object array or a number) unchanged; and a
  plain number is returned unchanged whatever the two descriptors are.
\<close>

theorem project_identity_and_number:
  "(as_dofdesc tbl src = as_dofdesc tbl tgt \<longrightarrow> project tbl dc src tgt vec = Inr vec)
   \<and> project tbl dc src' tgt' (Num x) = Inr (Num x)"
  by (cases vec) simp_all

theorem project_identity_and_number_witness:
  "as_dofdesc example_table (DDName ''vol'') = as_dofdesc example_table (DDDesc DD_VOLUME)
   \<and> project example_table example_dcoll (DDName ''vol'') (DDDesc DD_VOLUME)
         (ObjArray [2] [DOFArray [NDArray [1, 2] [3, 4]], Num 7])
       = Inr (ObjArray [2] [DOFArray [NDArray [1, 2] [3, 4]], Num 7])
   \<and> project example_table example_dcoll (DDName ''vol'') (DDName ''int_faces'') (Num 5)
       = Inr (Num 5)"
  using project_identity_and_number
          [of example_table "DDName ''vol''" "DDDesc DD_VOLUME" example_dcoll
              "ObjArray [2] [DOFArray [NDArray [1, 2] [3, 4]], Num 7]"
              "DDName ''vol''" "DDName ''int_faces''" 5]
  by (simp add: as_dofdesc_def example_table_def)

section \<open>Properties of the norm\<close>

lemma fold_max_Max: "fold max rs (r::real) = Max (set (r # rs))"
  using Max.set_eq_fold [of r rs] by simp

lemma norm_dd_unsupported:
  "p \<noteq> Order 2 \<Longrightarrow> p \<noteq> OrderInf \<Longrightarrow> norm_dd tbl dc vec p d = Inl (ValueError ''unsupported norm order'')"
  by (cases vec) (simp_all add: norm_bound_def sym_norm_def)

lemma norm_default_dd_Some [simp]: "norm_default_dd tbl (Some (DDDesc d)) = d"
  by (simp add: norm_default_dd_def as_dofdesc_def)

lemma py_max_nonempty: "rs \<noteq> [] \<Longrightarrow> py_max rs = Inr (Max (set rs))"
  by (cases rs) (simp_all add: py_max_def fold_max_Max)

lemma mapM_err_length: "mapM_err f xs = Inr ys \<Longrightarrow> length ys = length xs"
  by (induction xs arbitrary: ys) (auto split: sum.splits)

text \<open>
  C9 (as amended).  For every field and every order other than 2 and infinity, \<open>norm\<close> raises
  the "unsupported norm order" error.  For order 2 and order infinity a field that is not an
  object array gets the bound reduction; an object array whose entries all have a norm gets
  the root of the sum of their squares (order 2) or, when it has at least one entry, their
  maximum (order infinity).
\<close>

theorem norm_orders:
  "(p \<noteq> Order 2 \<and> p \<noteq> OrderInf \<longrightarrow>
      norm_grudge tbl dc vec p dd = Inl (ValueError ''unsupported norm order''))
   \<and> ((\<forall>sh xs. vec \<noteq> ObjArray sh xs) \<longrightarrow>
        norm_grudge tbl dc vec (Order 2) dd = Inr (nodal_l2 dc (norm_default_dd tbl dd) vec)
      \<and> norm_grudge tbl dc vec OrderInf dd = Inr (nodal_linf dc (norm_default_dd tbl dd) vec))
   \<and> (mapM_err (\<lambda>el. norm_grudge tbl dc el (Order 2) (Some (DDDesc (norm_default_dd tbl dd)))) xs = Inr rs \<longrightarrow>
        norm_grudge tbl dc (ObjArray sh xs) (Order 2) dd = Inr (sqrt (\<Sum>r\<leftarrow>rs. r\<^sup>2)))
   \<and> (mapM_err (\<lambda>el. norm_grudge tbl dc el OrderInf (Some (DDDesc (norm_default_dd tbl dd)))) xs = Inr rs \<and> xs \<noteq> [] \<longrightarrow>
        norm_grudge tbl dc (ObjArray sh xs) OrderInf dd = Inr (Max (set rs)))"
proof (intro conjI impI)
  assume "p \<noteq> Order 2 \<and> p \<noteq> OrderInf"
  then show "norm_grudge tbl dc vec p dd = Inl (ValueError ''unsupported norm order'')"
    by (simp add: norm_grudge_def norm_dd_unsupported)
next
  assume "\<forall>sh xs. vec \<noteq> ObjArray sh xs"
  then show "norm_grudge tbl dc vec (Order 2) dd = Inr (nodal_l2 dc (norm_default_dd tbl dd) vec)"
    by (cases vec) (simp_all add: norm_grudge_def norm_bound_def sym_norm_def)
next
  assume "\<forall>sh xs. vec \<noteq> ObjArray sh xs"
  then show "norm_grudge tbl dc vec OrderInf dd = Inr (nodal_linf dc (norm_default_dd tbl dd) vec)"
    by (cases vec) (simp_all add: norm_grudge_def norm_bound_def sym_norm_def)
next
  assume "mapM_err (\<lambda>el. norm_grudge tbl dc el (Order 2) (Some (DDDesc (norm_default_dd tbl dd)))) xs = Inr rs"
  then show "norm_grudge tbl dc (ObjArray sh xs) (Order 2) dd = Inr (sqrt (\<Sum>r\<leftarrow>rs. r\<^sup>2))"
    by (simp add: norm_grudge_def as_dofdesc_def)
next
  assume a: "mapM_err (\<lambda>el. norm_grudge tbl dc el OrderInf (Some (DDDesc (norm_default_dd tbl dd)))) xs = Inr rs \<and> xs \<noteq> []"
  then have "rs \<noteq> []" using mapM_err_length by fastforce
  with a show "norm_grudge tbl dc (ObjArray sh xs) OrderInf dd = Inr (Max (set rs))"
    by (simp add: norm_grudge_def as_dofdesc_def py_max_nonempty)
qed

text \<open>
  The claim as stated fails on the empty object array: order infinity takes Python's
  \<^verbatim>\<open>max\<close> over no entries, which raises.
\<close>

theorem norm_inf_empty_array_counterexample:
  "norm_grudge example_table example_dcoll (ObjArray [0] []) OrderInf None
     = Inl (ValueError ''max() arg is an empty sequence'')"
  by (simp add: norm_grudge_def py_max_def)

lemma example_nodal [simp]:
  "nodal_l2 example_dcoll d (Num x) = \<bar>x\<bar>" "nodal_linf example_dcoll d (Num x) = \<bar>x\<bar>"
  by (simp_all add: example_dcoll_def)

theorem norm_orders_witness:
  "Order 3 \<noteq> Order 2 \<and> Order 3 \<noteq> OrderInf
   \<and> norm_grudge example_table example_dcoll (Num (-4)) (Order 3) None
       = Inl (ValueError ''unsupported norm order'')
   \<and> norm_grudge example_table example_dcoll (Num (-4)) (Order 2) None = Inr 4
   \<and> norm_grudge example_table example_dcoll (Num (-4)) OrderInf None = Inr 4
   \<and> mapM_err (\<lambda>el. norm_grudge example_table example_dcoll el (Order 2) (Some (DDDesc DD_VOLUME)))
        [Num 3, Num (-4)] = Inr [3, 4]
   \<and> norm_grudge example_table example_dcoll (ObjArray [2] [Num 3, Num (-4)]) (Order 2) None = Inr 5
   \<and> mapM_err (\<lambda>el. norm_grudge example_table example_dcoll el OrderInf (Some (DDDesc DD_VOLUME)))
        [Num 3, Num (-4)] = Inr [3, 4]
   \<and> norm_grudge example_table example_dcoll (ObjArray [2] [Num 3, Num (-4)]) OrderInf None = Inr 4"
proof -
  have d: "norm_default_dd example_table None = DD_VOLUME"
    by (simp add: norm_default_dd_def as_dofdesc_def example_table_def)
  have m2: "mapM_err (\<lambda>el. norm_grudge example_table example_dcoll el (Order 2) (Some (DDDesc DD_VOLUME)))
        [Num 3, Num (-4)] = Inr [3, 4]"
    by (simp add: norm_grudge_def norm_bound_def sym_norm_def)
  have mi: "mapM_err (\<lambda>el. norm_grudge example_table example_dcoll el OrderInf (Some (DDDesc DD_VOLUME)))
        [Num 3, Num (-4)] = Inr [3, 4]"
    by (simp add: norm_grudge_def norm_bound_def sym_norm_def)
  have sq: "sqrt (25::real) = 5"
    using real_sqrt_abs [of 5] by simp
  note t = norm_orders [of "Order 3" example_table example_dcoll "Num (-4)" None "[Num 3, Num (-4)]" "[3, 4]" "[2]"]
  show ?thesis
    using t m2 mi sq unfolding d by simp
qed

section \<open>The projection mass matrix\<close>

lemma einsum_j_ik_jk_ij_Inr:
  assumes "shape w = [J]" and "shape a = [I, K]" and "shape b = [J, K]"
  shows "einsum_j_ik_jk_ij w a b
           = Inr (tabulate2 I J (\<lambda>i j. \<Sum>k\<leftarrow>[0..<K]. at1 w j * at2 a i k * at2 b j k))"
  using assms by (simp add: einsum_j_ik_jk_ij_def)

text \<open>
  C1 (as amended).  For two element groups with different discretization keys, on a cache
  that does not hold the pair, and when the Vandermonde matrix of the output group's basis at
  its own nodes has an inverse, \<open>reference_mass_matrix\<close> returns and caches the matrix
  \<open>M[i,j] = weights[j] * (\<Sum>k. vand_inv_t[i,k] * other_vand[j,k])\<close>: the quadrature weight of
  the input group is taken at the column index \<open>j\<close>, outside the sum over \<open>k\<close>.
\<close>

theorem reference_mass_matrix_projection:
  assumes "discretization_key out_grp \<noteq> discretization_key in_grp"
    and "memo s (Id_reference_mass_matrix,
                 Key2 (discretization_key out_grp) (discretization_key in_grp)) = None"
    and "linalg_inv X (vandermonde (grp_basis_functions out_grp) (grp_unit_nodes out_grp))
           = Inr vand_inv"
    and "shape vand_inv = [length (grp_basis_functions out_grp), I]"
    and "length (grp_quadrature_weights in_grp) = length (grp_unit_nodes in_grp)"
  shows "\<exists>M s'. reference_mass_matrix X out_grp in_grp s = (Inr M, s')
           \<and> memo s' (Id_reference_mass_matrix,
                       Key2 (discretization_key out_grp) (discretization_key in_grp)) = Some M
           \<and> shape (arr M) = [I, length (grp_unit_nodes in_grp)]
           \<and> (\<forall>i<I. \<forall>j<length (grp_unit_nodes in_grp).
                 at2 (arr M) i j
                   = grp_quadrature_weights in_grp ! j
                     * (\<Sum>k\<leftarrow>[0..<length (grp_basis_functions out_grp)].
                          at2 (transpose_array vand_inv) i k
                          * at2 (vandermonde (grp_basis_functions out_grp) (grp_unit_nodes in_grp)) j k))"
proof -
  let ?K = "length (grp_basis_functions out_grp)"
  let ?J = "length (grp_unit_nodes in_grp)"
  let ?w = "NDArray [length (grp_quadrature_weights in_grp)] (grp_quadrature_weights in_grp)"
  let ?vit = "transpose_array vand_inv"
  let ?ov = "vandermonde (grp_basis_functions out_grp) (grp_unit_nodes in_grp)"
  let ?A = "tabulate2 I ?J (\<lambda>i j. \<Sum>k\<leftarrow>[0..<?K]. at1 ?w j * at2 ?vit i k * at2 ?ov j k)"
  have ne: "out_grp \<noteq> in_grp" using assms(1) by auto
  have sh_vit: "shape ?vit = [I, ?K]"
    using assms(4) by (simp add: transpose_array_def)
  have sh_ov: "shape ?ov = [?J, ?K]"
    by (simp add: vandermonde_def)
  have arr: "ref_mass_mat_array X out_grp in_grp = Inr ?A"
    using ne assms(3,5) einsum_j_ik_jk_ij_Inr [of ?w ?J ?vit I ?K ?ov] sh_vit sh_ov
    by (simp add: ref_mass_mat_array_def Let_def)
  let ?M = "\<lparr>oid = next_oid s, arr = ?A\<rparr>"
  let ?s1 = "s\<lparr>next_oid := Suc (next_oid s)\<rparr>"
  let ?key = "(Id_reference_mass_matrix,
               Key2 (discretization_key out_grp) (discretization_key in_grp))"
  let ?s' = "?s1\<lparr>memo := (memo ?s1)(?key \<mapsto> ?M)\<rparr>"
  have run: "reference_mass_matrix X out_grp in_grp s = (Inr ?M, ?s')"
    using assms(2) arr
    by (simp add: reference_mass_matrix_def keyed_memoize_in_def get_ref_mass_mat_def
        freeze_result_def freeze_def)
  have entry: "at2 ?A i j
                 = grp_quadrature_weights in_grp ! j
                   * (\<Sum>k\<leftarrow>[0..<?K]. at2 ?vit i k * at2 ?ov j k)"
    if "i < I" and "j < ?J" for i j
  proof -
    have "at2 ?A i j = (\<Sum>k\<leftarrow>[0..<?K]. at1 ?w j * at2 ?vit i k * at2 ?ov j k)"
      using that by (simp add: at2_tabulate2)
    also have "\<dots> = (\<Sum>k\<leftarrow>[0..<?K]. grp_quadrature_weights in_grp ! j * (at2 ?vit i k * at2 ?ov j k))"
      by (simp add: at1_def mult.assoc)
    also have "\<dots> = grp_quadrature_weights in_grp ! j * (\<Sum>k\<leftarrow>[0..<?K]. at2 ?vit i k * at2 ?ov j k)"
      by (simp add: sum_list_const_mult)
    finally show ?thesis .
  qed
  show ?thesis
    using run entry by (intro exI [of _ ?M] exI [of _ ?s']) simp
qed

text \<open>
  With the weight at the summation index, as \<open>claimed_projection_mass_entry\<close> has it, the
  entry \<open>(0, 1)\<close> of the matrix from the constant element to a quadrature group with the
  weights \<open>1/2\<close> and \<open>3/2\<close> would be \<open>1/2\<close>; the code gives \<open>3/2\<close>.
\<close>

theorem reference_mass_matrix_weight_index_counterexample:
  "discretization_key example_p0_group \<noteq> discretization_key example_quad_group
   \<and> fst (reference_mass_matrix example_numerics example_p0_group example_quad_group empty_context)
       = Inr \<lparr>oid = 0, arr = NDArray [1, 2] [1 / 2, 3 / 2]\<rparr>
   \<and> at2 (NDArray [1, 2] [1 / 2, 3 / 2]) 0 1 = 3 / 2
   \<and> claimed_projection_mass_entry (grp_quadrature_weights example_quad_group)
        (transpose_array (NDArray [1, 1] [1]))
        (vandermonde (grp_basis_functions example_p0_group) (grp_unit_nodes example_quad_group))
        0 1 = 1 / 2"
  by (simp add: example_defs refmat_defs claimed_projection_mass_entry_def)

theorem reference_mass_matrix_projection_witness:
  "discretization_key example_p0_group \<noteq> discretization_key example_quad_group
   \<and> (\<exists>M s'. reference_mass_matrix example_numerics example_p0_group example_quad_group
                empty_context = (Inr M, s')
        \<and> shape (arr M) = [1, 2]
        \<and> at2 (arr M) 0 0 = 1 / 2 \<and> at2 (arr M) 0 1 = 3 / 2)"
proof -
  have k: "discretization_key example_p0_group \<noteq> discretization_key example_quad_group"
    by (simp add: example_defs)
  have m: "memo empty_context (Id_reference_mass_matrix,
             Key2 (discretization_key example_p0_group) (discretization_key example_quad_group))
           = None"
    by (simp add: empty_context_def)
  have inv: "linalg_inv example_numerics
               (vandermonde (grp_basis_functions example_p0_group) (grp_unit_nodes example_p0_group))
             = Inr (NDArray [1, 1] [1])"
    by (simp add: example_defs vandermonde_def tabulate2_def)
  have sh: "shape (NDArray [1, 1] [1]) = [length (grp_basis_functions example_p0_group), 1]"
    by (simp add: example_defs)
  have len: "length (grp_quadrature_weights example_quad_group)
               = length (grp_unit_nodes example_quad_group)"
    by (simp add: example_defs)
  from reference_mass_matrix_projection [OF k m inv sh len]
  obtain M s' where r: "reference_mass_matrix example_numerics example_p0_group
                          example_quad_group empty_context = (Inr M, s')"
    and s: "shape (arr M) = [1, length (grp_unit_nodes example_quad_group)]"
    and e: "\<forall>i<1. \<forall>j<length (grp_unit_nodes example_quad_group).
              at2 (arr M) i j
                = grp_quadrature_weights example_quad_group ! j
                  * (\<Sum>k\<leftarrow>[0..<length (grp_basis_functions example_p0_group)].
                       at2 (transpose_array (NDArray [1, 1] [1])) i k
                       * at2 (vandermonde (grp_basis_functions example_p0_group)
                                (grp_unit_nodes example_quad_group)) j k)"
    by blast
  have n: "length (grp_unit_nodes example_quad_group) = 2"
    by (simp add: example_defs)
  have e0: "at2 (arr M) 0 0 = 1 / 2"
    using e [rule_format, of 0 0]
    by (simp add: n) (simp add: example_defs vandermonde_def tabulate2_def transpose_array_def at2_def)
  have e1: "at2 (arr M) 0 1 = 3 / 2"
    using e [rule_format, of 0 1]
    by (simp add: n) (simp add: example_defs vandermonde_def tabulate2_def transpose_array_def at2_def)
  show ?thesis
    using k r s e0 e1 n by auto
qed

section \<open>The inverse mass operator\<close>

lemma sum_list_upt_cong:
  "(\<And>j. j < n \<Longrightarrow> f j = g j) \<Longrightarrow> (\<Sum>j\<leftarrow>[0..<n]. f j) = (\<Sum>j\<leftarrow>[0..<n]. (g j :: real))"
  by (induction n) simp_all

lemma reciprocal_Inr:
  assumes "reciprocal jac = Inr jac_inv"
  shows "0 \<notin> set (entries jac)"
    and "shape jac_inv = shape jac"
    and "well_formed jac \<Longrightarrow> shape jac = [E, J] \<Longrightarrow> e < E \<Longrightarrow> j < J
         \<Longrightarrow> at2 jac_inv e j = 1 / at2 jac e j"
proof -
  have r: "0 \<notin> set (entries jac)" "jac_inv = NDArray (shape jac) (map (\<lambda>x. 1 / x) (entries jac))"
    using assms by (auto simp: reciprocal_def split: if_splits)
  show "0 \<notin> set (entries jac)" "shape jac_inv = shape jac"
    using r by simp_all
  show "at2 jac_inv e j = 1 / at2 jac e j"
    if "well_formed jac" "shape jac = [E, J]" "e < E" "j < J"
  proof -
    have "Suc e \<le> E" using that(3) by simp
    then have "Suc e * J \<le> E * J" by (rule mult_le_mono1)
    then have "e * J + j < length (entries jac)"
      using that by (simp add: well_formed_def)
    then show ?thesis
      using that(2) by (simp add: r(2) at2_def)
  qed
qed

lemma einsum_ij_ej_ej_ei_shapes:
  assumes "einsum_ij_ej_ej_ei a b c = Inr r"
  shows "\<exists>I J E. shape a = [I, J] \<and> shape b = [E, J] \<and> shape c = [E, J]"
  using assms
  by (auto simp: einsum_ij_ej_ej_ei_def split: list.splits if_splits)

lemma einsum_ij_ej_ej_ei_entries:
  assumes "einsum_ij_ej_ej_ei a b c = Inr r"
      and "reciprocal jac = Inr b" and "well_formed jac"
  shows "has_entries (shape c ! 0) (shape a ! 0) (scaled_inverse_mass a jac c) r"
proof -
  obtain I J E where sh: "shape a = [I, J]" "shape b = [E, J]" "shape c = [E, J]"
    using einsum_ij_ej_ej_ei_shapes [OF assms(1)] by blast
  have r: "r = tabulate2 E I (\<lambda>e i. \<Sum>j\<leftarrow>[0..<J]. at2 a i j * at2 b e j * at2 c e j)"
    using assms(1) sh by (simp add: einsum_ij_ej_ej_ei_def)
  have shj: "shape jac = [E, J]"
    using reciprocal_Inr(2) [OF assms(2)] sh(2) by simp
  have b: "at2 b e j = 1 / at2 jac e j" if "e < E" "j < J" for e j
    using reciprocal_Inr(3) [OF assms(2,3) shj that] .
  have "(\<Sum>j\<leftarrow>[0..<J]. at2 a i j * at2 b e j * at2 c e j) = scaled_inverse_mass a jac c e i"
    if "e < E" for e i
  proof -
    define w where "w j = 1 / at2 jac e j" for j
    have "(\<Sum>j\<leftarrow>[0..<J]. at2 a i j * at2 b e j * at2 c e j)
          = (\<Sum>j\<leftarrow>[0..<J]. at2 a i j * (w j * at2 c e j))"
      by (rule sum_list_upt_cong) (simp add: b [OF that] w_def)
    also have "\<dots> = scaled_inverse_mass a jac c e i"
      unfolding scaled_inverse_mass_def matvec_def w_def [symmetric] by (simp add: sh)
    finally show ?thesis .
  qed
  then show ?thesis
    by (simp add: has_entries_def r sh at2_tabulate2)
qed

lemma einsum_wadg_shapes:
  assumes "einsum_ik_km_em_mj_ej_ei a b c a x = Inr r"
  shows "\<exists>I K E. shape a = [I, K] \<and> shape b = [K, I] \<and> shape c = [E, I] \<and> shape x = [E, K]"
  using assms
  by (auto simp: einsum_ik_km_em_mj_ej_ei_def split: list.splits if_splits)

lemma einsum_wadg_entries:
  assumes "einsum_ik_km_em_mj_ej_ei a b c a x = Inr r"
      and "reciprocal jac = Inr c" and "well_formed jac"
  shows "has_entries (shape x ! 0) (shape a ! 0) (weight_adjusted_inverse a b jac x) r"
proof -
  obtain I K E where sh: "shape a = [I, K]" "shape b = [K, I]" "shape c = [E, I]" "shape x = [E, K]"
    using einsum_wadg_shapes [OF assms(1)] by blast
  have r: "r = tabulate2 E I (\<lambda>e i.
                 \<Sum>k\<leftarrow>[0..<K]. \<Sum>m\<leftarrow>[0..<I]. \<Sum>j\<leftarrow>[0..<K].
                   at2 a i k * at2 b k m * at2 c e m * at2 a m j * at2 x e j)"
    using assms(1) sh by (simp add: einsum_ik_km_em_mj_ej_ei_def)
  have shj: "shape jac = [E, I]"
    using reciprocal_Inr(2) [OF assms(2)] sh(3) by simp
  have c: "at2 c e m = 1 / at2 jac e m" if "e < E" "m < I" for e m
    using reciprocal_Inr(3) [OF assms(2,3) shj that] .
  have "(\<Sum>k\<leftarrow>[0..<K]. \<Sum>m\<leftarrow>[0..<I]. \<Sum>j\<leftarrow>[0..<K].
            at2 a i k * at2 b k m * at2 c e m * at2 a m j * at2 x e j)
        = weight_adjusted_inverse a b jac x e i" if "e < E" for e i
  proof -
    define w where "w m = 1 / at2 jac e m" for m
    have "(\<Sum>k\<leftarrow>[0..<K]. \<Sum>m\<leftarrow>[0..<I]. \<Sum>j\<leftarrow>[0..<K].
              at2 a i k * at2 b k m * at2 c e m * at2 a m j * at2 x e j)
          = (\<Sum>k\<leftarrow>[0..<K]. \<Sum>m\<leftarrow>[0..<I]. \<Sum>j\<leftarrow>[0..<K].
              at2 a i k * at2 b k m * w m * at2 a m j * at2 x e j)"
      by (intro sum_list_upt_cong) (simp add: c [OF that] w_def)
    also have "\<dots> = (\<Sum>k\<leftarrow>[0..<K]. at2 a i k *
                        (\<Sum>m\<leftarrow>[0..<I]. at2 b k m *
                           (w m * (\<Sum>j\<leftarrow>[0..<K]. at2 a m j * at2 x e j))))"
      by (simp add: sum_list_const_mult mult.assoc)
    also have "\<dots> = weight_adjusted_inverse a b jac x e i"
      unfolding weight_adjusted_inverse_def matvec_def w_def [symmetric] by (simp add: sh)
    finally show ?thesis .
  qed
  then show ?thesis
    by (simp add: has_entries_def r sh at2_tabulate2)
qed

lemma memo_extends_refl: "memo_extends s s"
  by (simp add: memo_extends_def)

lemma memo_extends_trans: "memo_extends s t \<Longrightarrow> memo_extends t u \<Longrightarrow> memo_extends s u"
  by (simp add: memo_extends_def)

lemma freeze_result_memo: "freeze_result r s = (y, s') \<Longrightarrow> memo s' = memo s"
  by (auto simp: freeze_result_def freeze_def split: sum.splits)

lemma keyed_memoize_in_extends:
  assumes "keyed_memoize_in ident k (\<lambda>t. freeze_result (body t) t) s = (y, s')"
  shows "memo_extends s s'"
proof (cases "memo s (ident, k)")
  case (Some v)
  then show ?thesis using assms by (simp add: keyed_memoize_in_def memo_extends_refl)
next
  case None
  obtain y1 s1 where b: "freeze_result (body s) s = (y1, s1)" by (cases "freeze_result (body s) s")
  have m: "memo s1 = memo s" by (rule freeze_result_memo [OF b])
  show ?thesis
    using assms None b m
    by (cases y1) (auto simp: keyed_memoize_in_def memo_extends_def)
qed

lemma keyed_memoize_in_stored:
  assumes "keyed_memoize_in ident k inner s = (Inr v, s')"
  shows "memo s' (ident, k) = Some v"
  using assms
  by (auto simp: keyed_memoize_in_def split: option.splits sum.splits prod.splits)

lemma reference_inverse_mass_matrix_memo:
  assumes "reference_inverse_mass_matrix X grp s = (y, s')"
  shows "memo_extends s s'"
    and "y = Inr v \<Longrightarrow>
         memo s' (Id_reference_inverse_mass_matrix, Key1 (discretization_key grp)) = Some v"
proof -
  have eq: "get_ref_inv_mass_mat X grp =
            (\<lambda>t. freeze_result
                   (Inr (inverse_mass_matrix X (grp_basis_functions grp) (grp_unit_nodes grp))) t)"
    by (rule ext) (simp add: get_ref_inv_mass_mat_def)
  show "memo_extends s s'"
    using assms unfolding reference_inverse_mass_matrix_def eq
    by (rule keyed_memoize_in_extends)
  show "y = Inr v \<Longrightarrow>
        memo s' (Id_reference_inverse_mass_matrix, Key1 (discretization_key grp)) = Some v"
    using assms unfolding reference_inverse_mass_matrix_def
    by (simp add: keyed_memoize_in_stored)
qed

lemma reference_mass_matrix_memo:
  assumes "reference_mass_matrix X out_grp in_grp s = (y, s')"
  shows "memo_extends s s'"
    and "y = Inr v \<Longrightarrow>
         memo s' (Id_reference_mass_matrix,
                  Key2 (discretization_key out_grp) (discretization_key in_grp)) = Some v"
proof -
  have eq: "get_ref_mass_mat X out_grp in_grp =
            (\<lambda>t. freeze_result (ref_mass_mat_array X out_grp in_grp) t)"
    by (rule ext) (simp add: get_ref_mass_mat_def)
  show "memo_extends s s'"
    using assms unfolding reference_mass_matrix_def eq
    by (rule keyed_memoize_in_extends)
  show "y = Inr v \<Longrightarrow>
        memo s' (Id_reference_mass_matrix,
                 Key2 (discretization_key out_grp) (discretization_key in_grp)) = Some v"
    using assms unfolding reference_mass_matrix_def
    by (simp add: keyed_memoize_in_stored)
qed

lemma affine_group_result_mono:
  "affine_group_result s t y \<Longrightarrow> memo_extends s s' \<Longrightarrow> affine_group_result s' t y"
  by (auto simp: affine_group_result_def memo_extends_def split: prod.splits)

lemma wadg_group_result_mono:
  "wadg_group_result s t y \<Longrightarrow> memo_extends s s' \<Longrightarrow> wadg_group_result s' t y"
  by (auto simp: wadg_group_result_def memo_extends_def split: prod.splits)

lemma inverse_mass_group_result:
  assumes "reciprocal_of t u" and "inverse_mass_group X u s = (Inr y, s')"
  shows "memo_extends s s' \<and> affine_group_result s' t y"
proof -
  obtain grp jac x where t: "t = (grp, jac, x)" by (cases t)
  obtain jac_inv where u: "u = (grp, jac_inv, x)"
    and rc: "reciprocal jac = Inr jac_inv" and wf: "well_formed jac"
    using assms(1) by (cases u) (auto simp: reciprocal_of_def t)
  obtain r s1 where c: "reference_inverse_mass_matrix X grp s = (r, s1)"
    by (cases "reference_inverse_mass_matrix X grp s")
  from assms(2) u c obtain m where r: "r = Inr m" and s1: "s1 = s'"
    and e: "einsum_ij_ej_ej_ei (arr m) jac_inv x = Inr y"
    by (cases r) (auto simp: inverse_mass_group_def)
  show ?thesis
    using reference_inverse_mass_matrix_memo [OF c] r s1
      einsum_ij_ej_ej_ei_entries [OF e rc wf] reciprocal_Inr(1) [OF rc]
    by (auto simp: affine_group_result_def t)
qed

lemma wadg_group_result:
  assumes "reciprocal_of t u" and "wadg_group X u s = (Inr y, s')"
  shows "memo_extends s s' \<and> wadg_group_result s' t y"
proof -
  obtain grp jac x where t: "t = (grp, jac, x)" by (cases t)
  obtain jac_inv where u: "u = (grp, jac_inv, x)"
    and rc: "reciprocal jac = Inr jac_inv" and wf: "well_formed jac"
    using assms(1) by (cases u) (auto simp: reciprocal_of_def t)
  obtain r1 s1 where c1: "reference_mass_matrix X grp grp s = (r1, s1)"
    by (cases "reference_mass_matrix X grp grp s")
  from assms(2) u c1 obtain ref_m where r1: "r1 = Inr ref_m"
    by (cases r1) (auto simp: wadg_group_def)
  obtain r2 s2 where c2: "reference_inverse_mass_matrix X grp s1 = (r2, s2)"
    by (cases "reference_inverse_mass_matrix X grp s1")
  from assms(2) u c1 r1 c2 obtain m where r2: "r2 = Inr m" and s2: "s2 = s'"
    and e: "einsum_ik_km_em_mj_ej_ei (arr m) (arr ref_m) jac_inv (arr m) x = Inr y"
    by (cases r2) (auto simp: wadg_group_def)
  have x1: "memo_extends s s1" by (rule reference_mass_matrix_memo(1) [OF c1])
  have x2: "memo_extends s1 s'" using reference_inverse_mass_matrix_memo(1) [OF c2] s2 by simp
  have m1: "memo s1 (Id_reference_mass_matrix,
                     Key2 (discretization_key grp) (discretization_key grp)) = Some ref_m"
    by (rule reference_mass_matrix_memo(2) [OF c1 r1])
  then have m1': "memo s' (Id_reference_mass_matrix,
                     Key2 (discretization_key grp) (discretization_key grp)) = Some ref_m"
    using x2 by (simp add: memo_extends_def)
  have m2: "memo s' (Id_reference_inverse_mass_matrix, Key1 (discretization_key grp)) = Some m"
    using reference_inverse_mass_matrix_memo(2) [OF c2 r2] s2 by simp
  show ?thesis
    using memo_extends_trans [OF x1 x2] m1' m2 einsum_wadg_entries [OF e rc wf]
      reciprocal_Inr(1) [OF rc]
    by (auto simp: wadg_group_result_def t)
qed

lemma mapM_st_invariant:
  assumes step: "\<And>t u s y s'. R t u \<Longrightarrow> f u s = (Inr y, s') \<Longrightarrow> memo_extends s s' \<and> P s' t y"
      and mono: "\<And>t y s s'. P s t y \<Longrightarrow> memo_extends s s' \<Longrightarrow> P s' t y"
  shows "list_all2 R ts us \<Longrightarrow> mapM_st f us s = (Inr ys, s')
         \<Longrightarrow> memo_extends s s' \<and> list_all2 (P s') ts ys"
proof (induction us arbitrary: ts s ys)
  case Nil
  then show ?case by (simp add: memo_extends_refl)
next
  case (Cons u us)
  from Cons.prems(1) obtain t ts' where ts: "ts = t # ts'" and R: "R t u"
    and rest: "list_all2 R ts' us"
    by (cases ts) auto
  obtain r1 s1 where h: "f u s = (r1, s1)" by (cases "f u s")
  from Cons.prems(2) h obtain y where r1: "r1 = Inr y" by (cases r1) auto
  obtain r2 s2 where m: "mapM_st f us s1 = (r2, s2)" by (cases "mapM_st f us s1")
  from Cons.prems(2) h r1 m obtain ys' where r2: "r2 = Inr ys'" and ys: "ys = y # ys'"
    and s2: "s2 = s'"
    by (cases r2) auto
  have a: "memo_extends s s1" "P s1 t y" using step [OF R] h r1 by blast+
  have b: "memo_extends s1 s'" "list_all2 (P s') ts' ys'"
    using Cons.IH [OF rest, of s1 ys'] m r2 s2 by simp_all
  show ?case
    using a b mono [of s1 t y s'] memo_extends_trans [OF a(1) b(1)] by (simp add: ys ts)
qed

lemma mapM_err_reciprocal:
  "mapM_err reciprocal jacs = Inr invs \<Longrightarrow> list_all well_formed jacs
   \<Longrightarrow> list_all2 reciprocal_of (zip groups (zip jacs v)) (zip groups (zip invs v))"
proof (induction jacs arbitrary: invs groups v)
  case Nil
  then show ?case by simp
next
  case (Cons jac jacs)
  from Cons.prems(1) obtain jac_inv invs' where i: "invs = jac_inv # invs'"
    and r: "reciprocal jac = Inr jac_inv" and rest: "mapM_err reciprocal jacs = Inr invs'"
    by (auto split: sum.splits)
  show ?case
  proof (cases groups)
    case Nil
    then show ?thesis by simp
  next
    case g: (Cons grp groups')
    show ?thesis
    proof (cases v)
      case Nil
      then show ?thesis by simp
    next
      case (Cons x v')
      then show ?thesis
        using Cons.IH [OF rest, of groups' v'] Cons.prems(2) r
        by (simp add: g i reciprocal_of_def)
    qed
  qed
qed

text \<open>
  C2.  When \<open>inverse_mass\<close> returns for a DOF array (the area elements being arrays with as
  many entries as their shape says), its result has one array per element group of the
  volume discretization, and no entry of the area elements used is zero.  If every group is
  affine, the array of a group is the cached reference inverse mass matrix of the group
  applied to the group's values divided by the area element; otherwise (some group is not
  affine) it is \<open>ref_Minv * ref_M * (1/jac) * ref_Minv\<close> applied to the group's values, with the
  cached reference mass and inverse mass matrices of the group and the area element \<open>jac\<close>.
  An object array is taken entry by entry.
\<close>

theorem inverse_mass_affine_or_weight_adjusted:
  assumes "discr_from_dd dc DD_VOLUME = Inr groups"
      and "list_all well_formed (area_element dc DD_VOLUME)"
      and "inverse_mass X dc (DOFArray v) s = (Inr r, s')"
  shows "(\<exists>data. r = DOFArray data \<and>
            list_all2
              (if list_all is_affine groups then affine_group_result s' else wadg_group_result s')
              (zip groups (zip (area_element dc DD_VOLUME) v)) data)
         \<and> inverse_mass X dc (ObjArray sh xs) t
             = obj_array_vectorize_st (\<lambda>el. inverse_mass X dc el) sh xs t"
proof -
  let ?f = "if \<not> list_all is_affine groups then wadg_group X else inverse_mass_group X"
  let ?ts = "zip groups (zip (area_element dc DD_VOLUME) v)"
  obtain c where c: "mapM_err reciprocal (area_element dc DD_VOLUME) = c"
    by simp
  from assms(1,3) c obtain invs where invs: "c = Inr invs"
    by (cases c) (auto simp: apply_inverse_mass_operator_def dof_data_def Let_def)
  let ?us = "zip groups (zip invs v)"
  obtain r1 s1 where m: "mapM_st ?f ?us s = (r1, s1)" by (cases "mapM_st ?f ?us s")
  from assms(1,3) c invs m obtain data where r1: "r1 = Inr data" and r: "r = DOFArray data"
    and s1: "s1 = s'"
    by (cases r1) (auto simp: apply_inverse_mass_operator_def dof_data_def Let_def)
  have rel: "list_all2 reciprocal_of ?ts ?us"
    using mapM_err_reciprocal [OF _ assms(2)] c invs by simp
  have "\<exists>data. r = DOFArray data \<and>
          list_all2
            (if list_all is_affine groups then affine_group_result s' else wadg_group_result s')
            ?ts data"
  proof (cases "list_all is_affine groups")
    case True
    have "list_all2 (affine_group_result s') ?ts data"
      using mapM_st_invariant [of reciprocal_of "inverse_mass_group X" affine_group_result
                                  ?ts ?us s data s',
                               OF inverse_mass_group_result affine_group_result_mono rel]
        m r1 s1 True by simp
    then show ?thesis using r True by simp
  next
    case False
    have "list_all2 (wadg_group_result s') ?ts data"
      using mapM_st_invariant [of reciprocal_of "wadg_group X" wadg_group_result
                                  ?ts ?us s data s',
                               OF wadg_group_result wadg_group_result_mono rel]
        m r1 s1 False by simp
    then show ?thesis using r False by simp
  qed
  then show ?thesis by simp
qed

lemma inverse_mass_zero_area_element:
  "fst (inverse_mass example_numerics example_degenerate_dcoll
          (DOFArray [NDArray [1, 2] [3, 4]]) empty_context) = Inl NotFinite"
  by (simp add: example_defs inverse_mass_defs Let_def)

theorem inverse_mass_affine_or_weight_adjusted_witness:
  "fst (inverse_mass example_numerics example_mesh_dcoll (DOFArray [NDArray [2, 2] [3, 4, 5, 6]])
          empty_context)
     = Inr (DOFArray [NDArray [2, 2] [1, 5 / 2, 1, 7 / 4]])
   \<and> list_all2
        (affine_group_result
           (snd (inverse_mass example_numerics example_mesh_dcoll
                   (DOFArray [NDArray [2, 2] [3, 4, 5, 6]]) empty_context)))
        [(example_group\<lparr>grp_nelements := 2\<rparr>, NDArray [2, 2] [2, 2, 4, 4],
          NDArray [2, 2] [3, 4, 5, 6])]
        [NDArray [2, 2] [1, 5 / 2, 1, 7 / 4]]
   \<and> scaled_inverse_mass (NDArray [2, 2] [2, - 1, - 1, 2]) (NDArray [2, 2] [2, 2, 4, 4])
        (NDArray [2, 2] [3, 4, 5, 6]) 1 1 = 7 / 4
   \<and> fst (inverse_mass example_numerics example_curved_dcoll
            (DOFArray [NDArray [1, 2] [3, 4]]) empty_context)
     = Inr (DOFArray [NDArray [1, 2] [1, 5 / 4]])
   \<and> list_all2
        (wadg_group_result
           (snd (inverse_mass example_numerics example_curved_dcoll
                   (DOFArray [NDArray [1, 2] [3, 4]]) empty_context)))
        [(example_group\<lparr>is_affine := False\<rparr>, NDArray [1, 2] [2, 4], NDArray [1, 2] [3, 4])]
        [NDArray [1, 2] [1, 5 / 4]]
   \<and> weight_adjusted_inverse (NDArray [2, 2] [2, - 1, - 1, 2])
        (NDArray [2, 2] [2 / 3, 1 / 3, 1 / 3, 2 / 3]) (NDArray [1, 2] [2, 4])
        (NDArray [1, 2] [3, 4]) 0 1 = 5 / 4"
proof -
  let ?va = "[NDArray [2, 2] [3, 4, 5, 6]]"
  let ?ra = "DOFArray [NDArray [2, 2] [1, 5 / 2, 1, 7 / 4]]"
  let ?vc = "[NDArray [1, 2] [3, 4]]"
  let ?rc = "DOFArray [NDArray [1, 2] [1, 5 / 4]]"
  let ?a = "inverse_mass example_numerics example_mesh_dcoll (DOFArray ?va) empty_context"
  let ?c = "inverse_mass example_numerics example_curved_dcoll (DOFArray ?vc) empty_context"
  have a: "fst ?a = Inr ?ra"
    by (simp add: example_defs inverse_mass_defs Let_def upt_conv_Cons eval_nat_numeral)
  have c: "fst ?c = Inr ?rc"
    by (simp add: example_defs inverse_mass_defs Let_def upt_conv_Cons eval_nat_numeral)
  have da: "discr_from_dd example_mesh_dcoll DD_VOLUME = Inr [example_group\<lparr>grp_nelements := 2\<rparr>]"
    by (simp add: example_defs)
  have dc: "discr_from_dd example_curved_dcoll DD_VOLUME
              = Inr [example_group\<lparr>is_affine := False\<rparr>]"
    by (simp add: example_defs)
  have wa: "list_all well_formed (area_element example_mesh_dcoll DD_VOLUME)"
    by (simp add: example_defs well_formed_def)
  have wc: "list_all well_formed (area_element example_curved_dcoll DD_VOLUME)"
    by (simp add: example_defs well_formed_def)
  have ra: "?a = (Inr ?ra, snd ?a)"
    using a by (simp add: prod_eq_iff)
  have rc: "?c = (Inr ?rc, snd ?c)"
    using c by (simp add: prod_eq_iff)
  have fa: "scaled_inverse_mass (NDArray [2, 2] [2, - 1, - 1, 2]) (NDArray [2, 2] [2, 2, 4, 4])
              (NDArray [2, 2] [3, 4, 5, 6]) 1 1 = 7 / 4"
    by (simp add: scaled_inverse_mass_def matvec_def at2_def upt_conv_Cons eval_nat_numeral)
  have fc: "weight_adjusted_inverse (NDArray [2, 2] [2, - 1, - 1, 2])
              (NDArray [2, 2] [2 / 3, 1 / 3, 1 / 3, 2 / 3]) (NDArray [1, 2] [2, 4])
              (NDArray [1, 2] [3, 4]) 0 1 = 5 / 4"
    by (simp add: weight_adjusted_inverse_def matvec_def at2_def upt_conv_Cons eval_nat_numeral)
  have ae: "area_element example_mesh_dcoll DD_VOLUME = [NDArray [2, 2] [2, 2, 4, 4]]"
    "area_element example_curved_dcoll DD_VOLUME = [NDArray [1, 2] [2, 4]]"
    by (simp_all add: example_defs)
  show ?thesis
    using inverse_mass_affine_or_weight_adjusted [OF da wa ra]
      inverse_mass_affine_or_weight_adjusted [OF dc wc rc]
      a c fa fc ae
    by (simp add: example_group_def)
qed
section \<open>The inverse mass contractor\<close>

lemma imc_inner_sum_sound:
  assumes "\<And>c k r n. c \<in> set cs \<Longrightarrow> imc_inner c k = Inr (r, n)
             \<Longrightarrow> pushed_inward c r \<and> n = k + counted_extra_operators c"
      and "imc_inner_sum cs k = Inr (rs, n)"
  shows "list_all2 pushed_inward cs rs \<and> n = k + sum_list (map counted_extra_operators cs)"
  using assms
proof (induction cs arbitrary: k rs n)
  case Nil
  then show ?case by simp
next
  case (Cons c cs)
  from Cons.prems(2) obtain c' k' cs' where h: "imc_inner c k = Inr (c', k')"
    and t: "imc_inner_sum cs k' = Inr (cs', n)" and rs: "rs = c' # cs'"
    by (auto split: sum.splits prod.splits)
  have a: "pushed_inward c c' \<and> k' = k + counted_extra_operators c"
    using Cons.prems(1) [of c k c' k'] h by simp
  have b: "list_all2 pushed_inward cs cs' \<and> n = k' + sum_list (map counted_extra_operators cs)"
    using Cons.IH [of k' cs' n] Cons.prems(1) t by simp
  show ?case using a b rs by simp
qed

lemma imc_inner_product_sound:
  assumes "\<And>c k r n. c \<in> set cs \<Longrightarrow> imc_inner c k = Inr (r, n)
             \<Longrightarrow> pushed_inward c r \<and> n = k + counted_extra_operators c"
      and "imc_inner_product cs k = Inr (rs, n)"
  shows "list_all2 (\<lambda>c r. is_scalar c \<and> r = c \<or> \<not> is_scalar c \<and> pushed_inward c r) cs rs
         \<and> n = k + sum_list (map (\<lambda>ch. if is_scalar ch then 0 else counted_extra_operators ch) cs)"
  using assms
proof (induction cs arbitrary: k rs n)
  case Nil
  then show ?case by simp
next
  case (Cons c cs)
  show ?case
  proof (cases "is_scalar c")
    case True
    from Cons.prems(2) True obtain cs' where t: "imc_inner_product cs k = Inr (cs', n)"
      and rs: "rs = c # cs'"
      by (auto split: sum.splits prod.splits)
    show ?thesis
      using Cons.IH [of k cs' n] Cons.prems(1) t True rs by simp
  next
    case False
    from Cons.prems(2) False obtain c' k' cs' where h: "imc_inner c k = Inr (c', k')"
      and t: "imc_inner_product cs k' = Inr (cs', n)" and rs: "rs = c' # cs'"
      by (auto split: sum.splits prod.splits)
    have a: "pushed_inward c c' \<and> k' = k + counted_extra_operators c"
      using Cons.prems(1) [of c k c' k'] h by simp
    show ?thesis
      using Cons.IH [of k' cs' n] Cons.prems(1) t a False rs by simp
  qed
qed

lemma imc_inner_sound:
  "imc_inner field k = Inr (r, n)
   \<Longrightarrow> pushed_inward field r \<and> n = k + counted_extra_operators field"
proof (induction field arbitrary: k r n)
  case (Constant c)
  then show ?case
    by (auto split: if_splits intro: pushed_inward.intros)
next
  case (Variable x1 x2)
  then show ?case by (auto intro: pushed_inward.intros)
next
  case (ScalarParameter x)
  then show ?case by (auto intro: pushed_inward.intros)
next
  case (Sum cs)
  from Sum.prems obtain cs' where s: "imc_inner_sum cs k = Inr (cs', n)" and r: "r = Sum cs'"
    by (auto split: sum.splits prod.splits)
  show ?case
    using imc_inner_sum_sound [OF _ s] Sum.IH r
    by (auto intro: pushed_inward.sum_terms)
next
  case (Product cs)
  show ?case
  proof (cases "1 < length (filter (\<lambda>ch. \<not> is_scalar ch) cs)")
    case True
    then show ?thesis
      using Product.prems
      by (auto split: sum.splits simp: InverseMassContractor_def
               intro!: pushed_inward.kept_product)
  next
    case False
    from Product.prems False obtain cs' where s: "imc_inner_product cs k = Inr (cs', n)"
      and r: "r = Product cs'"
      by (auto split: sum.splits prod.splits)
    show ?thesis
      using imc_inner_product_sound [OF _ s] Product.IH r False
      by (auto intro!: pushed_inward.product_factors)
  qed
next
  case (OperatorBinding opr f)
  then show ?case
    by (cases opr)
       (auto split: sum.splits if_splits simp: InverseMassContractor_def
             intro: pushed_inward.intros)
qed


lemma imc_inner_sum_complete:
  "list_all2 (\<lambda>c r. \<forall>k. imc_inner c k = Inr (r, k + counted_extra_operators c)) cs rs
   \<Longrightarrow> imc_inner_sum cs k = Inr (rs, k + sum_list (map counted_extra_operators cs))"
  by (induction cs rs arbitrary: k rule: list_all2_induct) (simp_all add: add.assoc)

lemma imc_inner_product_complete:
  "list_all2 (\<lambda>c r. is_scalar c \<and> r = c
                   \<or> \<not> is_scalar c \<and> (\<forall>k. imc_inner c k = Inr (r, k + counted_extra_operators c)))
     cs rs
   \<Longrightarrow> imc_inner_product cs k
       = Inr (rs, k + sum_list (map (\<lambda>ch. if is_scalar ch then 0 else counted_extra_operators ch) cs))"
  by (induction cs rs arbitrary: k rule: list_all2_induct) (auto simp: add.assoc)

lemma imc_inner_complete:
  "pushed_inward field r \<Longrightarrow> imc_inner field k = Inr (r, k + counted_extra_operators field)"
proof (induction arbitrary: k rule: pushed_inward.induct)
  case (kept_binding opr f b')
  then show ?case
    by (cases opr) (simp_all add: InverseMassContractor_def)
next
  case (sum_terms cs rs)
  have "list_all2 (\<lambda>c r. \<forall>k. imc_inner c k = Inr (r, k + counted_extra_operators c)) cs rs"
    using sum_terms by (simp add: list_all2_conv_all_nth)
  then show ?case
    by (simp add: imc_inner_sum_complete)
next
  case (product_factors cs rs)
  have "list_all2 (\<lambda>c r. is_scalar c \<and> r = c
                   \<or> \<not> is_scalar c \<and> (\<forall>k. imc_inner c k = Inr (r, k + counted_extra_operators c)))
          cs rs"
    using product_factors(2) by (auto simp: list_all2_conv_all_nth)
  then show ?case
    using product_factors(1) by (simp add: imc_inner_product_complete)
qed (simp_all add: InverseMassContractor_def)

text \<open>
  C3 (as amended).  The inner contractor returns a result and a count for a field exactly
  when the result is the pushed-inward form of the field and the count is the number of
  operator bindings and products in the field that keep an inverse mass operator
  (\<open>counted_extra_operators\<close>).  For an inverse mass operator bound to a field,
  \<open>InverseMassContractor\<close> returns that pushed-inward form when the count is at most one, and
  the inverse mass operator applied to the field rewritten by \<open>InverseMassContractor\<close> itself
  when the count is more than one.  An error of either mapper is passed on.
\<close>

theorem inverse_mass_contractor_threshold:
  "(InnerInverseMassContractor field = Inr (proposed_result, extra_operator_count)
      \<longleftrightarrow> pushed_inward field proposed_result
          \<and> extra_operator_count = counted_extra_operators field)
   \<and> InverseMassContractor (OperatorBinding (InverseMassOperator dd_in dd_out) field) =
       (case InnerInverseMassContractor field of
          Inl err \<Rightarrow> Inl err
        | Inr (proposed_result, extra_operator_count) \<Rightarrow>
            if counted_extra_operators field \<le> 1 then Inr proposed_result
            else (case InverseMassContractor field of
                    Inl err \<Rightarrow> Inl err
                  | Inr field' \<Rightarrow> Inr (op_call (InverseMassOperator dd_in dd_out) field')))"
proof -
  have a: "InnerInverseMassContractor field = Inr (proposed_result, extra_operator_count)
           \<longleftrightarrow> pushed_inward field proposed_result
               \<and> extra_operator_count = counted_extra_operators field"
    using imc_inner_sound [of field 0 proposed_result extra_operator_count]
      imc_inner_complete [of field proposed_result 0]
    by (auto simp: InnerInverseMassContractor_def)
  have b: "InverseMassContractor (OperatorBinding (InverseMassOperator dd_in dd_out) field) =
       (case InnerInverseMassContractor field of
          Inl err \<Rightarrow> Inl err
        | Inr (proposed_result, extra_operator_count) \<Rightarrow>
            if counted_extra_operators field \<le> 1 then Inr proposed_result
            else (case InverseMassContractor field of
                    Inl err \<Rightarrow> Inl err
                  | Inr field' \<Rightarrow> Inr (op_call (InverseMassOperator dd_in dd_out) field')))"
  proof (cases "imc_inner field 0")
    case (Inl err)
    then show ?thesis
      by (simp add: InverseMassContractor_def InnerInverseMassContractor_def)
  next
    case (Inr p)
    obtain r n where p: "p = (r, n)" by (cases p)
    have "n = counted_extra_operators field"
      using imc_inner_sound [of field 0 r n] Inr p by simp
    then show ?thesis
      using Inr p
      by (auto simp: InverseMassContractor_def InnerInverseMassContractor_def)
  qed
  show ?thesis using a b by blast
qed

text \<open>
  The count is not the number of operator applications that the contraction adds: for the
  sum of three variables the contracted form holds three inverse mass operators, two more
  than the unoptimized form, the count is zero, and the contracted form is returned.
\<close>

theorem inverse_mass_contractor_sum_counterexample:
  "InverseMassContractor
     (OperatorBinding (InverseMassOperator DD_VOLUME DD_VOLUME) example_three_fields)
   = Inr (Sum [OperatorBinding (InverseMassOperator DD_VOLUME DD_VOLUME) (Variable ''u'' DD_VOLUME),
               OperatorBinding (InverseMassOperator DD_VOLUME DD_VOLUME) (Variable ''v'' DD_VOLUME),
               OperatorBinding (InverseMassOperator DD_VOLUME DD_VOLUME) (Variable ''w'' DD_VOLUME)])
   \<and> InverseMassContractor example_three_fields = Inr example_three_fields
   \<and> operator_applications
        (Sum [OperatorBinding (InverseMassOperator DD_VOLUME DD_VOLUME) (Variable ''u'' DD_VOLUME),
              OperatorBinding (InverseMassOperator DD_VOLUME DD_VOLUME) (Variable ''v'' DD_VOLUME),
              OperatorBinding (InverseMassOperator DD_VOLUME DD_VOLUME) (Variable ''w'' DD_VOLUME)])
     = operator_applications
         (OperatorBinding (InverseMassOperator DD_VOLUME DD_VOLUME) example_three_fields) + 2
   \<and> InverseMassContractor
        (OperatorBinding (InverseMassOperator DD_VOLUME DD_VOLUME) example_three_fields)
     \<noteq> Inr (OperatorBinding (InverseMassOperator DD_VOLUME DD_VOLUME) example_three_fields)"
  by (simp add: InverseMassContractor_def example_three_fields_def)

theorem inverse_mass_contractor_threshold_witness:
  "InnerInverseMassContractor (OperatorBinding (MassOperator DD_VOLUME DD_VOLUME) example_u)
     = Inr (example_u, 0)
   \<and> pushed_inward (OperatorBinding (MassOperator DD_VOLUME DD_VOLUME) example_u) example_u
   \<and> InverseMassContractor
        (OperatorBinding (InverseMassOperator DD_VOLUME DD_VOLUME)
           (OperatorBinding (MassOperator DD_VOLUME DD_VOLUME) example_u))
     = Inr example_u
   \<and> counted_extra_operators (OperatorBinding (DiffOperator 0 DD_VOLUME DD_VOLUME) example_u) = 1
   \<and> InverseMassContractor
        (OperatorBinding (InverseMassOperator DD_VOLUME DD_VOLUME)
           (OperatorBinding (DiffOperator 0 DD_VOLUME DD_VOLUME) example_u))
     = Inr (OperatorBinding (InverseMassOperator DD_VOLUME DD_VOLUME)
              (OperatorBinding (DiffOperator 0 DD_VOLUME DD_VOLUME) example_u))
   \<and> counted_extra_operators example_two_derivatives = 2
   \<and> InverseMassContractor
        (OperatorBinding (InverseMassOperator DD_VOLUME DD_VOLUME) example_two_derivatives)
     = Inr (OperatorBinding (InverseMassOperator DD_VOLUME DD_VOLUME) example_two_derivatives)"
proof -
  have i: "InnerInverseMassContractor (OperatorBinding (MassOperator DD_VOLUME DD_VOLUME) example_u)
             = Inr (example_u, 0)"
    by (simp add: InnerInverseMassContractor_def)
  note t = inverse_mass_contractor_threshold
  show ?thesis
    using i
      t [of "OperatorBinding (MassOperator DD_VOLUME DD_VOLUME) example_u" example_u 0
            DD_VOLUME DD_VOLUME]
      t [of "OperatorBinding (DiffOperator 0 DD_VOLUME DD_VOLUME) example_u" example_u 0
            DD_VOLUME DD_VOLUME]
      t [of example_two_derivatives example_u 0 DD_VOLUME DD_VOLUME]
    by (simp add: InverseMassContractor_def InnerInverseMassContractor_def op_call_def
        example_u_def example_two_derivatives_def)
qed
section \<open>The face mass rewrite of the global-to-reference mapper\<close>

text \<open>
  C4.  A face mass operator bound to a field is rewritten to the reference face mass operator
  with the same descriptors, applied to the product of the negated area element of dimension
  \<open>dim - 1\<close> on the operator's input descriptor and the rewritten field.
\<close>

theorem face_mass_to_reference:
  "GlobalToReferenceMapper E ambient_dim ndim
     (OperatorBinding (FaceMassOperator dd_in dd_out) field)
   = op_call (RefFaceMassOperator dd_in dd_out)
       (e_mul E (e_neg E (sym_area_element E ambient_dim (ndim - 1) dd_in))
          (GlobalToReferenceMapper E ambient_dim ndim field))"
  by (simp add: Let_def)

theorem face_mass_to_reference_witness:
  "GlobalToReferenceMapper example_sym_env 2 2
     (OperatorBinding (FaceMassOperator (DOFDesc FACE_RESTR_ALL DISCR_TAG_BASE) DD_VOLUME)
        (OperatorBinding (MassOperator DD_VOLUME DD_VOLUME) example_u))
   = OperatorBinding (RefFaceMassOperator (DOFDesc FACE_RESTR_ALL DISCR_TAG_BASE) DD_VOLUME)
       (Product
          [Product [Constant (- 1),
                    Variable ''surface_area_element'' (DOFDesc FACE_RESTR_ALL DISCR_TAG_BASE)],
           OperatorBinding (RefMassOperator DD_VOLUME DD_VOLUME)
             (Product [Variable ''area_element'' DD_VOLUME, example_u])])"
  using face_mass_to_reference
          [of example_sym_env 2 2 "DOFDesc FACE_RESTR_ALL DISCR_TAG_BASE" DD_VOLUME
              "OperatorBinding (MassOperator DD_VOLUME DD_VOLUME) example_u"]
  by (simp add: example_sym_env_def example_u_def op_call_def Let_def)
section \<open>The cache of reference matrices\<close>

text \<open>
  C5.  The face mass matrix is memoized under the identifier of the mass matrix.  On a fresh
  cache, asking for the mass matrix of a face group and a volume group and then for their
  face mass matrix returns the cached mass matrix, the same frozen object, of shape
  \<open>(1, 2)\<close>; asked first, the face mass matrix is an array of shape \<open>(2, 2, 1)\<close>.
\<close>

theorem face_mass_request_returns_cached_mass_matrix:
  "(case reference_mass_matrix example_numerics example_face_group example_group empty_context of
      (r1, s1) \<Rightarrow>
        (r1, fst (reference_face_mass_matrix example_numerics example_face_group example_group
                    ''float64'' s1)))
   = (Inr \<lparr>oid = 0, arr = NDArray [1, 2] [1, 1]\<rparr>, Inr \<lparr>oid = 0, arr = NDArray [1, 2] [1, 1]\<rparr>)
   \<and> fst (reference_face_mass_matrix example_numerics example_face_group example_group
            ''float64'' empty_context)
     = Inr \<lparr>oid = 0, arr = NDArray [2, 2, 1] [1, 0, 0, 1]\<rparr>"
  by (simp add: example_defs refmat_defs Let_def upt_conv_Cons eval_nat_numeral)

section \<open>Scalars and object arrays in the operators\<close>

lemma dof_data_Num [simp]: "dof_data a (Num x) = Inl (AttributeError a)"
  by (simp add: dof_data_def)

lemma dof_data_ObjArray [simp]: "dof_data a (ObjArray sh xs) = Inl (AttributeError a)"
  by (simp add: dof_data_def)

lemma apply_mass_operator_no_dof:
  "dof_data ''array_context'' vec = Inl e \<Longrightarrow> isl (fst (apply_mass_operator X dc dd_out dd_in vec s))"
  by (simp add: apply_mass_operator_def split: sum.splits)

lemma apply_inverse_mass_operator_no_dof:
  "dof_data ''array_context'' vec = Inl e
   \<Longrightarrow> isl (fst (apply_inverse_mass_operator X dc dd_out dd_in vec s))"
  by (simp add: apply_inverse_mass_operator_def Let_def split: sum.splits)

lemma apply_face_mass_operator_no_dof:
  "dof_data ''entry_dtype'' vec = Inl e \<Longrightarrow> isl (fst (apply_face_mass_operator X dc dd vec s))"
  by (simp add: apply_face_mass_operator_def split: sum.splits)

lemma compute_local_gradient_no_dof:
  "dof_data ''array_context'' vec = Inl e \<Longrightarrow> isl (fst (compute_local_gradient X dc vec a s))"
  by (simp add: compute_local_gradient_def split: sum.splits)

lemma apply_stiffness_transpose_operator_no_dof:
  "dof_data ''array_context'' vec = Inl e
   \<Longrightarrow> isl (fst (apply_stiffness_transpose_operator X dc dd_out dd_in vec a s))"
  by (simp add: apply_stiffness_transpose_operator_def split: sum.splits)

lemma per_axis_array_first_fails:
  assumes "0 < n" and "isl (fst (f 0 s))"
  shows "isl (fst (per_axis_array f n s))"
proof -
  have "[0..<n] = 0 # [Suc 0..<n]"
    using assms(1) by (simp add: upt_conv_Cons)
  then show ?thesis
    using assms(2) by (cases "f 0 s") (auto simp: per_axis_array_def isl_def)
qed

text \<open>
  C6 (as amended).  No operator returns a plain number unchanged: \<open>mass\<close>, \<open>inverse_mass\<close>
  and \<open>face_mass\<close> raise on a number, \<open>local_div\<close> and \<open>weak_local_div\<close> raise the type error
  of an argument that is not an object array, and in a positive dimension \<open>local_grad\<close> and
  \<open>weak_local_grad\<close> raise on a number and on an object array.  On an object array \<open>mass\<close>,
  \<open>inverse_mass\<close> and \<open>face_mass\<close> apply themselves to every entry.
\<close>

theorem operator_dispatch:
  "isl (fst (mass X dc (Args1 (Num x)) s))
   \<and> isl (fst (mass X dc (Args2 dd (Num x)) s))
   \<and> isl (fst (inverse_mass X dc (Num x) s))
   \<and> isl (fst (face_mass X dc (Args1 (Num x)) s))
   \<and> isl (fst (face_mass X dc (Args2 dd (Num x)) s))
   \<and> local_div X dc (Num x) s = (Inl (TypeError ''argument must be an object array''), s)
   \<and> weak_local_div X dc (Args1 (Num x)) s
       = (Inl (TypeError ''argument must be an object array''), s)
   \<and> weak_local_div X dc (Args2 dd (Num x)) s
       = (Inl (TypeError ''argument must be an object array''), s)
   \<and> (0 < dc_dim dc \<longrightarrow>
        isl (fst (local_grad X dc (Num x) s))
      \<and> isl (fst (weak_local_grad X dc (Args1 (Num x)) s))
      \<and> isl (fst (weak_local_grad X dc (Args2 dd (Num x)) s))
      \<and> isl (fst (local_grad X dc (ObjArray sh xs) s))
      \<and> isl (fst (weak_local_grad X dc (Args1 (ObjArray sh xs)) s))
      \<and> isl (fst (weak_local_grad X dc (Args2 dd (ObjArray sh xs)) s)))
   \<and> mass X dc (Args1 (ObjArray sh xs)) s
       = obj_array_vectorize_st
           (\<lambda>el. mass X dc (Args2 (DOFDesc DTAG_VOLUME_ALL QTAG_NONE) el)) sh xs s
   \<and> mass X dc (Args2 dd (ObjArray sh xs)) s
       = obj_array_vectorize_st (\<lambda>el. mass X dc (Args2 dd el)) sh xs s
   \<and> inverse_mass X dc (ObjArray sh xs) s
       = obj_array_vectorize_st (\<lambda>el. inverse_mass X dc el) sh xs s
   \<and> face_mass X dc (Args1 (ObjArray sh xs)) s
       = obj_array_vectorize_st
           (\<lambda>el. face_mass X dc (Args2 (DOFDesc FACE_RESTR_ALL QTAG_NONE) el)) sh xs s
   \<and> face_mass X dc (Args2 dd (ObjArray sh xs)) s
       = obj_array_vectorize_st (\<lambda>el. face_mass X dc (Args2 dd el)) sh xs s"
proof -
  have m: "(\<lambda>el. mass X dc (Args2 d el)) = (\<lambda>el u. mass_vec X dc d el u)" for d
    by (simp add: mass_def fun_eq_iff)
  have f: "(\<lambda>el. face_mass X dc (Args2 d el)) = (\<lambda>el u. face_mass_vec X dc d el u)" for d
    by (simp add: face_mass_def fun_eq_iff)
  have g: "0 < dc_dim dc \<Longrightarrow> isl (fst (local_grad X dc v s))"
    if "dof_data ''array_context'' v = Inl e" for v e
    unfolding local_grad_def
    by (rule per_axis_array_first_fails) (simp_all add: compute_local_gradient_no_dof [OF that])
  have w: "0 < dc_dim dc \<Longrightarrow> isl (fst (weak_local_grad X dc (Args2 d v) s))"
    "0 < dc_dim dc \<Longrightarrow> isl (fst (weak_local_grad X dc (Args1 v) s))"
    if "dof_data ''array_context'' v = Inl e" for v e d
    unfolding weak_local_grad_def
    by (simp_all add: per_axis_array_first_fails apply_stiffness_transpose_operator_no_dof [OF that])
  show ?thesis
    by (simp add: mass_def face_mass_def m f g w local_div_def weak_local_div_def div_helper_def
        apply_mass_operator_no_dof apply_inverse_mass_operator_no_dof
        apply_face_mass_operator_no_dof)
qed

text \<open>
  The mass operator on the number \<open>1\<close> raises, where a pass-through would return \<open>1\<close>; the
  gradient of an object array raises, where an elementwise recursion would return the
  gradients of its entry.
\<close>

theorem mass_scalar_counterexample:
  "fst (mass example_numerics example_dcoll (Args1 (Num 1)) empty_context)
     = Inl (AttributeError ''array_context'')
   \<and> fst (local_grad example_numerics example_dcoll
            (ObjArray [1] [DOFArray [NDArray [1, 2] [3, 4]]]) empty_context)
     = Inl (AttributeError ''array_context'')"
  by (simp add: example_defs apply_defs local_grad_def per_axis_array_def
      compute_local_gradient_def upt_conv_Cons)

theorem operator_dispatch_witness:
  "0 < dc_dim example_dcoll
   \<and> isl (fst (local_grad example_numerics example_dcoll (Num 1) empty_context))
   \<and> isl (fst (inverse_mass example_numerics example_dcoll (Num 1) empty_context))
   \<and> fst (mass example_numerics example_dcoll
            (Args1 (ObjArray [1] [DOFArray [NDArray [1, 2] [3, 4]]])) empty_context)
     = Inr (ObjArray [1] [DOFArray [NDArray [1, 2] [20 / 3, 22 / 3]]])"
proof -
  have d: "0 < dc_dim example_dcoll"
    by (simp add: example_dcoll_def)
  note t = operator_dispatch [of example_numerics example_dcoll 1 empty_context DD_VOLUME
      "[1]" "[DOFArray [NDArray [1, 2] [3, 4]]]"]
  have v: "fst (obj_array_vectorize_st
                 (\<lambda>el. mass example_numerics example_dcoll
                          (Args2 (DOFDesc DTAG_VOLUME_ALL QTAG_NONE) el))
                 [1] [DOFArray [NDArray [1, 2] [3, 4]]] empty_context)
             = Inr (ObjArray [1] [DOFArray [NDArray [1, 2] [20 / 3, 22 / 3]]])"
    by (simp add: example_defs apply_defs Let_def upt_conv_Cons eval_nat_numeral)
  show ?thesis
    using t d v by simp
qed

section \<open>Constant folding\<close>

lemma ccfm_fold_fixed:
  "(\<And>x. x \<in> set xs \<Longrightarrow> ccfm_rec x = x \<and> \<not> is_instance x k) \<Longrightarrow>
   ccfm_fold k xs cs ns = (cs @ List.map_filter cval xs, ns @ filter (\<lambda>x. cval x = None) xs)"
proof (induction xs arbitrary: cs ns)
  case Nil
  then show ?case by (simp add: List.map_filter_simps)
next
  case (Cons x xs)
  have x: "ccfm_rec x = x" "\<not> is_instance x k"
    using Cons.prems [of x] by simp_all
  have IH: "\<And>cs ns. ccfm_fold k xs cs ns
              = (cs @ List.map_filter cval xs, ns @ filter (\<lambda>x. cval x = None) xs)"
    using Cons.IH Cons.prems by simp
  show ?case
    by (cases "is_constant x"; cases "evaluate x")
       (simp_all add: x IH Let_def cval_def [of x] List.map_filter_simps)
qed

lemma flatten_sum_queue_plain:
  "(\<And>x. x \<in> set q \<Longrightarrow> \<not> is_instance x Sum_class) \<Longrightarrow>
   flatten_sum_queue q d = d @ filter (\<lambda>x. \<not> is_zero x) q"
  by (induction q arbitrary: d) simp_all

lemma flatten_product_queue_plain:
  "(\<And>x. x \<in> set q \<Longrightarrow> \<not> is_instance x Product_class) \<Longrightarrow>
   flatten_product_queue q d = d @ filter (\<lambda>x. \<not> is_one x) q"
  by (induction q arbitrary: d) simp_all

lemma cval_Constant [simp]: "cval (Constant c) = Some c"
  by (simp add: cval_def is_constant_def)

lemma is_zero_cval: "is_zero x \<Longrightarrow> cval x \<noteq> None"
  by (cases x) simp_all

lemma is_one_cval: "is_one x \<Longrightarrow> cval x \<noteq> None"
  by (cases x) simp_all

lemma residue_filter_zero: "residue k ns \<Longrightarrow> filter (\<lambda>x. \<not> is_zero x) ns = ns"
  by (induction ns) (auto simp: residue_def dest: is_zero_cval)

lemma residue_filter_one: "residue k ns \<Longrightarrow> filter (\<lambda>x. \<not> is_one x) ns = ns"
  by (induction ns) (auto simp: residue_def dest: is_one_cval)

lemma residue_map_filter: "residue k ns \<Longrightarrow> List.map_filter cval ns = []"
  by (induction ns) (auto simp: residue_def List.map_filter_simps)

lemma residue_filter_None: "residue k ns \<Longrightarrow> filter (\<lambda>x. cval x = None) ns = ns"
  by (induction ns) (auto simp: residue_def)

lemma reduce_single [simp]: "reduce f [r] = r"
  by (simp add: reduce_def)

lemma residue_not_instance: "residue k ns \<Longrightarrow> x \<in> set ns \<Longrightarrow> \<not> is_instance x k"
  by (auto simp: residue_def list_all_iff)

lemma residue_fixed: "residue k ns \<Longrightarrow> x \<in> set ns \<Longrightarrow> ccfm_rec x = x"
  by (auto simp: residue_def list_all_iff)

lemma fold_finish_Sum:
  assumes "residue Sum_class ns"
  shows "fold_finish Sum_class (cs, ns) = wrap_sum (sum_items cs ns)"
proof -
  have a: "flatten_sum_queue ns [] = ns"
    using assms residue_not_instance [OF assms]
    by (simp add: flatten_sum_queue_plain residue_filter_zero [of Sum_class])
  have b: "flatten_sum_queue (Constant r # ns) [] = (if r = 0 then [] else [Constant r]) @ ns" for r
    using assms residue_not_instance [OF assms]
    by (subst flatten_sum_queue_plain) (auto simp: residue_filter_zero [of Sum_class])
  show ?thesis
    by (auto simp add: fold_finish_def flattened_sum_def wrap_sum_def sum_items_def a b
          simp del: flatten_sum_queue.simps split: list.splits)
qed

lemma fold_finish_Product:
  assumes "residue Product_class ns"
  shows "fold_finish Product_class (cs, ns) = wrap_product (product_items cs ns)"
proof -
  have a: "flatten_product_queue ns [] = ns"
    using assms residue_not_instance [OF assms]
    by (simp add: flatten_product_queue_plain residue_filter_one [of Product_class])
  have b: "flatten_product_queue (Constant r # ns) [] = (if r = 1 then [] else [Constant r]) @ ns" for r
    using assms residue_not_instance [OF assms]
    by (subst flatten_product_queue_plain) (auto simp: residue_filter_one [of Product_class])
  show ?thesis
    by (auto simp add: fold_finish_def flattened_product_def wrap_product_def product_items_def a b
          simp del: flatten_product_queue.simps split: list.splits)
qed

lemma fold_sum_items:
  assumes "residue Sum_class ns"
  shows "ccfm_fold Sum_class (sum_items cs ns) [] []
           = (if cs \<noteq> [] \<and> reduce (+) cs \<noteq> 0 then [reduce (+) cs] else [], ns)"
proof -
  have "\<And>x. x \<in> set (sum_items cs ns) \<Longrightarrow> ccfm_rec x = x \<and> \<not> is_instance x Sum_class"
    using residue_fixed [OF assms] residue_not_instance [OF assms]
    by (auto simp: sum_items_def split: if_splits)
  then have "ccfm_fold Sum_class (sum_items cs ns) [] []
               = (List.map_filter cval (sum_items cs ns), filter (\<lambda>x. cval x = None) (sum_items cs ns))"
    using ccfm_fold_fixed [of "sum_items cs ns" Sum_class "[]" "[]"] by simp
  then show ?thesis
    using residue_map_filter [OF assms] residue_filter_None [OF assms]
    by (simp add: sum_items_def List.map_filter_simps)
qed

lemma fold_product_items:
  assumes "residue Product_class ns"
  shows "ccfm_fold Product_class (product_items cs ns) [] []
           = (if cs \<noteq> [] \<and> reduce (*) cs \<noteq> 1 then [reduce (*) cs] else [], ns)"
proof -
  have "\<And>x. x \<in> set (product_items cs ns) \<Longrightarrow> ccfm_rec x = x \<and> \<not> is_instance x Product_class"
    using residue_fixed [OF assms] residue_not_instance [OF assms]
    by (auto simp: product_items_def split: if_splits)
  then have "ccfm_fold Product_class (product_items cs ns) [] []
               = (List.map_filter cval (product_items cs ns),
                  filter (\<lambda>x. cval x = None) (product_items cs ns))"
    using ccfm_fold_fixed [of "product_items cs ns" Product_class "[]" "[]"] by simp
  then show ?thesis
    using residue_map_filter [OF assms] residue_filter_None [OF assms]
    by (simp add: product_items_def List.map_filter_simps)
qed

lemma wrap_sum_fixed:
  assumes "residue Sum_class ns"
  shows "ccfm_rec (wrap_sum (sum_items cs ns)) = wrap_sum (sum_items cs ns)"
proof (cases "sum_items cs ns")
  case Nil
  then show ?thesis by (simp add: wrap_sum_def)
next
  case (Cons x xs)
  have x: "ccfm_rec x = x"
    using Cons residue_fixed [OF assms, of x]
    by (auto simp: sum_items_def split: if_splits)
  show ?thesis
  proof (cases xs)
    case Nil
    then show ?thesis using Cons x by (simp add: wrap_sum_def)
  next
    case (Cons y ys)
    have "ccfm_rec (Sum (sum_items cs ns))
            = fold_finish Sum_class
                (if cs \<noteq> [] \<and> reduce (+) cs \<noteq> 0 then [reduce (+) cs] else [], ns)"
      by (simp add: fold_sum_items [OF assms])
    also have "\<dots> = wrap_sum (sum_items cs ns)"
      by (simp add: fold_finish_Sum [OF assms] sum_items_def)
    finally show ?thesis
      using Cons \<open>sum_items cs ns = x # xs\<close> by (simp add: wrap_sum_def)
  qed
qed

lemma wrap_product_fixed:
  assumes "residue Product_class ns"
  shows "ccfm_rec (wrap_product (product_items cs ns)) = wrap_product (product_items cs ns)"
proof (cases "product_items cs ns")
  case Nil
  then show ?thesis by (simp add: wrap_product_def)
next
  case (Cons x xs)
  have x: "ccfm_rec x = x"
    using Cons residue_fixed [OF assms, of x]
    by (auto simp: product_items_def split: if_splits)
  show ?thesis
  proof (cases xs)
    case Nil
    then show ?thesis using Cons x by (simp add: wrap_product_def)
  next
    case (Cons y ys)
    have "ccfm_rec (Product (product_items cs ns))
            = fold_finish Product_class
                (if cs \<noteq> [] \<and> reduce (*) cs \<noteq> 1 then [reduce (*) cs] else [], ns)"
      by (simp add: fold_product_items [OF assms])
    also have "\<dots> = wrap_product (product_items cs ns)"
      by (simp add: fold_finish_Product [OF assms] product_items_def)
    finally show ?thesis
      using Cons \<open>product_items cs ns = x # xs\<close> by (simp add: wrap_product_def)
  qed
qed

lemma fold_finish_fixed:
  assumes "residue k ns"
  shows "ccfm_rec (fold_finish k (cs, ns)) = fold_finish k (cs, ns)"
proof (cases k)
  case Sum_class
  then show ?thesis
    using assms by (simp add: fold_finish_Sum wrap_sum_fixed)
next
  case Product_class
  then show ?thesis
    using assms by (simp add: fold_finish_Product wrap_product_fixed)
qed

lemma ccfm_idem_aux:
  "ccfm_rec (ccfm_rec e) = ccfm_rec e"
  "residue k ns \<Longrightarrow> residue k (snd (ccfm_fold k queue cs ns))"
proof (induction e and k queue cs ns rule: ccfm_rec_ccfm_fold.induct)
  case (4 cs)
  have "residue Sum_class (snd (ccfm_fold Sum_class cs [] []))"
    using 4 by (simp add: residue_def)
  then show ?case
    using fold_finish_fixed [of Sum_class "snd (ccfm_fold Sum_class cs [] [])" "fst (ccfm_fold Sum_class cs [] [])"]
    by simp
next
  case (5 cs)
  have "residue Product_class (snd (ccfm_fold Product_class cs [] []))"
    using 5 by (simp add: residue_def)
  then show ?case
    using fold_finish_fixed [of Product_class "snd (ccfm_fold Product_class cs [] [])" "fst (ccfm_fold Product_class cs [] [])"]
    by simp
next
  case (6 opr f)
  then show ?case
    by (cases "ccfm_rec f") (auto simp: Let_def op_call_def)
next
  case (8 k q queue constants nonconstants)
  show ?case
  proof (cases "is_instance (ccfm_rec q) k")
    case True
    then show ?thesis using 8 by (simp add: Let_def)
  next
    case False
    show ?thesis
    proof (cases "is_constant (ccfm_rec q)")
      case c: True
      show ?thesis
      proof (cases "evaluate (ccfm_rec q)")
        case None
        have "residue k (nonconstants @ [ccfm_rec q])"
          using 8(1) 8(6) False c None by (simp add: residue_def cval_def)
        then show ?thesis
          using 8(3) [OF refl False c None] by (simp add: Let_def False c None)
      next
        case (Some v)
        then show ?thesis
          using 8(4) [OF refl False c Some] 8(6) by (simp add: Let_def False c)
      qed
    next
      case c: False
      have "residue k (nonconstants @ [ccfm_rec q])"
        using 8(1) 8(6) False c by (simp add: residue_def cval_def)
      then show ?thesis
        using 8(5) [OF refl False c] by (simp add: Let_def False c)
    qed
  qed
qed simp_all

lemma example_zero_sum_folds:
  "CommutativeConstantFoldingMapper example_zero_sum = Constant 0"
  by (simp add: CommutativeConstantFoldingMapper_def fold_finish_def flattened_sum_def
      is_constant_def reduce_def example_zero_sum_def)

lemma example_mixed_sum_folds:
  "CommutativeConstantFoldingMapper example_mixed_sum = Sum [Constant 7, example_u]"
  by (simp add: CommutativeConstantFoldingMapper_def fold_finish_def flattened_sum_def
      is_constant_def reduce_def example_zero_sum_def example_mixed_sum_def example_u_def)

text \<open>
  C7.  An operator bound to a field that the mapper folds to zero is folded to the constant
  zero, without the operator; and folding the result of the mapper again changes nothing.
\<close>

theorem constant_folding_zero_and_idempotent:
  "(is_zero (CommutativeConstantFoldingMapper field) \<longrightarrow>
      CommutativeConstantFoldingMapper (OperatorBinding opr field) = Constant 0)
   \<and> CommutativeConstantFoldingMapper (CommutativeConstantFoldingMapper e)
       = CommutativeConstantFoldingMapper e"
  by (simp add: CommutativeConstantFoldingMapper_def ccfm_idem_aux(1))

theorem constant_folding_zero_and_idempotent_witness:
  "is_zero (CommutativeConstantFoldingMapper example_zero_sum)
   \<and> CommutativeConstantFoldingMapper
        (OperatorBinding (MassOperator DD_VOLUME DD_VOLUME) example_zero_sum) = Constant 0
   \<and> CommutativeConstantFoldingMapper example_mixed_sum = Sum [Constant 7, example_u]
   \<and> CommutativeConstantFoldingMapper (Sum [Constant 7, example_u])
       = Sum [Constant 7, example_u]"
  using constant_folding_zero_and_idempotent
          [of example_zero_sum "MassOperator DD_VOLUME DD_VOLUME" example_mixed_sum]
  by (simp add: example_zero_sum_folds example_mixed_sum_folds)
section \<open>The tag of the rank boundary exchange\<close>

text \<open>
  C8.  For an object array the caller's tag is not passed on to the exchange of its
  components: with the tag \<open>5\<close> every message of the component carries the base tag
  \<open>1273\<close>, while the same field as a single DOF array is exchanged under \<open>1278\<close>.
\<close>

theorem cross_rank_trace_pairs_drops_tag:
  "snd (cross_rank_trace_pairs example_table example_dcoll example_remote
          (ObjArray [1] [DOFArray [NDArray [1, 2] [3, 4]]]) (Some 5) [])
     = [Isend [3, 4] 1 1273, Irecv 1 1273, Wait_recv 1 1273, Wait_send 1 1273]
   \<and> snd (cross_rank_trace_pairs example_table example_dcoll example_remote
            (DOFArray [NDArray [1, 2] [3, 4]]) (Some 5) [])
     = [Isend [3, 4] 1 1278, Irecv 1 1278, Wait_recv 1 1278, Wait_send 1 1278]"
  by (simp add: example_defs comm_defs Let_def upt_conv_Cons project.simps obj_array_vectorize_def DD_VOLUME_def)

end
